theory Spec2Isabelle
  imports Main
begin

section \<open>Strings: the JavaScript string operations the handlers use\<close>

text \<open>
  JavaScript strings are modelled as \<open>string\<close> (lists of 8-bit characters), so only
  code units below 256 are represented. Among these, the characters matched by the
  regular expression class \<open>\s\<close> and stripped by \<open>String.prototype.trim\<close> are
  TAB, LF, VT, FF, CR, SPACE and NBSP (U+00A0).
\<close>

definition isWhiteSpace :: "char \<Rightarrow> bool" where
  "isWhiteSpace c \<longleftrightarrow>
     c \<in> set [CHR 0x09, CHR 0x0A, CHR 0x0B, CHR 0x0C, CHR 0x0D, CHR '' '', CHR 0xA0]"

text \<open>\<open>str.trim()\<close>: strip white space from both ends.\<close>

definition trim :: "string \<Rightarrow> string" where
  "trim s = rev (dropWhile isWhiteSpace (rev (dropWhile isWhiteSpace s)))"

text \<open>The right half of \<open>trim\<close>.\<close>

abbreviation (input) rtrim :: "string \<Rightarrow> string" where
  "rtrim t \<equiv> rev (dropWhile isWhiteSpace (rev t))"

text \<open>\<open>str.replace(/\s+/g, " ")\<close>: every maximal run of white space becomes one space.\<close>

function replace_ws_runs_space :: "string \<Rightarrow> string" where
  "replace_ws_runs_space [] = []"
| "replace_ws_runs_space (c # cs) =
     (if isWhiteSpace c then CHR '' '' # replace_ws_runs_space (dropWhile isWhiteSpace cs)
      else c # replace_ws_runs_space cs)"
  by pat_completeness auto
termination
  by (relation "measure length") (auto simp: length_dropWhile_le less_Suc_eq_le)

text \<open>\<open>str.replace(/\s+/g, "")\<close>: every white-space character is removed.\<close>

definition replace_ws_runs_empty :: "string \<Rightarrow> string" where
  "replace_ws_runs_empty s = filter (\<lambda>c. \<not> isWhiteSpace c) s"

text \<open>
  \<open>compareStrings\<close> of the \<open>/end-stream\<close> handler (the variant that also has
  \<open>/start-stream\<close>):
  \<^verbatim>\<open>
  function compareStrings(str1, str2) {
    const normalize = (str) => str.trim().replace(/\s+/g, " ");
    return normalize(str1) === normalize(str2);
  }
  \<close>
\<close>

definition normalize :: "string \<Rightarrow> string" where
  "normalize str = replace_ws_runs_space (trim str)"

definition compareStrings :: "string \<Rightarrow> string \<Rightarrow> bool" where
  "compareStrings str1 str2 \<longleftrightarrow> normalize str1 = normalize str2"

text \<open>
  What white-space normalisation means, said without \<open>trim\<close> and \<open>replace\<close>: the words
  of a string are its maximal runs of characters that are not white space, and the
  normalised string is the words joined by single spaces.
\<close>

function ws_words :: "string \<Rightarrow> string list" where
  "ws_words s =
     (case dropWhile isWhiteSpace s of
        [] \<Rightarrow> []
      | c # cs \<Rightarrow>
          (c # takeWhile (\<lambda>x. \<not> isWhiteSpace x) cs) #
            ws_words (dropWhile (\<lambda>x. \<not> isWhiteSpace x) cs))"
  by pat_completeness auto
termination
proof (relation "measure length", goal_cases)
  case 1
  then show ?case by simp
next
  case (2 s c cs)
  have "length (dropWhile (\<lambda>x. \<not> isWhiteSpace x) cs) \<le> length cs"
    by (rule length_dropWhile_le)
  moreover have "length (c # cs) \<le> length s"
    using length_dropWhile_le[of isWhiteSpace s] 2 by simp
  ultimately show ?case by simp
qed

declare ws_words.simps [simp del]

fun join_spaces :: "string list \<Rightarrow> string" where
  "join_spaces [] = []"
| "join_spaces [w] = w"
| "join_spaces (w # v # ws) = w @ CHR '' '' # join_spaces (v # ws)"

text \<open>Following the specification's words: trim, and collapse internal white-space runs to single spaces.\<close>

definition spec_normalize :: "string \<Rightarrow> string" where
  "spec_normalize s = join_spaces (ws_words s)"

definition clean_words :: "string list \<Rightarrow> bool" where
  "clean_words ws \<longleftrightarrow> list_all (\<lambda>w. w \<noteq> [] \<and> list_all (\<lambda>x. \<not> isWhiteSpace x) w) ws"

text \<open>
  \<open>str.toLowerCase()\<close> on code units below 256: A-Z and the Latin-1 capitals
  U+00C0..U+00DE (except the multiplication sign U+00D7) move up by 32.
\<close>

definition toLowerCase_char :: "char \<Rightarrow> char" where
  "toLowerCase_char c =
     (let n = (of_char c :: nat) in
      if (65 \<le> n \<and> n \<le> 90) \<or> (192 \<le> n \<and> n \<le> 222 \<and> n \<noteq> 215)
      then char_of (n + 32) else c)"

definition toLowerCase :: "string \<Rightarrow> string" where
  "toLowerCase s = map toLowerCase_char s"

section \<open>Data model\<close>

text \<open>
  The persisted documents of \<open>final.js\<close> and of the variant with \<open>/start-stream\<close>
  (mongoose schemas \<open>CompanySchema\<close> and \<open>AcademySchema\<close>). An optional schema field
  is an \<open>option\<close>; the token blob is opaque.
\<close>

type_synonym tokens = string

text \<open>What an OAuth2 client carries after \<open>setCredentials(t)\<close>; \<open>None\<close> when \<open>t\<close> is undefined.\<close>

type_synonym credentials = "tokens option"

record company =
  c_name :: string
  c_youtubeTokens :: "tokens option"

record ground =
  g_groundId :: string
  g_title :: string
  g_streamKey :: string
  g_academyStreamId :: "string option"
  g_companyStreamId :: "string option"

record academy =
  a_academyId :: string
  a_name :: string
  a_youtubeTokens :: "tokens option"
  a_grounds :: "ground list"

record database =
  academies :: "academy list"
  companies :: "company list"

text \<open>The two role-specific fields of a ground that \<open>getExistingStream\<close> may set.\<close>

datatype stream_field = AcademyStreamId | CompanyStreamId

subsection \<open>Resources of the remote platform\<close>

record stream_resource =
  stream_id :: string
  cdn_streamName :: string
  cdn_ingestionAddress :: string
  cdn_resolution :: string
  cdn_frameRate :: string
  cdn_ingestionType :: string
  status_streamStatus :: string
  status_healthStatus :: "string option"

record broadcast_resource =
  broadcast_id :: string
  snippet_title :: string
  status_lifeCycleStatus :: string
  contentDetails_boundStreamId :: "string option"

text \<open>Request bodies of \<open>liveStreams.insert\<close> and \<open>liveBroadcasts.insert\<close>.\<close>

record stream_spec =
  ss_title :: string
  ss_streamName :: "string option"

record broadcast_spec =
  bs_title :: string
  bs_description :: string
  bs_scheduledStartTime :: string
  bs_enableAutoStart :: bool
  bs_enableAutoStop :: bool
  bs_defaultStreamKey :: "string option"

subsection \<open>Effects\<close>

text \<open>
  Every request sent to the remote platform, every persistence write and every timed
  wait is recorded, in order, in a trace.
\<close>

datatype event =
    EvChannelsList credentials
  | EvStreamsList credentials "string option"
  | EvStreamsInsert credentials stream_spec
  | EvBroadcastsInsert credentials broadcast_spec
  | EvBroadcastsBind credentials string string
  | EvBroadcastsListActive credentials
  | EvBroadcastsListId credentials string
  | EvBroadcastsTransition credentials string string
  | EvDbUpdate string string stream_field string
  | EvSleep nat

text \<open>
  The outside world is a parameter: a state \<open>'w\<close> and, for each operation of the remote
  platform, a function that answers a request in a world and gives the next world. An
  answer \<open>Inl msg\<close> is a rejected call (the thrown error's message). \<open>db_fault\<close> says
  whether the next database operation throws; \<open>clock_now\<close> is \<open>new Date().toISOString()\<close>.
\<close>

record 'w services =
  db_fault :: "'w \<Rightarrow> string option \<times> 'w"
  clock_now :: "'w \<Rightarrow> string"
  channels_list :: "credentials \<Rightarrow> 'w \<Rightarrow> (string + unit) \<times> 'w"
  liveStreams_list :: "credentials \<Rightarrow> string option \<Rightarrow> 'w \<Rightarrow> (string + stream_resource list) \<times> 'w"
  liveStreams_insert :: "credentials \<Rightarrow> stream_spec \<Rightarrow> 'w \<Rightarrow> (string + stream_resource) \<times> 'w"
  liveBroadcasts_insert :: "credentials \<Rightarrow> broadcast_spec \<Rightarrow> 'w \<Rightarrow> (string + broadcast_resource) \<times> 'w"
  liveBroadcasts_bind :: "credentials \<Rightarrow> string \<Rightarrow> string \<Rightarrow> 'w \<Rightarrow> (string + unit) \<times> 'w"
  liveBroadcasts_list_active :: "credentials \<Rightarrow> 'w \<Rightarrow> (string + broadcast_resource list) \<times> 'w"
  liveBroadcasts_list_id :: "credentials \<Rightarrow> string \<Rightarrow> 'w \<Rightarrow> (string + broadcast_resource list) \<times> 'w"
  liveBroadcasts_transition :: "credentials \<Rightarrow> string \<Rightarrow> string \<Rightarrow> 'w \<Rightarrow> (string + broadcast_resource) \<times> 'w"

record 'w state =
  st_world :: 'w
  st_db :: database
  st_trace :: "event list"

text \<open>One awaited call to the remote platform: the request is logged, the world moves on.\<close>

definition call :: "('w \<Rightarrow> 'r \<times> 'w) \<Rightarrow> event \<Rightarrow> 'w state \<Rightarrow> 'r \<times> 'w state" where
  "call f ev st =
     (case f (st_world st) of
        (r, w') \<Rightarrow> (r, st\<lparr>st_world := w', st_trace := st_trace st @ [ev]\<rparr>))"

text \<open>\<open>await new Promise((resolve) => setTimeout(resolve, ms))\<close>.\<close>

definition sleep :: "nat \<Rightarrow> 'w state \<Rightarrow> 'w state" where
  "sleep ms st = st\<lparr>st_trace := st_trace st @ [EvSleep ms]\<rparr>"

subsection \<open>Persistence\<close>

text \<open>A query that only reads: it throws when the database faults.\<close>

definition db_read :: "'w services \<Rightarrow> (database \<Rightarrow> 'a) \<Rightarrow> 'w state \<Rightarrow> (string + 'a) \<times> 'w state" where
  "db_read env q st =
     (case db_fault env (st_world st) of
        (Some e, w') \<Rightarrow> (Inl e, st\<lparr>st_world := w'\<rparr>)
      | (None, w') \<Rightarrow> (Inr (q (st_db st)), st\<lparr>st_world := w'\<rparr>))"

text \<open>\<open>Academy.findOne({ academyId })\<close> and \<open>Company.findOne()\<close>: the first matching document.\<close>

definition Academy_findOne :: "'w services \<Rightarrow> string \<Rightarrow> 'w state \<Rightarrow> (string + academy option) \<times> 'w state" where
  "Academy_findOne env academyId st =
     db_read env (\<lambda>d. find (\<lambda>a. a_academyId a = academyId) (academies d)) st"

definition Company_findOne :: "'w services \<Rightarrow> 'w state \<Rightarrow> (string + company option) \<times> 'w state" where
  "Company_findOne env st =
     db_read env (\<lambda>d. case companies d of [] \<Rightarrow> None | c # _ \<Rightarrow> Some c) st"

fun update_first :: "('a \<Rightarrow> bool) \<Rightarrow> ('a \<Rightarrow> 'a) \<Rightarrow> 'a list \<Rightarrow> 'a list" where
  "update_first P f [] = []"
| "update_first P f (x # xs) = (if P x then f x # xs else x # update_first P f xs)"

definition set_stream_id :: "stream_field \<Rightarrow> string \<Rightarrow> ground \<Rightarrow> ground" where
  "set_stream_id updateField v g =
     (case updateField of
        AcademyStreamId \<Rightarrow> g\<lparr>g_academyStreamId := Some v\<rparr>
      | CompanyStreamId \<Rightarrow> g\<lparr>g_companyStreamId := Some v\<rparr>)"

text \<open>
  The write of \<open>getExistingStream\<close>:
  \<^verbatim>\<open>
  Academy.findOneAndUpdate(
    { academyId: academy.academyId, "grounds.groundId": groundId },
    { $set: { [`grounds.$.${updateField}`]: streamResponse.data.id } })
  \<close>
  The first document with that academy id that has a ground with that ground id is
  updated, at the first such ground (the positional operator); when no document matches
  nothing is written and nothing is thrown.
\<close>

definition apply_stream_id_update :: "string \<Rightarrow> string \<Rightarrow> stream_field \<Rightarrow> string \<Rightarrow> database \<Rightarrow> database" where
  "apply_stream_id_update academyId groundId updateField v d =
     d\<lparr>academies :=
        update_first
          (\<lambda>a. a_academyId a = academyId \<and> list_ex (\<lambda>g. g_groundId g = groundId) (a_grounds a))
          (\<lambda>a. a\<lparr>a_grounds :=
                  update_first (\<lambda>g. g_groundId g = groundId) (set_stream_id updateField v) (a_grounds a)\<rparr>)
          (academies d)\<rparr>"

definition Academy_findOneAndUpdate ::
  "'w services \<Rightarrow> string \<Rightarrow> string \<Rightarrow> stream_field \<Rightarrow> string \<Rightarrow> 'w state \<Rightarrow> (string + unit) \<times> 'w state" where
  "Academy_findOneAndUpdate env academyId groundId updateField v st =
     (let st1 = st\<lparr>st_trace := st_trace st @ [EvDbUpdate academyId groundId updateField v]\<rparr> in
      case db_fault env (st_world st) of
        (Some e, w') \<Rightarrow> (Inl e, st1\<lparr>st_world := w'\<rparr>)
      | (None, w') \<Rightarrow>
          (Inr (), st1\<lparr>st_world := w',
                      st_db := apply_stream_id_update academyId groundId updateField v (st_db st)\<rparr>))"

section \<open>Stream resolver and broadcast binder (\<open>final.js\<close>)\<close>

text \<open>The descriptor object \<open>getExistingStream\<close> returns.\<close>

record stream_details =
  sd_streamId :: string
  sd_streamKey :: string
  sd_ingestionAddress :: string
  sd_resolution :: string
  sd_frameRate :: string
  sd_ingestionType :: string

definition describe_stream :: "stream_resource \<Rightarrow> stream_details" where
  "describe_stream s =
     \<lparr>sd_streamId = stream_id s, sd_streamKey = cdn_streamName s,
      sd_ingestionAddress = cdn_ingestionAddress s, sd_resolution = cdn_resolution s,
      sd_frameRate = cdn_frameRate s, sd_ingestionType = cdn_ingestionType s\<rparr>"

text \<open>JavaScript truthiness of an optional string: undefined and the empty string are falsy.\<close>

definition truthy :: "string option \<Rightarrow> bool" where
  "truthy v = (case v of None \<Rightarrow> False | Some s \<Rightarrow> s \<noteq> [])"

text \<open>
  The first half of \<open>getExistingStream\<close> (the \<open>if (streamId) { try { ... } catch { log } }\<close>
  block): \<open>Some\<close> stream when the remembered id is truthy and the list call answers with a
  non-empty \<open>items\<close>; \<open>None\<close> (fall through to creation) when the id is falsy, the call
  throws, or \<open>items\<close> is empty.
\<close>

definition fetch_remembered ::
  "'w services \<Rightarrow> credentials \<Rightarrow> string option \<Rightarrow> 'w state \<Rightarrow> stream_resource option \<times> 'w state" where
  "fetch_remembered env oauth2Client streamId st =
     (if truthy streamId then
        (case call (liveStreams_list env oauth2Client streamId) (EvStreamsList oauth2Client streamId) st of
           (Inr (existingStream # _), st') \<Rightarrow> (Some existingStream, st')
         | (Inr [], st') \<Rightarrow> (None, st')
         | (Inl _, st') \<Rightarrow> (None, st'))
      else (None, st))"

text \<open>\<open>const updateField = isCompanyChannel ? "companyStreamId" : "academyStreamId"\<close>.\<close>

definition updateField :: "bool \<Rightarrow> stream_field" where
  "updateField isCompanyChannel = (if isCompanyChannel then CompanyStreamId else AcademyStreamId)"

text \<open>\<open>const streamId = isCompanyChannel ? ground.companyStreamId : ground.academyStreamId\<close>.\<close>

definition remembered_streamId :: "bool \<Rightarrow> ground \<Rightarrow> string option" where
  "remembered_streamId isCompanyChannel ground =
     (if isCompanyChannel then g_companyStreamId ground else g_academyStreamId ground)"

text \<open>
  The second half: \<open>liveStreams.insert\<close>, then the persistence write of the new id, then
  the descriptor. Either call may throw, and the error propagates.
\<close>

definition create_and_remember ::
  "'w services \<Rightarrow> credentials \<Rightarrow> academy \<Rightarrow> ground \<Rightarrow> string \<Rightarrow> bool \<Rightarrow> string \<Rightarrow> 'w state
    \<Rightarrow> (string + stream_details) \<times> 'w state" where
  "create_and_remember env oauth2Client academy ground groundId isCompanyChannel streamName st =
     (let spec = \<lparr>ss_title = (if isCompanyChannel then a_name academy @ '' - '' @ g_title ground
                                else g_title ground @ '' - Stream''),
                  ss_streamName = Some streamName\<rparr> in
      case call (liveStreams_insert env oauth2Client spec) (EvStreamsInsert oauth2Client spec) st of
        (Inl e, st1) \<Rightarrow> (Inl e, st1)
      | (Inr streamResponse, st1) \<Rightarrow>
          (case Academy_findOneAndUpdate env (a_academyId academy) groundId
                  (updateField isCompanyChannel) (stream_id streamResponse) st1 of
             (Inl e, st2) \<Rightarrow> (Inl e, st2)
           | (Inr _, st2) \<Rightarrow> (Inr (describe_stream streamResponse), st2)))"

definition getExistingStream ::
  "'w services \<Rightarrow> credentials \<Rightarrow> academy \<Rightarrow> string \<Rightarrow> bool \<Rightarrow> 'w state
    \<Rightarrow> (string + stream_details) \<times> 'w state" where
  "getExistingStream env oauth2Client academy groundId isCompanyChannel st =
     (case find (\<lambda>g. g_groundId g = groundId) (a_grounds academy) of
        None \<Rightarrow> (Inl ''Ground not found'', st)
      | Some ground \<Rightarrow>
          (let streamId = remembered_streamId isCompanyChannel ground;
               streamName = (if isCompanyChannel
                             then a_name academy @ '':'' @ replace_ws_runs_empty (g_title ground)
                             else g_streamKey ground) in
           case fetch_remembered env oauth2Client streamId st of
             (Some existingStream, st1) \<Rightarrow> (Inr (describe_stream existingStream), st1)
           | (None, st1) \<Rightarrow>
               create_and_remember env oauth2Client academy ground groundId isCompanyChannel
                 streamName st1))"

text \<open>
  The request's \<open>startTime\<close>: absent (the default parameter \<open>new Date()\<close> applies), a value
  that \<open>new Date\<close> accepts (given by its ISO form), or one for which
  \<open>new Date(startTime).toISOString()\<close> throws a RangeError.
\<close>

datatype start_time = StartAbsent | StartValid string | StartInvalid

definition scheduledStartTime :: "'w services \<Rightarrow> start_time \<Rightarrow> 'w \<Rightarrow> string + string" where
  "scheduledStartTime env startTime w =
     (case startTime of
        StartAbsent \<Rightarrow> Inr (clock_now env w)
      | StartValid isoTime \<Rightarrow> Inr isoTime
      | StartInvalid \<Rightarrow> Inl ''Invalid time value'')"

text \<open>The object \<open>createBroadcastAndBind\<close> returns: ids plus the spread stream descriptor.\<close>

record bind_result =
  br_academyId :: string
  br_groundId :: string
  br_broadcastId :: string
  br_stream :: stream_details

text \<open>
  \<open>createBroadcastAndBind\<close>. \<open>autoStart\<close> is the value of \<open>enableAutoStart\<close> and
  \<open>enableAutoStop\<close>: \<open>true\<close> in \<open>final.js\<close>, \<open>false\<close> in the variant with \<open>/start-stream\<close>;
  the two files are otherwise the same here.
\<close>

definition createBroadcastAndBind ::
  "bool \<Rightarrow> 'w services \<Rightarrow> credentials \<Rightarrow> academy \<Rightarrow> string \<Rightarrow> string \<Rightarrow> string \<Rightarrow> string
    \<Rightarrow> bool \<Rightarrow> start_time \<Rightarrow> 'w state \<Rightarrow> (string + bind_result) \<times> 'w state" where
  "createBroadcastAndBind autoStart env oauth2Client academy groundId title teamA teamB
      isCompanyChannel startTime st =
     (case getExistingStream env oauth2Client academy groundId isCompanyChannel st of
        (Inl e, st1) \<Rightarrow> (Inl e, st1)
      | (Inr streamDetails, st1) \<Rightarrow>
          (case scheduledStartTime env startTime (st_world st1) of
             Inl e \<Rightarrow> (Inl e, st1)
           | Inr isoTime \<Rightarrow>
               (let spec = \<lparr>bs_title = title, bs_description = teamA @ '' vs '' @ teamB,
                            bs_scheduledStartTime = isoTime, bs_enableAutoStart = autoStart,
                            bs_enableAutoStop = autoStart,
                            bs_defaultStreamKey = Some (sd_streamId streamDetails)\<rparr> in
                case call (liveBroadcasts_insert env oauth2Client spec)
                       (EvBroadcastsInsert oauth2Client spec) st1 of
                  (Inl e, st2) \<Rightarrow> (Inl e, st2)
                | (Inr broadcastResponse, st2) \<Rightarrow>
                    (case call (liveBroadcasts_bind env oauth2Client (broadcast_id broadcastResponse)
                                  (sd_streamId streamDetails))
                            (EvBroadcastsBind oauth2Client (broadcast_id broadcastResponse)
                                  (sd_streamId streamDetails)) st2 of
                       (Inl e, st3) \<Rightarrow> (Inl e, st3)
                     | (Inr _, st3) \<Rightarrow>
                         (Inr \<lparr>br_academyId = a_academyId academy, br_groundId = groundId,
                               br_broadcastId = broadcast_id broadcastResponse,
                               br_stream = streamDetails\<rparr>, st3)))))"

text \<open>
  \<open>getCompanyOAuthClient\<close>: the first company document's tokens, or the error
  "Company not authenticated" (a database fault is rethrown as it is).
\<close>

definition getCompanyOAuthClient :: "'w services \<Rightarrow> 'w state \<Rightarrow> (string + credentials) \<times> 'w state" where
  "getCompanyOAuthClient env st =
     (case Company_findOne env st of
        (Inl e, st1) \<Rightarrow> (Inl e, st1)
      | (Inr None, st1) \<Rightarrow> (Inl ''Company not authenticated'', st1)
      | (Inr (Some company), st1) \<Rightarrow>
          (case c_youtubeTokens company of
             None \<Rightarrow> (Inl ''Company not authenticated'', st1)
           | Some t \<Rightarrow> (Inr (Some t), st1)))"

section \<open>Dual-channel orchestrator: \<open>POST /go-live-now\<close> (\<open>final.js\<close>)\<close>

record go_live_request =
  rq_academyId :: string
  rq_groundId :: string
  rq_title :: string
  rq_teamA :: string
  rq_teamB :: string
  rq_startTime :: start_time

text \<open>
  The response: \<open>res.json({ success: true, academyStream, companyStream })\<close>, or
  \<open>res.status(code).json({ success: false, message })\<close>.
\<close>

datatype go_live_response =
    GoLiveSuccess bind_result bind_result
  | GoLiveFailure nat string

text \<open>The academy channel's sub-flow: the first \<open>createBroadcastAndBind\<close> of the handler.\<close>

definition academy_subflow ::
  "bool \<Rightarrow> 'w services \<Rightarrow> academy \<Rightarrow> go_live_request \<Rightarrow> 'w state \<Rightarrow> (string + bind_result) \<times> 'w state" where
  "academy_subflow autoStart env academy rq st =
     createBroadcastAndBind autoStart env (a_youtubeTokens academy) academy (rq_groundId rq)
       (rq_title rq) (rq_teamA rq) (rq_teamB rq) False (rq_startTime rq) st"

text \<open>
  The company channel's sub-flow: \<open>getCompanyOAuthClient\<close>, then the second
  \<open>createBroadcastAndBind\<close>, with the same academy object and metadata.
\<close>

definition company_subflow ::
  "bool \<Rightarrow> 'w services \<Rightarrow> academy \<Rightarrow> go_live_request \<Rightarrow> 'w state \<Rightarrow> (string + bind_result) \<times> 'w state" where
  "company_subflow autoStart env academy rq st =
     (case getCompanyOAuthClient env st of
        (Inl e, st1) \<Rightarrow> (Inl e, st1)
      | (Inr companyOAuth2Client, st1) \<Rightarrow>
          createBroadcastAndBind autoStart env companyOAuth2Client academy (rq_groundId rq)
            (rq_title rq) (rq_teamA rq) (rq_teamB rq) True (rq_startTime rq) st1)"

text \<open>
  The handler: one \<open>try\<close> around everything, the academy sub-flow first, the company
  sub-flow after it, one \<open>catch\<close> that answers 500 with the error's message.
\<close>

definition go_live_now ::
  "bool \<Rightarrow> 'w services \<Rightarrow> go_live_request \<Rightarrow> 'w state \<Rightarrow> go_live_response \<times> 'w state" where
  "go_live_now autoStart env rq st =
     (case Academy_findOne env (rq_academyId rq) st of
        (Inl e, st0) \<Rightarrow> (GoLiveFailure 500 e, st0)
      | (Inr None, st0) \<Rightarrow> (GoLiveFailure 400 ''Academy not authenticated'', st0)
      | (Inr (Some academy), st0) \<Rightarrow>
          (if a_youtubeTokens academy = None
           then (GoLiveFailure 400 ''Academy not authenticated'', st0)
           else
             (case academy_subflow autoStart env academy rq st0 of
                (Inl e, st1) \<Rightarrow> (GoLiveFailure 500 e, st1)
              | (Inr academyResult, st1) \<Rightarrow>
                  (case company_subflow autoStart env academy rq st1 of
                     (Inl e, st2) \<Rightarrow> (GoLiveFailure 500 e, st2)
                   | (Inr companyResult, st2) \<Rightarrow>
                       (GoLiveSuccess academyResult companyResult, st2)))))"

section \<open>Broadcast terminator: \<open>POST /end-stream\<close>\<close>

text \<open>
  The predicate handed to \<open>items.find\<close> inside \<open>endBroadcast\<close>. In \<open>final.js\<close>:
  \<^verbatim>\<open>
  (b) => b.snippet.title === (isCompanyChannel ? `${academy.name} - ${title}` : title)
  \<close>
  In the variant with \<open>/start-stream\<close>: \<^verbatim>\<open>(b) => compareStrings(b.snippet.title, title)\<close>.
\<close>

definition title_test_final :: "academy \<Rightarrow> string \<Rightarrow> bool \<Rightarrow> broadcast_resource \<Rightarrow> bool" where
  "title_test_final academy title isCompanyChannel b \<longleftrightarrow>
     snippet_title b = (if isCompanyChannel then a_name academy @ '' - '' @ title else title)"

definition title_test_normalized :: "academy \<Rightarrow> string \<Rightarrow> bool \<Rightarrow> broadcast_resource \<Rightarrow> bool" where
  "title_test_normalized academy title isCompanyChannel b \<longleftrightarrow>
     compareStrings (snippet_title b) title"

text \<open>
  \<open>endBroadcast(auth, isCompanyChannel)\<close> on its own: list the active broadcasts, find
  the first whose title passes the test, transition it to \<open>complete\<close> and return
  \<open>true\<close>; return \<open>false\<close> when none passes. A rejected call rejects the function.
\<close>

definition endBroadcast ::
  "(bool \<Rightarrow> broadcast_resource \<Rightarrow> bool) \<Rightarrow> 'w services \<Rightarrow> credentials \<Rightarrow> bool \<Rightarrow> 'w state
    \<Rightarrow> (string + bool) \<times> 'w state" where
  "endBroadcast test env auth isCompanyChannel st =
     (case call (liveBroadcasts_list_active env auth) (EvBroadcastsListActive auth) st of
        (Inl e, st1) \<Rightarrow> (Inl e, st1)
      | (Inr items, st1) \<Rightarrow>
          (case find (test isCompanyChannel) items of
             None \<Rightarrow> (Inr False, st1)
           | Some broadcast \<Rightarrow>
               (case call (liveBroadcasts_transition env auth (broadcast_id broadcast) ''complete'')
                       (EvBroadcastsTransition auth (broadcast_id broadcast) ''complete'') st1 of
                  (Inl e, st2) \<Rightarrow> (Inl e, st2)
                | (Inr _, st2) \<Rightarrow> (Inr True, st2))))"

text \<open>
  The handler starts both \<open>endBroadcast\<close> calls and awaits \<open>Promise.all\<close> of them, so
  their requests interleave. One call is a process with at most two requests; a
  schedule (a list of turns, \<open>True\<close> for the academy channel's process) says in which
  order the requests of the two processes reach the platform and settle.
\<close>

datatype end_proc = Searching | Transitioning string | Settled "string + bool"

definition endBroadcast_step ::
  "(bool \<Rightarrow> broadcast_resource \<Rightarrow> bool) \<Rightarrow> 'w services \<Rightarrow> credentials \<Rightarrow> bool \<Rightarrow> end_proc
    \<Rightarrow> 'w state \<Rightarrow> end_proc \<times> 'w state" where
  "endBroadcast_step test env auth isCompanyChannel p st =
     (case p of
        Searching \<Rightarrow>
          (case call (liveBroadcasts_list_active env auth) (EvBroadcastsListActive auth) st of
             (Inl e, st1) \<Rightarrow> (Settled (Inl e), st1)
           | (Inr items, st1) \<Rightarrow>
               (case find (test isCompanyChannel) items of
                  None \<Rightarrow> (Settled (Inr False), st1)
                | Some broadcast \<Rightarrow> (Transitioning (broadcast_id broadcast), st1)))
      | Transitioning bid \<Rightarrow>
          (case call (liveBroadcasts_transition env auth bid ''complete'')
                  (EvBroadcastsTransition auth bid ''complete'') st of
             (Inl e, st1) \<Rightarrow> (Settled (Inl e), st1)
           | (Inr _, st1) \<Rightarrow> (Settled (Inr True), st1))
      | Settled r \<Rightarrow> (Settled r, st))"

text \<open>The rejection \<open>Promise.all\<close> reports is the first one to happen.\<close>

definition note_rejection :: "end_proc \<Rightarrow> string option \<Rightarrow> string option" where
  "note_rejection p rej =
     (case rej of
        Some e \<Rightarrow> Some e
      | None \<Rightarrow> (case p of Settled (Inl e) \<Rightarrow> Some e | _ \<Rightarrow> None))"

fun run_both ::
  "(bool \<Rightarrow> broadcast_resource \<Rightarrow> bool) \<Rightarrow> 'w services \<Rightarrow> credentials \<Rightarrow> credentials \<Rightarrow> bool list
    \<Rightarrow> end_proc \<Rightarrow> end_proc \<Rightarrow> string option \<Rightarrow> 'w state
    \<Rightarrow> (end_proc \<times> end_proc \<times> string option) \<times> 'w state" where
  "run_both test env academyAuth companyAuth [] pa pc rej st = ((pa, pc, rej), st)"
| "run_both test env academyAuth companyAuth (turn # turns) pa pc rej st =
     (if turn then
        (case endBroadcast_step test env academyAuth False pa st of
           (pa', st') \<Rightarrow>
             run_both test env academyAuth companyAuth turns pa' pc (note_rejection pa' rej) st')
      else
        (case endBroadcast_step test env companyAuth True pc st of
           (pc', st') \<Rightarrow>
             run_both test env academyAuth companyAuth turns pa pc' (note_rejection pc' rej) st'))"

text \<open>
  \<open>Promise.all([endBroadcast(academyOAuth2Client, false), endBroadcast(companyOAuth2Client, true)])\<close>:
  the schedule's turns first, then whatever either process still has to do. Both
  fulfilled gives the pair of booleans; otherwise the first rejection.
\<close>

definition promise_all_endBroadcast ::
  "(bool \<Rightarrow> broadcast_resource \<Rightarrow> bool) \<Rightarrow> 'w services \<Rightarrow> credentials \<Rightarrow> credentials \<Rightarrow> bool list
    \<Rightarrow> 'w state \<Rightarrow> (string + bool \<times> bool) \<times> 'w state" where
  "promise_all_endBroadcast test env academyAuth companyAuth schedule st =
     (case run_both test env academyAuth companyAuth (schedule @ [True, True, False, False])
             Searching Searching None st of
        ((Settled (Inr academyEnded), Settled (Inr companyEnded), _), st') \<Rightarrow>
          (Inr (academyEnded, companyEnded), st')
      | ((_, _, rej), st') \<Rightarrow> (Inl (case rej of Some e \<Rightarrow> e | None \<Rightarrow> []), st'))"

record end_stream_request =
  es_academyId :: string
  es_title :: string

text \<open>
  The response: \<open>res.json({ success: true, academyStreamEnded, companyStreamEnded })\<close>, or
  \<open>res.status(code).json({ error })\<close>.
\<close>

datatype end_stream_response =
    EndStreamOk bool bool
  | EndStreamError nat string

definition end_stream ::
  "(academy \<Rightarrow> string \<Rightarrow> bool \<Rightarrow> broadcast_resource \<Rightarrow> bool) \<Rightarrow> 'w services \<Rightarrow> bool list
    \<Rightarrow> end_stream_request \<Rightarrow> 'w state \<Rightarrow> end_stream_response \<times> 'w state" where
  "end_stream title_test env schedule rq st =
     (case Academy_findOne env (es_academyId rq) st of
        (Inl e, st0) \<Rightarrow> (EndStreamError 500 e, st0)
      | (Inr None, st0) \<Rightarrow> (EndStreamError 400 ''Academy not authenticated'', st0)
      | (Inr (Some academy), st0) \<Rightarrow>
          (if a_youtubeTokens academy = None
           then (EndStreamError 400 ''Academy not authenticated'', st0)
           else
             (case getCompanyOAuthClient env st0 of
                (Inl e, st1) \<Rightarrow> (EndStreamError 500 e, st1)
              | (Inr companyOAuth2Client, st1) \<Rightarrow>
                  (case promise_all_endBroadcast (title_test academy (es_title rq)) env
                          (a_youtubeTokens academy) companyOAuth2Client schedule st1 of
                     (Inl e, st2) \<Rightarrow> (EndStreamError 500 e, st2)
                   | (Inr (academyEnded, companyEnded), st2) \<Rightarrow>
                       (EndStreamOk academyEnded companyEnded, st2)))))"

text \<open>The handler of \<open>final.js\<close> and the handler of the variant with \<open>/start-stream\<close>.\<close>

definition end_stream_final ::
  "'w services \<Rightarrow> bool list \<Rightarrow> end_stream_request \<Rightarrow> 'w state \<Rightarrow> end_stream_response \<times> 'w state" where
  "end_stream_final = end_stream title_test_final"

definition end_stream_normalized ::
  "'w services \<Rightarrow> bool list \<Rightarrow> end_stream_request \<Rightarrow> 'w state \<Rightarrow> end_stream_response \<times> 'w state" where
  "end_stream_normalized = end_stream title_test_normalized"

section \<open>Status check: \<open>GET /check-stream-status\<close>\<close>

record check_request =
  cs_academyId :: string
  cs_broadcastId :: string
  cs_isCompanyChannel :: "string option"

record check_report =
  cr_broadcastStatus :: string
  cr_streamStatus :: string
  cr_healthStatus :: "string option"
  cr_isReadyToStart :: bool

datatype check_response =
    CheckOk check_report
  | CheckError nat string

definition check_stream_status ::
  "'w services \<Rightarrow> check_request \<Rightarrow> 'w state \<Rightarrow> check_response \<times> 'w state" where
  "check_stream_status env rq st =
     (case Academy_findOne env (cs_academyId rq) st of
        (Inl e, st0) \<Rightarrow> (CheckError 500 e, st0)
      | (Inr None, st0) \<Rightarrow> (CheckError 404 ''Academy not found'', st0)
      | (Inr (Some academy), st0) \<Rightarrow>
          (case (if cs_isCompanyChannel rq = Some ''true'' then getCompanyOAuthClient env st0
                 else (Inr (a_youtubeTokens academy), st0)) of
             (Inl e, st1) \<Rightarrow> (CheckError 500 e, st1)
           | (Inr oauth2Client, st1) \<Rightarrow>
               (case call (liveBroadcasts_list_id env oauth2Client (cs_broadcastId rq))
                       (EvBroadcastsListId oauth2Client (cs_broadcastId rq)) st1 of
                  (Inl e, st2) \<Rightarrow> (CheckError 500 e, st2)
                | (Inr [], st2) \<Rightarrow> (CheckError 404 ''Broadcast not found'', st2)
                | (Inr (broadcast # _), st2) \<Rightarrow>
                    (case call (liveStreams_list env oauth2Client (contentDetails_boundStreamId broadcast))
                            (EvStreamsList oauth2Client (contentDetails_boundStreamId broadcast)) st2 of
                       (Inl e, st3) \<Rightarrow> (CheckError 500 e, st3)
                     | (Inr [], st3) \<Rightarrow> (CheckError 404 ''Stream not found'', st3)
                     | (Inr (stream # _), st3) \<Rightarrow>
                         (CheckOk
                            \<lparr>cr_broadcastStatus = status_lifeCycleStatus broadcast,
                             cr_streamStatus = status_streamStatus stream,
                             cr_healthStatus = status_healthStatus stream,
                             cr_isReadyToStart =
                               (status_streamStatus stream = ''active'' \<and>
                                (status_lifeCycleStatus broadcast = ''testing'' \<or>
                                 status_lifeCycleStatus broadcast = ''ready''))\<rparr>, st3)))))"

section \<open>Live-transition state machine: \<open>POST /start-stream\<close>\<close>

definition MAX_RETRIES :: nat where
  "MAX_RETRIES = 3"

definition DELAY_BETWEEN_RETRIES :: nat where
  "DELAY_BETWEEN_RETRIES = 5000"

record start_request =
  sr_academyId :: string
  sr_broadcastId :: string
  sr_isCompanyChannel :: bool

text \<open>The snapshot \<open>checkStreamHealth\<close> returns.\<close>

record health =
  h_broadcastStatus :: string
  h_streamStatus :: string
  h_healthStatus :: "string option"

text \<open>
  \<open>checkStreamHealth\<close>: the broadcast by id, then its bound stream. \<open>status_healthStatus\<close>
  stands for \<open>stream.status.healthStatus?.status\<close>, and \<open>|| null\<close> turns a falsy value
  into \<open>null\<close>.
\<close>

definition checkStreamHealth ::
  "'w services \<Rightarrow> credentials \<Rightarrow> string \<Rightarrow> 'w state \<Rightarrow> (string + health) \<times> 'w state" where
  "checkStreamHealth env oauth2Client broadcastId st =
     (case call (liveBroadcasts_list_id env oauth2Client broadcastId)
             (EvBroadcastsListId oauth2Client broadcastId) st of
        (Inl e, st1) \<Rightarrow> (Inl e, st1)
      | (Inr [], st1) \<Rightarrow> (Inl ''Broadcast not found'', st1)
      | (Inr (broadcast # _), st1) \<Rightarrow>
          (case call (liveStreams_list env oauth2Client (contentDetails_boundStreamId broadcast))
                  (EvStreamsList oauth2Client (contentDetails_boundStreamId broadcast)) st1 of
             (Inl e, st2) \<Rightarrow> (Inl e, st2)
           | (Inr [], st2) \<Rightarrow> (Inl ''Stream not found'', st2)
           | (Inr (stream # _), st2) \<Rightarrow>
               (Inr \<lparr>h_broadcastStatus = status_lifeCycleStatus broadcast,
                     h_streamStatus = status_streamStatus stream,
                     h_healthStatus = (if truthy (status_healthStatus stream)
                                       then status_healthStatus stream else None)\<rparr>, st2)))"

text \<open>The value \<open>attemptTransition\<close> resolves to: \<open>{ success: true, message, status }\<close>.\<close>

record transition_ok =
  ok_message :: string
  ok_status :: string

text \<open>How a template literal prints a value that may be \<open>null\<close>.\<close>

definition show_nullable :: "string option \<Rightarrow> string" where
  "show_nullable v = (case v of None \<Rightarrow> ''null'' | Some s \<Rightarrow> s)"

text \<open>
  The \<open>try\<close> block of \<open>attemptTransition\<close>: move to \<open>testing\<close> first unless the broadcast
  is there already (then wait 3 seconds), then move to \<open>live\<close>.
\<close>

definition transition_to_live ::
  "'w services \<Rightarrow> credentials \<Rightarrow> string \<Rightarrow> health \<Rightarrow> 'w state \<Rightarrow> (string + transition_ok) \<times> 'w state" where
  "transition_to_live env oauth2Client broadcastId h st =
     (case (if h_broadcastStatus h \<noteq> ''testing'' then
              (case call (liveBroadcasts_transition env oauth2Client broadcastId ''testing'')
                      (EvBroadcastsTransition oauth2Client broadcastId ''testing'') st of
                 (Inl e, st1) \<Rightarrow> (Inl e, st1)
               | (Inr _, st1) \<Rightarrow> (Inr (), sleep 3000 st1))
            else (Inr (), st)) of
        (Inl e, st1) \<Rightarrow> (Inl e, st1)
      | (Inr _, st1) \<Rightarrow>
          (case call (liveBroadcasts_transition env oauth2Client broadcastId ''live'')
                  (EvBroadcastsTransition oauth2Client broadcastId ''live'') st1 of
             (Inl e, st2) \<Rightarrow> (Inl e, st2)
           | (Inr result, st2) \<Rightarrow>
               (Inr \<lparr>ok_message = ''Stream started successfully'',
                     ok_status = status_lifeCycleStatus result\<rparr>, st2)))"

function attemptTransition ::
  "'w services \<Rightarrow> credentials \<Rightarrow> string \<Rightarrow> nat \<Rightarrow> 'w state \<Rightarrow> (string + transition_ok) \<times> 'w state" where
  "attemptTransition env oauth2Client broadcastId retryCount st =
     (case checkStreamHealth env oauth2Client broadcastId st of
        (Inl e, st1) \<Rightarrow> (Inl e, st1)
      | (Inr h, st1) \<Rightarrow>
          (if h_broadcastStatus h = ''live'' then
             (Inr \<lparr>ok_message = ''Broadcast is already live'', ok_status = h_broadcastStatus h\<rparr>, st1)
           else if h_streamStatus h \<noteq> ''active'' then
             (Inl (''Stream is not active. Current status: '' @ h_streamStatus h), st1)
           else if h_healthStatus h \<noteq> Some ''good'' then
             (Inl (''Stream health is not good. Current health: '' @ show_nullable (h_healthStatus h)), st1)
           else
             (case transition_to_live env oauth2Client broadcastId h st1 of
                (Inr ok, st2) \<Rightarrow> (Inr ok, st2)
              | (Inl e, st2) \<Rightarrow>
                  (if retryCount < MAX_RETRIES
                   then attemptTransition env oauth2Client broadcastId (retryCount + 1)
                          (sleep DELAY_BETWEEN_RETRIES st2)
                   else (Inl e, st2)))))"
  by pat_completeness auto
termination
  by (relation "measure (\<lambda>(env, oauth2Client, broadcastId, retryCount, st). MAX_RETRIES - retryCount)")
     auto

declare attemptTransition.simps [simp del]

text \<open>
  Identifiers and where they are bound. \<open>checkStreamHealth\<close> and \<open>attemptTransition\<close> are
  \<open>const\<close> declarations inside the handler's \<open>try\<close> block, so they are bound in that
  block only; the \<open>catch\<close> block sees its own parameter, the bindings of the handler
  function and those of the module.
\<close>

definition module_bindings :: "string list" where
  "module_bindings =
     [''express'', ''google'', ''dotenv'', ''cors'', ''mongoose'', ''app'', ''CompanySchema'',
      ''Company'', ''AcademySchema'', ''Academy'', ''CLIENT_ID'', ''CLIENT_SECRET'',
      ''REDIRECT_URI'', ''SCOPES'', ''getOAuthClient'', ''getCompanyOAuthClient'',
      ''getExistingStream'', ''createBroadcastAndBind'']"

definition start_stream_handler_bindings :: "string list" where
  "start_stream_handler_bindings =
     [''req'', ''res'', ''academyId'', ''broadcastId'', ''isCompanyChannel'', ''MAX_RETRIES'',
      ''DELAY_BETWEEN_RETRIES'']"

definition start_stream_try_bindings :: "string list" where
  "start_stream_try_bindings =
     [''academy'', ''oauth2Client'', ''youtube'', ''checkStreamHealth'', ''attemptTransition'',
      ''result'']"

definition bound_in_catch :: "string \<Rightarrow> bool" where
  "bound_in_catch x \<longleftrightarrow>
     x \<in> set ([''error''] @ start_stream_handler_bindings @ module_bindings)"

text \<open>
  The response: \<open>res.json(result)\<close>; 404 \<open>{ error: "Academy not found" }\<close>; 400 with
  \<open>details\<close> and the final snapshot (\<open>currentStatus\<close>, \<open>streamStatus\<close>, \<open>healthStatus\<close>); or
  500 with \<open>details\<close> and \<open>additionalError: "Could not fetch final status"\<close>.
\<close>

datatype start_response =
    StartOk transition_ok
  | StartAcademyNotFound
  | StartFailedWithSnapshot string health
  | StartFailedNoSnapshot string

text \<open>
  The handler's \<open>catch (error)\<close> block:
  \<^verbatim>\<open>
  try {
    const finalHealth = await checkStreamHealth();
    res.status(400).json({ ..., details: error.message, currentStatus: ..., ... });
  } catch (statusError) {
    res.status(500).json({ ..., details: error.message,
                           additionalError: "Could not fetch final status" });
  }
  \<close>
  Evaluating an identifier that is not bound throws a ReferenceError, which the inner
  \<open>catch\<close> handles like any other error of the final status fetch.
\<close>

definition start_stream_catch ::
  "'w services \<Rightarrow> credentials \<Rightarrow> string \<Rightarrow> string \<Rightarrow> 'w state \<Rightarrow> start_response \<times> 'w state" where
  "start_stream_catch env oauth2Client broadcastId details st =
     (if bound_in_catch ''checkStreamHealth'' then
        (case checkStreamHealth env oauth2Client broadcastId st of
           (Inr finalHealth, st1) \<Rightarrow> (StartFailedWithSnapshot details finalHealth, st1)
         | (Inl _, st1) \<Rightarrow> (StartFailedNoSnapshot details, st1))
      else (StartFailedNoSnapshot details, st))"

definition start_stream ::
  "'w services \<Rightarrow> start_request \<Rightarrow> 'w state \<Rightarrow> start_response \<times> 'w state" where
  "start_stream env rq st =
     (case Academy_findOne env (sr_academyId rq) st of
        (Inl e, st0) \<Rightarrow> start_stream_catch env None (sr_broadcastId rq) e st0
      | (Inr None, st0) \<Rightarrow> (StartAcademyNotFound, st0)
      | (Inr (Some academy), st0) \<Rightarrow>
          (case (if sr_isCompanyChannel rq then getCompanyOAuthClient env st0
                 else (Inr (a_youtubeTokens academy), st0)) of
             (Inl e, st1) \<Rightarrow> start_stream_catch env None (sr_broadcastId rq) e st1
           | (Inr oauth2Client, st1) \<Rightarrow>
               (case attemptTransition env oauth2Client (sr_broadcastId rq) 0 st1 of
                  (Inr result, st2) \<Rightarrow> (StartOk result, st2)
                | (Inl e, st2) \<Rightarrow> start_stream_catch env oauth2Client (sr_broadcastId rq) e st2)))"

section \<open>The token-file variant (two channels named \<open>ourChannel\<close> and \<open>customerChannel\<close>)\<close>

text \<open>
  \<open>validateTokens\<close>: one \<open>channels.list\<close> call with the tokens; \<open>true\<close> when it answers,
  \<open>false\<close> when it throws. It never throws itself.
\<close>

definition validateTokens :: "'w services \<Rightarrow> tokens \<Rightarrow> 'w state \<Rightarrow> bool \<times> 'w state" where
  "validateTokens env tokens st =
     (case call (channels_list env (Some tokens)) (EvChannelsList (Some tokens)) st of
        (Inr _, st1) \<Rightarrow> (True, st1)
      | (Inl _, st1) \<Rightarrow> (False, st1))"

text \<open>\<open>v || d\<close> for an optional string \<open>v\<close>.\<close>

definition or_default :: "string option \<Rightarrow> string \<Rightarrow> string" where
  "or_default v d = (case v of None \<Rightarrow> d | Some s \<Rightarrow> if s = [] then d else s)"

record legacy_request =
  lg_title :: "string option"
  lg_teamA :: "string option"
  lg_teamB :: "string option"
  lg_authCompleted :: bool

record legacy_result =
  lr_channel :: string
  lr_broadcastId :: string
  lr_stream :: stream_details
  lr_scheduledStartTime :: string
  lr_studioUrl :: string

text \<open>
  \<open>createBroadcastAndStream(oauth2Client, channelName)\<close>: create the broadcast, create a
  new stream, bind them. The first call that throws ends the function with its error.
\<close>

definition createBroadcastAndStream ::
  "'w services \<Rightarrow> legacy_request \<Rightarrow> credentials \<Rightarrow> string \<Rightarrow> 'w state
    \<Rightarrow> (string + legacy_result) \<times> 'w state" where
  "createBroadcastAndStream env rq oauth2Client channelName st =
     (let bspec = \<lparr>bs_title = or_default (lg_title rq) ''Live Stream'',
                   bs_description = or_default (lg_teamA rq) ''Team A'' @ '' vs '' @
                      or_default (lg_teamB rq) ''Team B'' @ '' - Powered by our application'',
                   bs_scheduledStartTime = clock_now env (st_world st),
                   bs_enableAutoStart = True, bs_enableAutoStop = True,
                   bs_defaultStreamKey = None\<rparr> in
      case call (liveBroadcasts_insert env oauth2Client bspec)
             (EvBroadcastsInsert oauth2Client bspec) st of
        (Inl e, st1) \<Rightarrow> (Inl e, st1)
      | (Inr broadcastResponse, st1) \<Rightarrow>
          (let sspec = \<lparr>ss_title = or_default (lg_title rq) ''New Stream'' @ '' - Stream'',
                        ss_streamName = None\<rparr> in
           case call (liveStreams_insert env oauth2Client sspec)
                  (EvStreamsInsert oauth2Client sspec) st1 of
             (Inl e, st2) \<Rightarrow> (Inl e, st2)
           | (Inr streamResponse, st2) \<Rightarrow>
               (case call (liveBroadcasts_bind env oauth2Client (broadcast_id broadcastResponse)
                             (stream_id streamResponse))
                       (EvBroadcastsBind oauth2Client (broadcast_id broadcastResponse)
                             (stream_id streamResponse)) st2 of
                  (Inl e, st3) \<Rightarrow> (Inl e, st3)
                | (Inr _, st3) \<Rightarrow>
                    (Inr \<lparr>lr_channel = channelName,
                          lr_broadcastId = broadcast_id broadcastResponse,
                          lr_stream = describe_stream streamResponse,
                          lr_scheduledStartTime = clock_now env (st_world st3),
                          lr_studioUrl = ''https://studio.youtube.com/video/'' @
                             broadcast_id broadcastResponse @ ''/livestreaming''\<rparr>, st3))))"

text \<open>
  The response of the token-file \<open>/go-live-now\<close>: \<open>{ success: true, results, message }\<close>,
  \<open>{ success: false, message }\<close>, or \<open>{ redirectUrl }\<close>.
\<close>

datatype legacy_response =
    LegacySuccess "legacy_result list" string
  | LegacyFailure string
  | LegacyRedirect

text \<open>
  The \<open>ourChannel\<close> part of the handler: attempted only when its token file loads and
  its tokens validate; an error of \<open>createBroadcastAndStream\<close> is caught and logged. It
  yields what was pushed to \<open>results\<close>.
\<close>

definition our_channel_part ::
  "'w services \<Rightarrow> (string \<Rightarrow> tokens option) \<Rightarrow> legacy_request \<Rightarrow> 'w state
    \<Rightarrow> legacy_result list \<times> 'w state" where
  "our_channel_part env loadTokens rq st =
     (case loadTokens ''ourChannel'' of
        None \<Rightarrow> ([], st)
      | Some ourChannelTokens \<Rightarrow>
          (case validateTokens env ourChannelTokens st of
             (False, st1) \<Rightarrow> ([], st1)
           | (True, st1) \<Rightarrow>
               (case createBroadcastAndStream env rq (Some ourChannelTokens) ''ourChannel'' st1 of
                  (Inl _, st2) \<Rightarrow> ([], st2)
                | (Inr ourStreamDetails, st2) \<Rightarrow> ([ourStreamDetails], st2))))"

definition legacy_go_live_now ::
  "'w services \<Rightarrow> (string \<Rightarrow> tokens option) \<Rightarrow> legacy_request \<Rightarrow> 'w state
    \<Rightarrow> legacy_response \<times> 'w state" where
  "legacy_go_live_now env loadTokens rq st =
     (if lg_authCompleted rq then
        (case loadTokens ''customerChannel'' of
           None \<Rightarrow>
             (LegacyFailure ''Customer channel authentication required. Please try again.'', st)
         | Some customerTokens \<Rightarrow>
             (case our_channel_part env loadTokens rq st of
                (results, st1) \<Rightarrow>
                  (case createBroadcastAndStream env rq (Some customerTokens) ''customerChannel'' st1 of
                     (Inl _, st2) \<Rightarrow>
                       (LegacyFailure
                          ''Failed to create stream on customer channel. Please try again.'', st2)
                   | (Inr customerStreamDetails, st2) \<Rightarrow>
                       (LegacySuccess (results @ [customerStreamDetails])
                          (''Streams created successfully'' @
                             (if length (results @ [customerStreamDetails]) > 1
                              then '' on both channels'' else '' on customer channel'')), st2))))
      else (LegacyRedirect, st))"

text \<open>
  The token-file \<open>/end-stream\<close>: one entry of \<open>results\<close> per channel of \<open>CHANNELS\<close>, each
  channel inside its own \<open>try\<close>/\<open>catch\<close>.
\<close>

record channel_report =
  rep_channelName :: string
  rep_title :: string
  rep_status :: string
  rep_message :: string

definition end_stream_channel ::
  "'w services \<Rightarrow> string \<Rightarrow> string \<Rightarrow> tokens option \<Rightarrow> 'w state \<Rightarrow> channel_report \<times> 'w state" where
  "end_stream_channel env title channelName channelTokens st =
     (case channelTokens of
        None \<Rightarrow>
          (\<lparr>rep_channelName = channelName, rep_title = title, rep_status = ''no_tokens'',
            rep_message = ''No tokens found for '' @ channelName @ ''. Please authenticate.''\<rparr>, st)
      | Some tokens \<Rightarrow>
          (case validateTokens env tokens st of
             (False, st1) \<Rightarrow>
               (\<lparr>rep_channelName = channelName, rep_title = title, rep_status = ''invalid_tokens'',
                 rep_message = ''Tokens for '' @ channelName @ '' are invalid. Please reauthenticate.''\<rparr>,
                st1)
           | (True, st1) \<Rightarrow>
               (case call (liveBroadcasts_list_active env (Some tokens))
                       (EvBroadcastsListActive (Some tokens)) st1 of
                  (Inl e, st2) \<Rightarrow>
                    (\<lparr>rep_channelName = channelName, rep_title = title, rep_status = ''error'',
                      rep_message = ''Error ending stream for '' @ channelName @ '': '' @ e\<rparr>, st2)
                | (Inr items, st2) \<Rightarrow>
                    (case find (\<lambda>broadcast. toLowerCase (snippet_title broadcast) = toLowerCase title)
                            items of
                       None \<Rightarrow>
                         (\<lparr>rep_channelName = channelName, rep_title = title,
                           rep_status = ''not_found'',
                           rep_message = ''No live stream with title '' @ [CHR 0x22] @ title @ [CHR 0x22] @
                              '' found for '' @
                              channelName @ ''.''\<rparr>, st2)
                     | Some matchingBroadcast \<Rightarrow>
                         (case call (liveBroadcasts_transition env (Some tokens)
                                       (broadcast_id matchingBroadcast) ''complete'')
                                 (EvBroadcastsTransition (Some tokens)
                                       (broadcast_id matchingBroadcast) ''complete'') st2 of
                            (Inl e, st3) \<Rightarrow>
                              (\<lparr>rep_channelName = channelName, rep_title = title,
                                rep_status = ''error'',
                                rep_message = ''Error ending stream for '' @ channelName @ '': '' @ e\<rparr>,
                               st3)
                          | (Inr _, st3) \<Rightarrow>
                              (\<lparr>rep_channelName = channelName, rep_title = title,
                                rep_status = ''success'',
                                rep_message = ''Stream '' @ [CHR 0x22] @ title @ [CHR 0x22] @
                                   '' has ended successfully for '' @
                                   channelName @ ''.''\<rparr>, st3))))))"

fun end_stream_channels ::
  "'w services \<Rightarrow> string \<Rightarrow> (string \<times> tokens option) list \<Rightarrow> 'w state
    \<Rightarrow> channel_report list \<times> 'w state" where
  "end_stream_channels env title [] st = ([], st)"
| "end_stream_channels env title ((channelName, channelTokens) # channels) st =
     (case end_stream_channel env title channelName channelTokens st of
        (report, st1) \<Rightarrow>
          (case end_stream_channels env title channels st1 of
             (reports, st2) \<Rightarrow> (report # reports, st2)))"

text \<open>\<open>res.status(200).json({ results })\<close> or \<open>res.status(400).json({ error })\<close>.\<close>

datatype legacy_end_response =
    LegacyEndResults "channel_report list"
  | LegacyEndError nat string

definition legacy_end_stream ::
  "'w services \<Rightarrow> (string \<times> tokens option) list \<Rightarrow> string option \<Rightarrow> 'w state
    \<Rightarrow> legacy_end_response \<times> 'w state" where
  "legacy_end_stream env CHANNELS title st =
     (if \<not> truthy title then (LegacyEndError 400 ''Stream title is required.'', st)
      else
        (case end_stream_channels env (or_default title []) CHANNELS st of
           (results, st1) \<Rightarrow> (LegacyEndResults results, st1)))"

section \<open>Observations on traces and on the platform\<close>

definition is_transition_request :: "event \<Rightarrow> bool" where
  "is_transition_request ev = (case ev of EvBroadcastsTransition _ _ _ \<Rightarrow> True | _ \<Rightarrow> False)"

text \<open>
  What marks the attempts of \<open>attemptTransition\<close> in a trace: the status poll that opens
  each attempt (the \<open>liveBroadcasts.list\<close> by id) and the timed waits.
\<close>

definition is_attempt_mark :: "event \<Rightarrow> bool" where
  "is_attempt_mark ev =
     (case ev of EvBroadcastsListId _ _ \<Rightarrow> True | EvSleep _ \<Rightarrow> True | _ \<Rightarrow> False)"

definition is_status_poll :: "event \<Rightarrow> bool" where
  "is_status_poll ev = (case ev of EvBroadcastsListId _ _ \<Rightarrow> True | _ \<Rightarrow> False)"

definition is_db_write :: "event \<Rightarrow> bool" where
  "is_db_write ev = (case ev of EvDbUpdate _ _ _ _ \<Rightarrow> True | _ \<Rightarrow> False)"

definition is_stream_insert :: "event \<Rightarrow> bool" where
  "is_stream_insert ev = (case ev of EvStreamsInsert _ _ \<Rightarrow> True | _ \<Rightarrow> False)"

text \<open>
  Two behaviours of the platform, for one broadcast seen with one set of credentials:
  every status poll finds the broadcast not yet live on an active stream of good health,
  and every transition request is rejected.
\<close>

definition every_poll_passes :: "'w services \<Rightarrow> credentials \<Rightarrow> string \<Rightarrow> bool" where
  "every_poll_passes env c bid \<longleftrightarrow>
     (\<forall>st. \<exists>h st1. checkStreamHealth env c bid st = (Inr h, st1) \<and>
        h_broadcastStatus h \<noteq> ''live'' \<and> h_streamStatus h = ''active'' \<and>
        h_healthStatus h = Some ''good'')"

definition every_transition_fails :: "'w services \<Rightarrow> credentials \<Rightarrow> string \<Rightarrow> bool" where
  "every_transition_fails env c bid \<longleftrightarrow>
     (\<forall>target w. \<exists>e w'. liveBroadcasts_transition env c bid target w = (Inl e, w'))"

text \<open>
  Two grounds that differ at most in the given stream-id field, and two databases that
  differ at most in that field of grounds with the given ground id, in academies with
  the given academy id.
\<close>

definition same_except_field :: "stream_field \<Rightarrow> ground \<Rightarrow> ground \<Rightarrow> bool" where
  "same_except_field f g g' \<longleftrightarrow>
     (case f of
        AcademyStreamId \<Rightarrow> g' = g\<lparr>g_academyStreamId := g_academyStreamId g'\<rparr>
      | CompanyStreamId \<Rightarrow> g' = g\<lparr>g_companyStreamId := g_companyStreamId g'\<rparr>)"

definition only_stream_id_changed ::
  "string \<Rightarrow> string \<Rightarrow> stream_field \<Rightarrow> database \<Rightarrow> database \<Rightarrow> bool" where
  "only_stream_id_changed academyId groundId f d d' \<longleftrightarrow>
     companies d' = companies d \<and>
     list_all2
       (\<lambda>a a'. a' = a\<lparr>a_grounds := a_grounds a'\<rparr> \<and>
          list_all2
            (\<lambda>g g'. g' = g \<or>
               (a_academyId a = academyId \<and> g_groundId g = groundId \<and> same_except_field f g g'))
            (a_grounds a) (a_grounds a'))
       (academies d) (academies d')"

text \<open>
  The platform's contract for \<open>liveStreams.list\<close> with an \<open>id\<close> filter: the streams it
  answers with have that id.
\<close>

definition list_by_id_honest :: "'w services \<Rightarrow> bool" where
  "list_by_id_honest env \<longleftrightarrow>
     (\<forall>c sid w ss w'. liveStreams_list env c (Some sid) w = (Inr ss, w') \<longrightarrow>
        list_all (\<lambda>s. stream_id s = sid) ss)"

text \<open>
  What the database remembers for a (channel role, ground) pair of an academy: the
  ground a handler gets after \<open>Academy.findOne({ academyId })\<close> (the first document with
  that id, its first ground with that ground id) and the role's stream-id field of it.
  An academy object is up to date for a pair when it has the ground and agrees with the
  database about that field; it may be stale elsewhere.
\<close>

definition stored_ground :: "string \<Rightarrow> string \<Rightarrow> database \<Rightarrow> ground option" where
  "stored_ground academyId groundId d =
     (case find (\<lambda>a. a_academyId a = academyId) (academies d) of
        None \<Rightarrow> None
      | Some a \<Rightarrow> find (\<lambda>g. g_groundId g = groundId) (a_grounds a))"

definition db_remembers :: "database \<Rightarrow> string \<Rightarrow> string \<Rightarrow> bool \<Rightarrow> string option \<Rightarrow> bool" where
  "db_remembers d academyId groundId isCompanyChannel v \<longleftrightarrow>
     (case stored_ground academyId groundId d of
        None \<Rightarrow> False
      | Some g \<Rightarrow> remembered_streamId isCompanyChannel g = v)"

definition up_to_date :: "academy \<Rightarrow> string \<Rightarrow> bool \<Rightarrow> database \<Rightarrow> bool" where
  "up_to_date academy groundId isCompanyChannel d \<longleftrightarrow>
     (case find (\<lambda>g. g_groundId g = groundId) (a_grounds academy) of
        None \<Rightarrow> False
      | Some ground \<Rightarrow>
          db_remembers d (a_academyId academy) groundId isCompanyChannel
            (remembered_streamId isCompanyChannel ground))"

text \<open>The credentials a request was sent with; a write or a wait has none.\<close>

definition request_credentials :: "event \<Rightarrow> credentials option" where
  "request_credentials ev =
     (case ev of
        EvChannelsList c \<Rightarrow> Some c
      | EvStreamsList c _ \<Rightarrow> Some c
      | EvStreamsInsert c _ \<Rightarrow> Some c
      | EvBroadcastsInsert c _ \<Rightarrow> Some c
      | EvBroadcastsBind c _ _ \<Rightarrow> Some c
      | EvBroadcastsListActive c \<Rightarrow> Some c
      | EvBroadcastsListId c _ \<Rightarrow> Some c
      | EvBroadcastsTransition c _ _ \<Rightarrow> Some c
      | EvDbUpdate _ _ _ _ \<Rightarrow> None
      | EvSleep _ \<Rightarrow> None)"

definition sent_only_as :: "credentials \<Rightarrow> event list \<Rightarrow> bool" where
  "sent_only_as c evs \<longleftrightarrow>
     list_all (\<lambda>ev. request_credentials ev = None \<or> request_credentials ev = Some c) evs"

text \<open>
  Bookkeeping for runs of the two \<open>endBroadcast\<close> processes: the requests a process
  still has to make, that the first rejection is the one noted, and that a process past
  its search has sent its list request. The statuses of the token-file report.
\<close>

fun steps_left :: "end_proc \<Rightarrow> nat" where
  "steps_left Searching = 2"
| "steps_left (Transitioning _) = 1"
| "steps_left (Settled _) = 0"

definition rejections_noted :: "end_proc \<Rightarrow> end_proc \<Rightarrow> string option \<Rightarrow> bool" where
  "rejections_noted pa pc rej \<longleftrightarrow>
     (case rej of
        None \<Rightarrow> (\<forall>e. pa \<noteq> Settled (Inl e)) \<and> (\<forall>e. pc \<noteq> Settled (Inl e))
      | Some e \<Rightarrow> pa = Settled (Inl e) \<or> pc = Settled (Inl e))"

definition searches_sent ::
  "credentials \<Rightarrow> credentials \<Rightarrow> end_proc \<Rightarrow> end_proc \<Rightarrow> event list \<Rightarrow> bool" where
  "searches_sent ca cc pa pc evs \<longleftrightarrow>
     (pa = Searching \<or> EvBroadcastsListActive ca \<in> set evs) \<and>
     (pc = Searching \<or> EvBroadcastsListActive cc \<in> set evs)"

definition report_statuses :: "string list" where
  "report_statuses = [''no_tokens'', ''invalid_tokens'', ''error'', ''not_found'', ''success'']"


section \<open>A simulated platform, for concrete runs\<close>

text \<open>
  A small stand-in for the remote platform and the database driver, used only to run
  the handlers on concrete inputs. It keeps the streams and broadcasts of each set of
  credentials, hands out fresh ids, never faults, and lists as active every broadcast
  that is not complete.
\<close>

record sim =
  sim_counter :: string
  sim_streams :: "(credentials \<times> stream_resource) list"
  sim_broadcasts :: "(credentials \<times> broadcast_resource) list"

definition sim_new_stream :: "stream_spec \<Rightarrow> sim \<Rightarrow> stream_resource" where
  "sim_new_stream spec w =
     \<lparr>stream_id = ''stream'' @ sim_counter w,
      cdn_streamName = or_default (ss_streamName spec) ''auto-key'',
      cdn_ingestionAddress = ''rtmp://ingest'', cdn_resolution = ''1080p'',
      cdn_frameRate = ''30fps'', cdn_ingestionType = ''rtmp'',
      status_streamStatus = ''active'', status_healthStatus = Some ''good''\<rparr>"

definition sim_new_broadcast :: "broadcast_spec \<Rightarrow> sim \<Rightarrow> broadcast_resource" where
  "sim_new_broadcast spec w =
     \<lparr>broadcast_id = ''broadcast'' @ sim_counter w, snippet_title = bs_title spec,
      status_lifeCycleStatus = ''ready'', contentDetails_boundStreamId = None\<rparr>"

definition sim_update_broadcast ::
  "credentials \<Rightarrow> string \<Rightarrow> (broadcast_resource \<Rightarrow> broadcast_resource) \<Rightarrow> sim \<Rightarrow> sim" where
  "sim_update_broadcast c bid f w =
     w\<lparr>sim_broadcasts :=
         map (\<lambda>(c', b). if c' = c \<and> broadcast_id b = bid then (c', f b) else (c', b))
           (sim_broadcasts w)\<rparr>"

definition sim_services :: "sim services" where
  "sim_services =
     \<lparr>db_fault = (\<lambda>w. (None, w)),
      clock_now = (\<lambda>w. ''2024-01-01T00:00:00.000Z''),
      channels_list = (\<lambda>c w. (Inr (), w)),
      liveStreams_list = (\<lambda>c sid w.
        (Inr (map snd (filter (\<lambda>(c', s). c' = c \<and> Some (stream_id s) = sid) (sim_streams w))), w)),
      liveStreams_insert = (\<lambda>c spec w.
        (Inr (sim_new_stream spec w),
         w\<lparr>sim_counter := CHR ''i'' # sim_counter w,
           sim_streams := sim_streams w @ [(c, sim_new_stream spec w)]\<rparr>)),
      liveBroadcasts_insert = (\<lambda>c spec w.
        (Inr (sim_new_broadcast spec w),
         w\<lparr>sim_counter := CHR ''i'' # sim_counter w,
           sim_broadcasts := sim_broadcasts w @ [(c, sim_new_broadcast spec w)]\<rparr>)),
      liveBroadcasts_bind = (\<lambda>c bid sid w.
        (Inr (), sim_update_broadcast c bid (\<lambda>b. b\<lparr>contentDetails_boundStreamId := Some sid\<rparr>) w)),
      liveBroadcasts_list_active = (\<lambda>c w.
        (Inr (map snd (filter (\<lambda>(c', b). c' = c \<and> status_lifeCycleStatus b \<noteq> ''complete'')
                        (sim_broadcasts w))), w)),
      liveBroadcasts_list_id = (\<lambda>c bid w.
        (Inr (map snd (filter (\<lambda>(c', b). c' = c \<and> broadcast_id b = bid) (sim_broadcasts w))), w)),
      liveBroadcasts_transition = (\<lambda>c bid target w.
        (case find (\<lambda>(c', b). c' = c \<and> broadcast_id b = bid) (sim_broadcasts w) of
           None \<Rightarrow> (Inl ''broadcastNotFound'', w)
         | Some (_, b) \<Rightarrow>
             (Inr (b\<lparr>status_lifeCycleStatus := target\<rparr>),
              sim_update_broadcast c bid (\<lambda>b. b\<lparr>status_lifeCycleStatus := target\<rparr>) w)))\<rparr>"

text \<open>The same platform with every request made with the given credentials rejected at
  \<open>liveBroadcasts.insert\<close> and at \<open>liveBroadcasts.list\<close>.\<close>

definition sim_services_rejecting :: "credentials \<Rightarrow> sim services" where
  "sim_services_rejecting bad =
     sim_services
       \<lparr>liveBroadcasts_insert := (\<lambda>c spec w.
           if c = bad then (Inl ''forbidden'', w) else liveBroadcasts_insert sim_services c spec w),
        liveBroadcasts_list_active := (\<lambda>c w.
           if c = bad then (Inl ''forbidden'', w) else liveBroadcasts_list_active sim_services c w)\<rparr>"

text \<open>One academy with one ground and no remembered stream ids, and the company.\<close>

definition demo_ground :: ground where
  "demo_ground =
     \<lparr>g_groundId = ''G1'', g_title = ''Main Pitch'', g_streamKey = ''A1-G1-1700000000000'',
      g_academyStreamId = None, g_companyStreamId = None\<rparr>"

definition demo_academy :: academy where
  "demo_academy =
     \<lparr>a_academyId = ''A1'', a_name = ''Acad'', a_youtubeTokens = Some ''academy-tokens'',
      a_grounds = [demo_ground]\<rparr>"

definition demo_db :: database where
  "demo_db =
     \<lparr>academies = [demo_academy],
      companies = [\<lparr>c_name = ''Co'', c_youtubeTokens = Some ''company-tokens''\<rparr>]\<rparr>"

definition demo_state :: "sim state" where
  "demo_state =
     \<lparr>st_world = \<lparr>sim_counter = [], sim_streams = [], sim_broadcasts = []\<rparr>,
      st_db = demo_db, st_trace = []\<rparr>"

text \<open>Requests for the demo ground, and token files for both channels of the token-file variant.\<close>

definition demo_go_live_request :: go_live_request where
  "demo_go_live_request =
     \<lparr>rq_academyId = ''A1'', rq_groundId = ''G1'', rq_title = ''U15 vs U17'', rq_teamA = ''U15'',
      rq_teamB = ''U17'', rq_startTime = StartAbsent\<rparr>"

definition demo_legacy_request :: legacy_request where
  "demo_legacy_request =
     \<lparr>lg_title = Some ''U15 vs U17'', lg_teamA = Some ''U15'', lg_teamB = Some ''U17'',
      lg_authCompleted = True\<rparr>"

definition demo_loadTokens :: "string \<Rightarrow> tokens option" where
  "demo_loadTokens channelName =
     (if channelName = ''ourChannel'' then Some ''our-tokens''
      else if channelName = ''customerChannel'' then Some ''customer-tokens'' else None)"

text \<open>The state after the academy channel's stream of the demo ground was resolved once.\<close>

definition demo_stream_details :: stream_details where
  "demo_stream_details =
     \<lparr>sd_streamId = ''stream'', sd_streamKey = ''A1-G1-1700000000000'',
      sd_ingestionAddress = ''rtmp://ingest'', sd_resolution = ''1080p'',
      sd_frameRate = ''30fps'', sd_ingestionType = ''rtmp''\<rparr>"

definition demo_state_resolved :: "sim state" where
  "demo_state_resolved =
     \<lparr>st_world =
        \<lparr>sim_counter = ''i'',
         sim_streams =
           [(Some ''academy-tokens'',
             \<lparr>stream_id = ''stream'', cdn_streamName = ''A1-G1-1700000000000'',
              cdn_ingestionAddress = ''rtmp://ingest'', cdn_resolution = ''1080p'',
              cdn_frameRate = ''30fps'', cdn_ingestionType = ''rtmp'',
              status_streamStatus = ''active'', status_healthStatus = Some ''good''\<rparr>)],
         sim_broadcasts = []\<rparr>,
      st_db =
        \<lparr>academies =
           [demo_academy\<lparr>a_grounds := [demo_ground\<lparr>g_academyStreamId := Some ''stream''\<rparr>]\<rparr>],
         companies = companies demo_db\<rparr>,
      st_trace =
        [EvStreamsInsert (Some ''academy-tokens'')
           \<lparr>ss_title = ''Main Pitch - Stream'', ss_streamName = Some ''A1-G1-1700000000000''\<rparr>,
         EvDbUpdate ''A1'' ''G1'' AcademyStreamId ''stream'']\<rparr>"

text \<open>
  The state the simulated platform and the database are in after a go-live for the demo
  ground with title "U15 vs U17", an end-stream request for that title, and the channel
  table of the token-file variant.
\<close>

definition demo_academy_live :: academy where
  "demo_academy_live =
     demo_academy
       \<lparr>a_grounds := [demo_ground\<lparr>g_academyStreamId := Some ''stream'',
                                  g_companyStreamId := Some ''streamii''\<rparr>]\<rparr>"

definition demo_after_go_live :: "sim state" where
  "demo_after_go_live =
     \<lparr>st_world =
        \<lparr>sim_counter = ''iiii'',
         sim_streams =
           [(Some ''academy-tokens'',
             \<lparr>stream_id = ''stream'', cdn_streamName = ''A1-G1-1700000000000'',
              cdn_ingestionAddress = ''rtmp://ingest'', cdn_resolution = ''1080p'',
              cdn_frameRate = ''30fps'', cdn_ingestionType = ''rtmp'',
              status_streamStatus = ''active'', status_healthStatus = Some ''good''\<rparr>),
            (Some ''company-tokens'',
             \<lparr>stream_id = ''streamii'', cdn_streamName = ''Acad:MainPitch'',
              cdn_ingestionAddress = ''rtmp://ingest'', cdn_resolution = ''1080p'',
              cdn_frameRate = ''30fps'', cdn_ingestionType = ''rtmp'',
              status_streamStatus = ''active'', status_healthStatus = Some ''good''\<rparr>)],
         sim_broadcasts =
           [(Some ''academy-tokens'',
             \<lparr>broadcast_id = ''broadcasti'', snippet_title = ''U15 vs U17'',
              status_lifeCycleStatus = ''ready'',
              contentDetails_boundStreamId = Some ''stream''\<rparr>),
            (Some ''company-tokens'',
             \<lparr>broadcast_id = ''broadcastiii'', snippet_title = ''U15 vs U17'',
              status_lifeCycleStatus = ''ready'',
              contentDetails_boundStreamId = Some ''streamii''\<rparr>)]\<rparr>,
      st_db =
        \<lparr>academies = [demo_academy_live], companies = companies demo_db\<rparr>,
      st_trace =
        [EvStreamsInsert (Some ''academy-tokens'')
           \<lparr>ss_title = ''Main Pitch - Stream'', ss_streamName = Some ''A1-G1-1700000000000''\<rparr>,
         EvDbUpdate ''A1'' ''G1'' AcademyStreamId ''stream'',
         EvBroadcastsInsert (Some ''academy-tokens'')
           \<lparr>bs_title = ''U15 vs U17'', bs_description = ''U15 vs U17'',
            bs_scheduledStartTime = ''2024-01-01T00:00:00.000Z'', bs_enableAutoStart = True,
            bs_enableAutoStop = True, bs_defaultStreamKey = Some ''stream''\<rparr>,
         EvBroadcastsBind (Some ''academy-tokens'') ''broadcasti'' ''stream'',
         EvStreamsInsert (Some ''company-tokens'')
           \<lparr>ss_title = ''Acad - Main Pitch'', ss_streamName = Some ''Acad:MainPitch''\<rparr>,
         EvDbUpdate ''A1'' ''G1'' CompanyStreamId ''streamii'',
         EvBroadcastsInsert (Some ''company-tokens'')
           \<lparr>bs_title = ''U15 vs U17'', bs_description = ''U15 vs U17'',
            bs_scheduledStartTime = ''2024-01-01T00:00:00.000Z'', bs_enableAutoStart = True,
            bs_enableAutoStop = True, bs_defaultStreamKey = Some ''streamii''\<rparr>,
         EvBroadcastsBind (Some ''company-tokens'') ''broadcastiii'' ''streamii'']\<rparr>"

definition demo_CHANNELS :: "(string \<times> tokens option) list" where
  "demo_CHANNELS = [(''ourChannel'', None), (''customerChannel'', Some ''academy-tokens'')]"

definition demo_end_request :: end_stream_request where
  "demo_end_request = \<lparr>es_academyId = ''A1'', es_title = ''U15 vs U17''\<rparr>"

text \<open>A world with one academy-channel broadcast bound to one stream of the given status and health.\<close>

definition demo_stream :: "string \<Rightarrow> string option \<Rightarrow> stream_resource" where
  "demo_stream streamStatus healthStatus =
     \<lparr>stream_id = ''s1'', cdn_streamName = ''key'', cdn_ingestionAddress = ''rtmp://ingest'',
      cdn_resolution = ''1080p'', cdn_frameRate = ''30fps'', cdn_ingestionType = ''rtmp'',
      status_streamStatus = streamStatus, status_healthStatus = healthStatus\<rparr>"

definition demo_broadcast :: "string \<Rightarrow> broadcast_resource" where
  "demo_broadcast lifeCycleStatus =
     \<lparr>broadcast_id = ''b1'', snippet_title = ''U15 vs U17'',
      status_lifeCycleStatus = lifeCycleStatus, contentDetails_boundStreamId = Some ''s1''\<rparr>"

definition demo_live_state :: "string \<Rightarrow> string \<Rightarrow> string option \<Rightarrow> sim state" where
  "demo_live_state lifeCycleStatus streamStatus healthStatus =
     \<lparr>st_world =
        \<lparr>sim_counter = [],
         sim_streams = [(Some ''academy-tokens'', demo_stream streamStatus healthStatus)],
         sim_broadcasts = [(Some ''academy-tokens'', demo_broadcast lifeCycleStatus)]\<rparr>,
      st_db = demo_db, st_trace = []\<rparr>"

definition demo_start_request :: start_request where
  "demo_start_request =
     \<lparr>sr_academyId = ''A1'', sr_broadcastId = ''b1'', sr_isCompanyChannel = False\<rparr>"

text \<open>
  A platform without state whose answers never change: the broadcast is \<open>ready\<close>, its
  stream is active and of good health, every transition request is rejected, and so is
  every creation.
\<close>

definition stuck_services :: "unit services" where
  "stuck_services =
     \<lparr>db_fault = (\<lambda>w. (None, w)),
      clock_now = (\<lambda>w. ''2024-01-01T00:00:00.000Z''),
      channels_list = (\<lambda>c w. (Inr (), w)),
      liveStreams_list = (\<lambda>c sid w. (Inr [demo_stream ''active'' (Some ''good'')], w)),
      liveStreams_insert = (\<lambda>c spec w. (Inl ''backendError'', w)),
      liveBroadcasts_insert = (\<lambda>c spec w. (Inl ''backendError'', w)),
      liveBroadcasts_bind = (\<lambda>c bid sid w. (Inl ''backendError'', w)),
      liveBroadcasts_list_active = (\<lambda>c w. (Inr [demo_broadcast ''ready''], w)),
      liveBroadcasts_list_id = (\<lambda>c bid w. (Inr [demo_broadcast ''ready''], w)),
      liveBroadcasts_transition = (\<lambda>c bid target w. (Inl ''backendError'', w))\<rparr>"

definition stuck_state :: "unit state" where
  "stuck_state = \<lparr>st_world = (), st_db = demo_db, st_trace = []\<rparr>"

text \<open>
  The states of the first and of a second go-live for the demo ground right before the
  company channel's stream is resolved, the state after the first go-live with no
  company document, a status request, and a state in which each channel holds an active
  broadcast titled "Team A  vs   Team B" (the company channel also one with the academy's
  name in front), with the end-stream request for "Team A vs Team B".
\<close>

definition demo_before_company :: "sim state" where
  "demo_before_company =
     snd (academy_subflow True sim_services demo_academy demo_go_live_request demo_state)"

definition demo_second_before_company :: "sim state" where
  "demo_second_before_company =
     snd (academy_subflow True sim_services demo_academy_live demo_go_live_request
            demo_after_go_live)"

definition demo_no_company :: "sim state" where
  "demo_no_company = demo_after_go_live\<lparr>st_db := (st_db demo_after_go_live)\<lparr>companies := []\<rparr>\<rparr>"

definition demo_check_request :: check_request where
  "demo_check_request =
     \<lparr>cs_academyId = ''A1'', cs_broadcastId = ''b1'', cs_isCompanyChannel = None\<rparr>"

definition demo_titled :: "string \<Rightarrow> string \<Rightarrow> broadcast_resource" where
  "demo_titled broadcastId title =
     \<lparr>broadcast_id = broadcastId, snippet_title = title, status_lifeCycleStatus = ''ready'',
      contentDetails_boundStreamId = None\<rparr>"

definition demo_spaced_state :: "sim state" where
  "demo_spaced_state =
     demo_after_go_live
       \<lparr>st_world := (st_world demo_after_go_live)
          \<lparr>sim_broadcasts :=
             [(Some ''academy-tokens'', demo_titled ''b1'' ''Team A  vs   Team B''),
              (Some ''company-tokens'', demo_titled ''b2'' ''Team A  vs   Team B''),
              (Some ''company-tokens'', demo_titled ''b3'' ''Acad - Team A  vs   Team B'')]\<rparr>\<rparr>"

definition demo_spaced_request :: end_stream_request where
  "demo_spaced_request = \<lparr>es_academyId = ''A1'', es_title = ''Team A vs Team B''\<rparr>"

section \<open>Basic facts about effects\<close>

lemmas run_defs =
  call_def sleep_def db_read_def Academy_findOne_def Company_findOne_def
  getCompanyOAuthClient_def truthy_def or_default_def show_nullable_def
  sim_services_def sim_services_rejecting_def
  sim_update_broadcast_def sim_new_stream_def sim_new_broadcast_def stuck_services_def
  stuck_state_def demo_db_def demo_academy_def demo_ground_def demo_state_def
  demo_stream_def demo_broadcast_def demo_live_state_def demo_start_request_def
  demo_stream_details_def demo_state_resolved_def

lemmas go_live_defs =
  go_live_now_def academy_subflow_def company_subflow_def createBroadcastAndBind_def
  getExistingStream_def fetch_remembered_def create_and_remember_def
  Academy_findOneAndUpdate_def apply_stream_id_update_def set_stream_id_def updateField_def
  remembered_streamId_def describe_stream_def replace_ws_runs_empty_def scheduledStartTime_def
  isWhiteSpace_def demo_go_live_request_def Let_def

lemmas legacy_defs =
  legacy_go_live_now_def our_channel_part_def validateTokens_def createBroadcastAndStream_def
  describe_stream_def demo_legacy_request_def demo_loadTokens_def Let_def

lemma event_tests [simp]:
  "is_attempt_mark (EvBroadcastsTransition c b t) = False"
  "is_attempt_mark (EvSleep n) = True"
  "is_attempt_mark (EvBroadcastsListId c b) = True"
  "is_attempt_mark (EvStreamsList c sid) = False"
  "is_transition_request (EvBroadcastsTransition c b t) = True"
  "is_transition_request (EvSleep n) = False"
  "is_transition_request (EvBroadcastsListId c b) = False"
  "is_transition_request (EvStreamsList c sid) = False"
  "is_status_poll (EvBroadcastsTransition c b t) = False"
  "is_status_poll (EvSleep n) = False"
  "is_status_poll (EvBroadcastsListId c b) = True"
  "is_status_poll (EvStreamsList c sid) = False"
  "is_db_write (EvDbUpdate a g f v) = True"
  "is_db_write (EvStreamsInsert c spec) = False"
  "is_db_write (EvStreamsList c sid) = False"
  "is_stream_insert (EvDbUpdate a g f v) = False"
  "is_stream_insert (EvStreamsInsert c spec) = True"
  "is_stream_insert (EvStreamsList c sid) = False"
  by (simp_all add: is_attempt_mark_def is_transition_request_def is_status_poll_def
      is_db_write_def is_stream_insert_def)

lemma call_effect:
  "call f ev st = (r, st') \<Longrightarrow> st_trace st' = st_trace st @ [ev] \<and> st_db st' = st_db st"
  by (auto simp: call_def split: prod.splits)

lemma db_read_effect:
  "db_read env q st = (r, st') \<Longrightarrow> st_trace st' = st_trace st \<and> st_db st' = st_db st"
  by (auto simp: db_read_def split: prod.splits option.splits)

lemma Academy_findOne_effect:
  "Academy_findOne env a st = (r, st') \<Longrightarrow> st_trace st' = st_trace st \<and> st_db st' = st_db st"
  unfolding Academy_findOne_def by (rule db_read_effect)

lemma getCompanyOAuthClient_effect:
  "getCompanyOAuthClient env st = (r, st') \<Longrightarrow> st_trace st' = st_trace st \<and> st_db st' = st_db st"
  by (auto simp: getCompanyOAuthClient_def Company_findOne_def
      split: prod.splits sum.splits option.splits dest!: db_read_effect)

section \<open>Status check\<close>

text \<open>A status report is given only when broadcast and stream were resolved, and it is theirs.\<close>

lemma check_stream_status_ok_resolved:
  assumes "check_stream_status env rq st = (CheckOk r, st')"
  shows "\<exists>academy st0 c st1 broadcast bs w2 stream ss w3.
           Academy_findOne env (cs_academyId rq) st = (Inr (Some academy), st0) \<and>
           (if cs_isCompanyChannel rq = Some ''true'' then getCompanyOAuthClient env st0
            else (Inr (a_youtubeTokens academy), st0)) = (Inr c, st1) \<and>
           liveBroadcasts_list_id env c (cs_broadcastId rq) (st_world st1) =
             (Inr (broadcast # bs), w2) \<and>
           liveStreams_list env c (contentDetails_boundStreamId broadcast) w2 =
             (Inr (stream # ss), w3) \<and>
           r = \<lparr>cr_broadcastStatus = status_lifeCycleStatus broadcast,
                cr_streamStatus = status_streamStatus stream,
                cr_healthStatus = status_healthStatus stream,
                cr_isReadyToStart =
                  (status_streamStatus stream = ''active'' \<and>
                   (status_lifeCycleStatus broadcast = ''testing'' \<or>
                    status_lifeCycleStatus broadcast = ''ready''))\<rparr>"
  using assms
  by (auto simp: check_stream_status_def call_def
      split: prod.splits sum.splits option.splits list.splits if_splits)

text \<open>
  C10. Whenever \<open>/check-stream-status\<close> resolves the broadcast and its bound stream
  (the academy is found, the credentials are obtained, the platform answers the list by
  id with a broadcast and the list of its bound stream with a stream), it answers with a
  status report that carries the platform's broadcast, stream and health status, and
  whose \<open>isReadyToStart\<close> is true exactly when that stream's status is \<open>active\<close> and that
  broadcast's life-cycle status is \<open>testing\<close> or \<open>ready\<close>; so it is false when the
  broadcast is \<open>live\<close>.
\<close>

theorem check_stream_status_ready:
  assumes found: "Academy_findOne env (cs_academyId rq) st = (Inr (Some academy), st0)"
      and creds: "(if cs_isCompanyChannel rq = Some ''true'' then getCompanyOAuthClient env st0
                   else (Inr (a_youtubeTokens academy), st0)) = (Inr c, st1)"
      and broadcast: "liveBroadcasts_list_id env c (cs_broadcastId rq) (st_world st1) =
                        (Inr (broadcast # bs), w2)"
      and stream: "liveStreams_list env c (contentDetails_boundStreamId broadcast) w2 =
                        (Inr (stream # ss), w3)"
  shows "\<exists>r st'. check_stream_status env rq st = (CheckOk r, st') \<and>
           cr_broadcastStatus r = status_lifeCycleStatus broadcast \<and>
           cr_streamStatus r = status_streamStatus stream \<and>
           cr_healthStatus r = status_healthStatus stream \<and>
           (cr_isReadyToStart r \<longleftrightarrow>
              status_streamStatus stream = ''active'' \<and>
              (status_lifeCycleStatus broadcast = ''testing'' \<or>
               status_lifeCycleStatus broadcast = ''ready'')) \<and>
           (status_lifeCycleStatus broadcast = ''live'' \<longrightarrow> \<not> cr_isReadyToStart r)"
  using assms
  by (simp add: check_stream_status_def call_def)

theorem check_stream_status_ready_witness:
  "fst (check_stream_status sim_services demo_check_request
          (demo_live_state ''ready'' ''active'' (Some ''good''))) =
     CheckOk \<lparr>cr_broadcastStatus = ''ready'', cr_streamStatus = ''active'',
              cr_healthStatus = Some ''good'', cr_isReadyToStart = True\<rparr> \<and>
   fst (check_stream_status sim_services demo_check_request
          (demo_live_state ''live'' ''active'' (Some ''good''))) =
     CheckOk \<lparr>cr_broadcastStatus = ''live'', cr_streamStatus = ''active'',
              cr_healthStatus = Some ''good'', cr_isReadyToStart = False\<rparr> \<and>
   fst (check_stream_status sim_services demo_check_request
          (demo_live_state ''testing'' ''active'' None)) =
     CheckOk \<lparr>cr_broadcastStatus = ''testing'', cr_streamStatus = ''active'',
              cr_healthStatus = None, cr_isReadyToStart = True\<rparr> \<and>
   fst (check_stream_status sim_services demo_check_request
          (demo_live_state ''testing'' ''inactive'' None)) =
     CheckOk \<lparr>cr_broadcastStatus = ''testing'', cr_streamStatus = ''inactive'',
              cr_healthStatus = None, cr_isReadyToStart = False\<rparr>"
proof -
  have run: "fst (check_stream_status sim_services demo_check_request (demo_live_state b s h)) =
               CheckOk \<lparr>cr_broadcastStatus = b, cr_streamStatus = s, cr_healthStatus = h,
                        cr_isReadyToStart = (s = ''active'' \<and> (b = ''testing'' \<or> b = ''ready''))\<rparr>"
    for b s h
  proof -
    let ?st = "demo_live_state b s h"
    have found: "Academy_findOne sim_services (cs_academyId demo_check_request) ?st =
                   (Inr (Some demo_academy), ?st)"
      by (simp add: run_defs demo_check_request_def)
    have creds: "(if cs_isCompanyChannel demo_check_request = Some ''true''
                  then getCompanyOAuthClient sim_services ?st
                  else (Inr (a_youtubeTokens demo_academy), ?st)) =
                 (Inr (Some ''academy-tokens''), ?st)"
      by (simp add: run_defs demo_check_request_def)
    have broadcast: "liveBroadcasts_list_id sim_services (Some ''academy-tokens'')
                       (cs_broadcastId demo_check_request) (st_world ?st) =
                     (Inr (demo_broadcast b # []), st_world ?st)"
      by (simp add: run_defs demo_check_request_def)
    have stream: "liveStreams_list sim_services (Some ''academy-tokens'')
                    (contentDetails_boundStreamId (demo_broadcast b)) (st_world ?st) =
                  (Inr (demo_stream s h # []), st_world ?st)"
      by (simp add: run_defs)
    from check_stream_status_ready[OF found creds broadcast stream]
    obtain r st' where r: "check_stream_status sim_services demo_check_request ?st = (CheckOk r, st')"
      "cr_broadcastStatus r = status_lifeCycleStatus (demo_broadcast b)"
      "cr_streamStatus r = status_streamStatus (demo_stream s h)"
      "cr_healthStatus r = status_healthStatus (demo_stream s h)"
      "cr_isReadyToStart r \<longleftrightarrow>
         status_streamStatus (demo_stream s h) = ''active'' \<and>
         (status_lifeCycleStatus (demo_broadcast b) = ''testing'' \<or>
          status_lifeCycleStatus (demo_broadcast b) = ''ready'')"
      by blast
    then show ?thesis by (cases r) (simp add: demo_broadcast_def demo_stream_def)
  qed
  show ?thesis by (simp add: run)
qed

section \<open>Live transition\<close>

lemma checkStreamHealth_effect:
  "checkStreamHealth env c bid st = (r, st') \<Longrightarrow>
     \<exists>evs. st_trace st' = st_trace st @ evs \<and>
           filter is_attempt_mark evs = [EvBroadcastsListId c bid] \<and>
           filter is_transition_request evs = []"
  by (auto simp: checkStreamHealth_def split: prod.splits sum.splits list.splits
      dest!: call_effect)

lemma attemptTransition_stream_not_active:
  assumes "checkStreamHealth env c bid st = (Inr h, st1)"
      and "h_streamStatus h \<noteq> ''active''" and "h_broadcastStatus h \<noteq> ''live''"
  shows "attemptTransition env c bid n st =
           (Inl (''Stream is not active. Current status: '' @ h_streamStatus h), st1)"
  using assms by (subst attemptTransition.simps) simp

lemma checkStreamHealth_not_bound_in_catch: "\<not> bound_in_catch ''checkStreamHealth''"
  by (simp add: bound_in_catch_def start_stream_handler_bindings_def module_bindings_def)

lemma start_stream_catch_no_snapshot:
  "start_stream_catch env c bid e st = (StartFailedNoSnapshot e, st)"
  by (simp add: start_stream_catch_def checkStreamHealth_not_bound_in_catch)

lemma start_stream_never_reports_snapshot:
  "fst (start_stream env rq st) \<noteq> StartFailedWithSnapshot details h"
  unfolding start_stream_def
  by (simp add: start_stream_catch_no_snapshot split: prod.split sum.split option.split)

text \<open>
  C4. When the academy is found, the credentials are obtained, and the status poll of
  \<open>/start-stream\<close> shows a stream that is not \<open>active\<close> under a broadcast that is not
  \<open>live\<close>, the handler answers with a failure ("Stream is not active...") and stops
  right after the poll: the trace holds no transition request that was not there before.
\<close>

theorem start_stream_fast_fail:
  assumes "Academy_findOne env (sr_academyId rq) st = (Inr (Some academy), st0)"
      and "(if sr_isCompanyChannel rq then getCompanyOAuthClient env st0
            else (Inr (a_youtubeTokens academy), st0)) = (Inr c, st1)"
      and "checkStreamHealth env c (sr_broadcastId rq) st1 = (Inr h, st2)"
      and "h_streamStatus h \<noteq> ''active''" and "h_broadcastStatus h \<noteq> ''live''"
  shows "start_stream env rq st =
           (StartFailedNoSnapshot (''Stream is not active. Current status: '' @ h_streamStatus h), st2)
         \<and> filter is_transition_request (st_trace st2) = filter is_transition_request (st_trace st)"
proof -
  have a: "attemptTransition env c (sr_broadcastId rq) 0 st1 =
        (Inl (''Stream is not active. Current status: '' @ h_streamStatus h), st2)"
    using assms(3-5) by (rule attemptTransition_stream_not_active)
  have t0: "st_trace st0 = st_trace st"
    using Academy_findOne_effect[OF assms(1)] by simp
  have t1: "st_trace st1 = st_trace st0"
    using assms(2) by (auto split: if_splits dest: getCompanyOAuthClient_effect)
  have t2: "filter is_transition_request (st_trace st2) = filter is_transition_request (st_trace st1)"
    using checkStreamHealth_effect[OF assms(3)] by auto
  show ?thesis using assms(1,2) a t0 t1 t2
    by (simp add: start_stream_def start_stream_catch_no_snapshot)
qed

theorem start_stream_fast_fail_witness:
  "checkStreamHealth sim_services (Some ''academy-tokens'') ''b1''
      (demo_live_state ''ready'' ''inactive'' None) =
     (Inr \<lparr>h_broadcastStatus = ''ready'', h_streamStatus = ''inactive'', h_healthStatus = None\<rparr>,
      (demo_live_state ''ready'' ''inactive'' None)
        \<lparr>st_trace := [EvBroadcastsListId (Some ''academy-tokens'') ''b1'',
                      EvStreamsList (Some ''academy-tokens'') (Some ''s1'')]\<rparr>)
   \<and> start_stream sim_services demo_start_request (demo_live_state ''ready'' ''inactive'' None) =
     (StartFailedNoSnapshot ''Stream is not active. Current status: inactive'',
      (demo_live_state ''ready'' ''inactive'' None)
        \<lparr>st_trace := [EvBroadcastsListId (Some ''academy-tokens'') ''b1'',
                      EvStreamsList (Some ''academy-tokens'') (Some ''s1'')]\<rparr>)"
proof -
  let ?st = "demo_live_state ''ready'' ''inactive'' None"
  let ?h = "\<lparr>h_broadcastStatus = ''ready'', h_streamStatus = ''inactive'', h_healthStatus = None\<rparr>"
  let ?st2 = "?st\<lparr>st_trace := [EvBroadcastsListId (Some ''academy-tokens'') ''b1'',
                      EvStreamsList (Some ''academy-tokens'') (Some ''s1'')]\<rparr>"
  have h1: "Academy_findOne sim_services (sr_academyId demo_start_request) ?st =
              (Inr (Some demo_academy), ?st)"
    by (simp add: run_defs)
  have h2: "(if sr_isCompanyChannel demo_start_request then getCompanyOAuthClient sim_services ?st
             else (Inr (a_youtubeTokens demo_academy), ?st)) = (Inr (Some ''academy-tokens''), ?st)"
    by (simp add: run_defs)
  have h3: "checkStreamHealth sim_services (Some ''academy-tokens'')
              (sr_broadcastId demo_start_request) ?st = (Inr ?h, ?st2)"
    by (simp add: checkStreamHealth_def run_defs)
  have h4: "h_streamStatus ?h \<noteq> ''active''" and h5: "h_broadcastStatus ?h \<noteq> ''live''"
    by simp_all
  from start_stream_fast_fail[OF h1 h2 h3 h4 h5] h3 show ?thesis
    by (simp add: demo_start_request_def)
qed

lemma transition_to_live_rejected:
  assumes "every_transition_fails env c bid"
  shows "\<exists>e st' tgt. transition_to_live env c bid h st = (Inl e, st') \<and>
           st_trace st' = st_trace st @ [EvBroadcastsTransition c bid tgt]"
proof -
  from assms obtain e1 w1 where 1:
    "liveBroadcasts_transition env c bid ''testing'' (st_world st) = (Inl e1, w1)"
    unfolding every_transition_fails_def by blast
  from assms obtain e2 w2 where 2:
    "liveBroadcasts_transition env c bid ''live'' (st_world st) = (Inl e2, w2)"
    unfolding every_transition_fails_def by blast
  show ?thesis using 1 2
    by (cases "h_broadcastStatus h = ''testing''") (auto simp: transition_to_live_def call_def)
qed

lemma attemptTransition_exhausts:
  assumes P: "every_poll_passes env c bid" and T: "every_transition_fails env c bid"
  shows "k = MAX_RETRIES - n \<Longrightarrow> n \<le> MAX_RETRIES \<Longrightarrow>
     \<exists>e st' evs. attemptTransition env c bid n st = (Inl e, st') \<and>
        st_trace st' = st_trace st @ evs \<and>
        filter is_attempt_mark evs =
          EvBroadcastsListId c bid #
            concat (replicate k [EvSleep DELAY_BETWEEN_RETRIES, EvBroadcastsListId c bid]) \<and>
        length (filter is_transition_request evs) = k + 1"
proof (induction k arbitrary: n st)
  case 0
  from P obtain h st1 where h: "checkStreamHealth env c bid st = (Inr h, st1)"
     "h_broadcastStatus h \<noteq> ''live''" "h_streamStatus h = ''active''"
     "h_healthStatus h = Some ''good''"
    unfolding every_poll_passes_def by blast
  from checkStreamHealth_effect[OF h(1)] obtain evs1 where e1:
     "st_trace st1 = st_trace st @ evs1"
     "filter is_attempt_mark evs1 = [EvBroadcastsListId c bid]"
     "filter is_transition_request evs1 = []" by blast
  from transition_to_live_rejected[OF T] obtain e st2 tgt where t:
     "transition_to_live env c bid h st1 = (Inl e, st2)"
     "st_trace st2 = st_trace st1 @ [EvBroadcastsTransition c bid tgt]"
    by blast
  have n: "\<not> n < MAX_RETRIES" using 0 by simp
  have a: "attemptTransition env c bid n st = (Inl e, st2)"
    using h t n by (subst attemptTransition.simps) simp
  have b: "st_trace st2 = st_trace st @ (evs1 @ [EvBroadcastsTransition c bid tgt])"
    using e1 t by simp
  have c: "filter is_attempt_mark (evs1 @ [EvBroadcastsTransition c bid tgt]) =
      EvBroadcastsListId c bid #
        concat (replicate 0 [EvSleep DELAY_BETWEEN_RETRIES, EvBroadcastsListId c bid])"
    using e1 by simp
  have d: "length (filter is_transition_request (evs1 @ [EvBroadcastsTransition c bid tgt])) = 0 + 1"
    using e1 by simp
  from a b c d show ?case by blast
next
  case (Suc k)
  from P obtain h st1 where h: "checkStreamHealth env c bid st = (Inr h, st1)"
     "h_broadcastStatus h \<noteq> ''live''" "h_streamStatus h = ''active''"
     "h_healthStatus h = Some ''good''"
    unfolding every_poll_passes_def by blast
  from checkStreamHealth_effect[OF h(1)] obtain evs1 where e1:
     "st_trace st1 = st_trace st @ evs1"
     "filter is_attempt_mark evs1 = [EvBroadcastsListId c bid]"
     "filter is_transition_request evs1 = []" by blast
  from transition_to_live_rejected[OF T] obtain e st2 tgt where t:
     "transition_to_live env c bid h st1 = (Inl e, st2)"
     "st_trace st2 = st_trace st1 @ [EvBroadcastsTransition c bid tgt]"
    by blast
  have n: "n < MAX_RETRIES" "k = MAX_RETRIES - (n + 1)" "n + 1 \<le> MAX_RETRIES"
    using Suc.prems by simp_all
  from Suc.IH[OF n(2,3), of "sleep DELAY_BETWEEN_RETRIES st2"] obtain e' st' evs where r:
    "attemptTransition env c bid (n + 1) (sleep DELAY_BETWEEN_RETRIES st2) = (Inl e', st')"
    "st_trace st' = st_trace (sleep DELAY_BETWEEN_RETRIES st2) @ evs"
    "filter is_attempt_mark evs = EvBroadcastsListId c bid #
            concat (replicate k [EvSleep DELAY_BETWEEN_RETRIES, EvBroadcastsListId c bid])"
    "length (filter is_transition_request evs) = k + 1" by blast
  let ?evs = "evs1 @ [EvBroadcastsTransition c bid tgt, EvSleep DELAY_BETWEEN_RETRIES] @ evs"
  have a: "attemptTransition env c bid n st = (Inl e', st')"
    using h t n r(1) by (subst attemptTransition.simps) simp
  have b: "st_trace st' = st_trace st @ ?evs"
    using e1 t r(2) by (simp add: sleep_def)
  have c: "filter is_attempt_mark ?evs =
      EvBroadcastsListId c bid #
        concat (replicate (Suc k) [EvSleep DELAY_BETWEEN_RETRIES, EvBroadcastsListId c bid])"
    using e1 r(3) by simp
  have d: "length (filter is_transition_request ?evs) = Suc k + 1"
    using e1 r(4) by simp
  from a b c d show ?case by blast
qed

lemma polls_among_marks:
  "filter is_status_poll evs = filter is_status_poll (filter is_attempt_mark evs)"
  by (induction evs) (auto simp: is_status_poll_def is_attempt_mark_def split: event.splits)

lemma polls_of_pattern:
  "length (filter is_status_poll
      (EvBroadcastsListId c bid # concat (replicate k [EvSleep d, EvBroadcastsListId c bid]))) = k + 1"
  by (induction k) simp_all

text \<open>
  C2. When the academy is found and the credentials are obtained, every status poll
  finds the broadcast not yet live on an active stream of good health, and every
  transition request is rejected, then \<open>/start-stream\<close> answers with a failure after
  exactly \<open>MAX_RETRIES + 1\<close> attempts: the trace gains \<open>MAX_RETRIES + 1\<close> status polls,
  one opening each attempt, with one wait of \<open>DELAY_BETWEEN_RETRIES\<close> between
  consecutive attempts and no other wait, and \<open>MAX_RETRIES + 1\<close> transition requests.
\<close>

theorem start_stream_retry_bound:
  assumes "Academy_findOne env (sr_academyId rq) st = (Inr (Some academy), st0)"
      and "(if sr_isCompanyChannel rq then getCompanyOAuthClient env st0
            else (Inr (a_youtubeTokens academy), st0)) = (Inr c, st1)"
      and "every_poll_passes env c (sr_broadcastId rq)"
      and "every_transition_fails env c (sr_broadcastId rq)"
  shows "\<exists>e st' evs.
           start_stream env rq st = (StartFailedNoSnapshot e, st') \<and>
           st_trace st' = st_trace st @ evs \<and>
           filter is_attempt_mark evs =
             EvBroadcastsListId c (sr_broadcastId rq) #
               concat (replicate MAX_RETRIES
                 [EvSleep DELAY_BETWEEN_RETRIES, EvBroadcastsListId c (sr_broadcastId rq)]) \<and>
           length (filter is_status_poll evs) = MAX_RETRIES + 1 \<and>
           length (filter is_transition_request evs) = MAX_RETRIES + 1"
proof -
  from attemptTransition_exhausts[OF assms(3,4), of MAX_RETRIES 0 st1]
  obtain e st' evs where r:
    "attemptTransition env c (sr_broadcastId rq) 0 st1 = (Inl e, st')"
    "st_trace st' = st_trace st1 @ evs"
    "filter is_attempt_mark evs =
       EvBroadcastsListId c (sr_broadcastId rq) #
         concat (replicate MAX_RETRIES
           [EvSleep DELAY_BETWEEN_RETRIES, EvBroadcastsListId c (sr_broadcastId rq)])"
    "length (filter is_transition_request evs) = MAX_RETRIES + 1"
    by auto
  have t0: "st_trace st0 = st_trace st"
    using Academy_findOne_effect[OF assms(1)] by simp
  have t1: "st_trace st1 = st_trace st0"
    using assms(2) by (auto split: if_splits dest: getCompanyOAuthClient_effect)
  have a: "start_stream env rq st = (StartFailedNoSnapshot e, st')"
    using assms(1,2) r(1) by (simp add: start_stream_def start_stream_catch_no_snapshot)
  have b: "st_trace st' = st_trace st @ evs" using r(2) t0 t1 by simp
  have p: "length (filter is_status_poll evs) = MAX_RETRIES + 1"
    by (subst polls_among_marks) (simp only: r(3) polls_of_pattern)
  from a b r(3) p r(4) show ?thesis by blast
qed

theorem start_stream_retry_bound_witness:
  "every_poll_passes stuck_services (Some ''academy-tokens'') ''b1'' \<and>
   every_transition_fails stuck_services (Some ''academy-tokens'') ''b1'' \<and>
   (\<exists>e st' evs.
      start_stream stuck_services demo_start_request stuck_state = (StartFailedNoSnapshot e, st') \<and>
      st_trace st' = evs \<and>
      filter is_attempt_mark evs =
        [EvBroadcastsListId (Some ''academy-tokens'') ''b1'', EvSleep 5000,
         EvBroadcastsListId (Some ''academy-tokens'') ''b1'', EvSleep 5000,
         EvBroadcastsListId (Some ''academy-tokens'') ''b1'', EvSleep 5000,
         EvBroadcastsListId (Some ''academy-tokens'') ''b1''] \<and>
      length (filter is_status_poll evs) = 4 \<and>
      length (filter is_transition_request evs) = 4)"
proof -
  have h1: "Academy_findOne stuck_services (sr_academyId demo_start_request) stuck_state =
              (Inr (Some demo_academy), stuck_state)"
    by (simp add: run_defs)
  have h2: "(if sr_isCompanyChannel demo_start_request
             then getCompanyOAuthClient stuck_services stuck_state
             else (Inr (a_youtubeTokens demo_academy), stuck_state)) =
            (Inr (Some ''academy-tokens''), stuck_state)"
    by (simp add: run_defs)
  have h3: "every_poll_passes stuck_services (Some ''academy-tokens'')
              (sr_broadcastId demo_start_request)"
    by (simp add: every_poll_passes_def checkStreamHealth_def run_defs)
  have h4: "every_transition_fails stuck_services (Some ''academy-tokens'')
              (sr_broadcastId demo_start_request)"
    by (simp add: every_transition_fails_def run_defs)
  have three: "MAX_RETRIES = Suc (Suc (Suc 0))" by (simp add: MAX_RETRIES_def)
  have b: "sr_broadcastId demo_start_request = ''b1''" by (simp add: demo_start_request_def)
  have four: "(4::nat) = Suc (Suc (Suc (Suc 0)))" by simp
  from start_stream_retry_bound[OF h1 h2 h3 h4] h3 h4 show ?thesis
    unfolding three b four by (simp add: stuck_state_def DELAY_BETWEEN_RETRIES_def)
qed

text \<open>
  C3 (the code departs from the claim). A failing \<open>/start-stream\<close> never answers with
  the status snapshot: in the \<open>catch\<close> block \<open>checkStreamHealth\<close> is not bound, so the
  final status fetch throws and the answer is the 500 without snapshot. Here: once with
  an inactive stream (a failure that is not retried), once with the retries exhausted.
\<close>

theorem start_stream_failure_has_no_snapshot:
  "start_stream sim_services demo_start_request (demo_live_state ''ready'' ''inactive'' None) =
     (StartFailedNoSnapshot ''Stream is not active. Current status: inactive'',
      (demo_live_state ''ready'' ''inactive'' None)
        \<lparr>st_trace := [EvBroadcastsListId (Some ''academy-tokens'') ''b1'',
                      EvStreamsList (Some ''academy-tokens'') (Some ''s1'')]\<rparr>)
   \<and> fst (start_stream stuck_services demo_start_request stuck_state) =
       StartFailedNoSnapshot ''backendError''"
  by (simp add: start_stream_def start_stream_catch_def bound_in_catch_def
      start_stream_handler_bindings_def module_bindings_def attemptTransition.simps
      checkStreamHealth_def transition_to_live_def MAX_RETRIES_def run_defs)

section \<open>Stream resolver\<close>

lemma update_first_grounds_frame:
  "list_all2 (\<lambda>g g'. g' = g \<or> (g_groundId g = gid \<and> same_except_field f g g'))
     gs (update_first (\<lambda>g. g_groundId g = gid) (set_stream_id f v) gs)"
  by (induction gs) (auto simp: list_all2_same same_except_field_def set_stream_id_def split: stream_field.splits)

lemma apply_stream_id_update_frame:
  "only_stream_id_changed aid gid f d (apply_stream_id_update aid gid f v d)"
proof -
  have "list_all2
       (\<lambda>a a'. a' = a\<lparr>a_grounds := a_grounds a'\<rparr> \<and>
          list_all2
            (\<lambda>g g'. g' = g \<or>
               (a_academyId a = aid \<and> g_groundId g = gid \<and> same_except_field f g g'))
            (a_grounds a) (a_grounds a'))
       xs (update_first
          (\<lambda>a. a_academyId a = aid \<and> list_ex (\<lambda>g. g_groundId g = gid) (a_grounds a))
          (\<lambda>a. a\<lparr>a_grounds :=
                  update_first (\<lambda>g. g_groundId g = gid) (set_stream_id f v) (a_grounds a)\<rparr>) xs)" for xs
    by (induction xs) (auto simp: list_all2_same update_first_grounds_frame)
  then show ?thesis
    by (simp add: only_stream_id_changed_def apply_stream_id_update_def)
qed

lemma only_stream_id_changed_refl: "only_stream_id_changed aid gid f d d"
  by (simp add: only_stream_id_changed_def list_all2_same)

lemma fetch_remembered_effect:
  "fetch_remembered env c sid st = (r, st') \<Longrightarrow>
     st_db st' = st_db st \<and>
     (st_trace st' = st_trace st \<or> st_trace st' = st_trace st @ [EvStreamsList c sid])"
  by (auto simp: fetch_remembered_def split: if_splits prod.splits sum.splits list.splits
      dest!: call_effect)


lemma Academy_findOneAndUpdate_effect:
  "Academy_findOneAndUpdate env aid gid f v st = (r, st') \<Longrightarrow>
     st_trace st' = st_trace st @ [EvDbUpdate aid gid f v] \<and>
     (case r of Inl _ \<Rightarrow> st_db st' = st_db st
              | Inr _ \<Rightarrow> st_db st' = apply_stream_id_update aid gid f v (st_db st))"
  by (auto simp: Academy_findOneAndUpdate_def Let_def split: prod.splits option.splits)

lemma create_and_remember_effect:
  assumes "create_and_remember env c academy ground gid isCompany streamName st = (r, st')"
  shows "\<exists>spec. 
     (st_trace st' = st_trace st @ [EvStreamsInsert c spec] \<and> st_db st' = st_db st \<and> isl r) \<or>
     (\<exists>v. st_trace st' = st_trace st @ [EvStreamsInsert c spec, EvDbUpdate (a_academyId academy) gid (updateField isCompany) v] \<and>
          (case r of Inl _ \<Rightarrow> st_db st' = st_db st
                   | Inr d \<Rightarrow> sd_streamId d = v \<and>
                        st_db st' = apply_stream_id_update (a_academyId academy) gid (updateField isCompany) v (st_db st)))"
  using assms
  apply (simp add: create_and_remember_def Let_def updateField_def split: prod.splits sum.splits)
   apply (auto dest!: call_effect Academy_findOneAndUpdate_effect simp: describe_stream_def)
  done


lemma demo_first_resolution:
  "getExistingStream sim_services (Some ''academy-tokens'') demo_academy ''G1'' False demo_state =
     (Inr demo_stream_details, demo_state_resolved)"
  by (simp add: getExistingStream_def fetch_remembered_def create_and_remember_def
      Academy_findOneAndUpdate_def apply_stream_id_update_def set_stream_id_def updateField_def
      remembered_streamId_def describe_stream_def replace_ws_runs_empty_def run_defs)

lemma sim_services_honest: "list_by_id_honest sim_services"
  by (auto simp: list_by_id_honest_def sim_services_def list_all_iff)

text \<open>
  C9. One call of \<open>getExistingStream\<close> attempts at most one persistence write, and the
  database changes at most in the role-specific stream-id field of grounds with the
  resolved ground's id in academies with the academy's id. When no stream is created
  (the remembered stream was fetched, or the ground is missing) nothing is written and
  the database is unchanged. When a stream is created and the call succeeds, exactly one
  write is made: the created stream's id into that field.
\<close>

theorem getExistingStream_persistence:
  assumes run: "getExistingStream env c academy groundId isCompanyChannel st = (r, st')"
  shows "\<exists>evs. st_trace st' = st_trace st @ evs \<and>
     length (filter is_db_write evs) \<le> 1 \<and>
     only_stream_id_changed (a_academyId academy) groundId (updateField isCompanyChannel)
       (st_db st) (st_db st') \<and>
     (filter is_stream_insert evs = [] \<longrightarrow> filter is_db_write evs = [] \<and> st_db st' = st_db st) \<and>
     (\<forall>d. r = Inr d \<and> filter is_stream_insert evs \<noteq> [] \<longrightarrow>
        filter is_db_write evs =
          [EvDbUpdate (a_academyId academy) groundId (updateField isCompanyChannel) (sd_streamId d)] \<and>
        st_db st' = apply_stream_id_update (a_academyId academy) groundId
                      (updateField isCompanyChannel) (sd_streamId d) (st_db st))"
proof (cases "find (\<lambda>g. g_groundId g = groundId) (a_grounds academy)")
  case None
  with run have "st' = st" by (simp add: getExistingStream_def)
  then show ?thesis by (simp add: only_stream_id_changed_refl)
next
  case (Some ground)
  obtain ex st1 where f: "fetch_remembered env c (remembered_streamId isCompanyChannel ground) st = (ex, st1)"
    by (cases "fetch_remembered env c (remembered_streamId isCompanyChannel ground) st")
  from fetch_remembered_effect[OF f] obtain evs1 where e1:
    "st_db st1 = st_db st" "st_trace st1 = st_trace st @ evs1"
    "filter is_db_write evs1 = []" "filter is_stream_insert evs1 = []"
    by (metis append_Nil2 event_tests(15,18) filter.simps(1,2))
  show ?thesis
  proof (cases ex)
    case (Some s)
    with run f \<open>find _ _ = Some ground\<close> have "st' = st1"
      by (simp add: getExistingStream_def remembered_streamId_def Let_def)
    with e1 show ?thesis by (auto simp: only_stream_id_changed_refl)
  next
    case None
    let ?name = "if isCompanyChannel
                 then a_name academy @ '':'' @ replace_ws_runs_empty (g_title ground)
                 else g_streamKey ground"
    from run f None \<open>find _ _ = Some ground\<close>
    have c: "create_and_remember env c academy ground groundId isCompanyChannel ?name st1 = (r, st')"
      by (simp add: getExistingStream_def remembered_streamId_def Let_def)
    from create_and_remember_effect[OF c] obtain spec where
      "(st_trace st' = st_trace st1 @ [EvStreamsInsert c spec] \<and> st_db st' = st_db st1 \<and> isl r) \<or>
       (\<exists>v. st_trace st' = st_trace st1 @ [EvStreamsInsert c spec,
               EvDbUpdate (a_academyId academy) groundId (updateField isCompanyChannel) v] \<and>
          (case r of Inl _ \<Rightarrow> st_db st' = st_db st1
                   | Inr d \<Rightarrow> sd_streamId d = v \<and>
                        st_db st' = apply_stream_id_update (a_academyId academy) groundId
                                      (updateField isCompanyChannel) v (st_db st1)))"
      by blast
    then show ?thesis
    proof
      assume a: "st_trace st' = st_trace st1 @ [EvStreamsInsert c spec] \<and> st_db st' = st_db st1 \<and> isl r"
      show ?thesis
        by (rule exI[of _ "evs1 @ [EvStreamsInsert c spec]"])
           (use a e1 in \<open>auto simp: only_stream_id_changed_refl\<close>)
    next
      assume "\<exists>v. st_trace st' = st_trace st1 @ [EvStreamsInsert c spec,
               EvDbUpdate (a_academyId academy) groundId (updateField isCompanyChannel) v] \<and>
          (case r of Inl _ \<Rightarrow> st_db st' = st_db st1
                   | Inr d \<Rightarrow> sd_streamId d = v \<and>
                        st_db st' = apply_stream_id_update (a_academyId academy) groundId
                                      (updateField isCompanyChannel) v (st_db st1))"
      then obtain v where a: "st_trace st' = st_trace st1 @ [EvStreamsInsert c spec,
               EvDbUpdate (a_academyId academy) groundId (updateField isCompanyChannel) v]"
          "(case r of Inl _ \<Rightarrow> st_db st' = st_db st1
                   | Inr d \<Rightarrow> sd_streamId d = v \<and>
                        st_db st' = apply_stream_id_update (a_academyId academy) groundId
                                      (updateField isCompanyChannel) v (st_db st1))" by blast
      show ?thesis
        by (rule exI[of _ "evs1 @ [EvStreamsInsert c spec,
               EvDbUpdate (a_academyId academy) groundId (updateField isCompanyChannel) v]"])
           (use a e1 in \<open>auto simp: only_stream_id_changed_refl apply_stream_id_update_frame split: sum.splits\<close>)
    qed
  qed
qed


theorem getExistingStream_persistence_witness:
  "getExistingStream sim_services (Some ''academy-tokens'') demo_academy ''G1'' False demo_state =
     (Inr demo_stream_details, demo_state_resolved) \<and>
   filter is_stream_insert (st_trace demo_state_resolved) \<noteq> [] \<and>
   filter is_db_write (st_trace demo_state_resolved) =
     [EvDbUpdate ''A1'' ''G1'' AcademyStreamId ''stream''] \<and>
   only_stream_id_changed ''A1'' ''G1'' AcademyStreamId demo_db (st_db demo_state_resolved)"
proof -
  have t0: "st_trace demo_state = []" and d0: "st_db demo_state = demo_db"
    by (simp_all add: demo_state_def)
  have ins: "filter is_stream_insert (st_trace demo_state_resolved) \<noteq> []"
    by (simp add: demo_state_resolved_def)
  have ids: "a_academyId demo_academy = ''A1''" "updateField False = AcademyStreamId"
    "sd_streamId demo_stream_details = ''stream''"
    by (simp_all add: demo_academy_def updateField_def demo_stream_details_def)
  from getExistingStream_persistence[OF demo_first_resolution] ins demo_first_resolution
  show ?thesis by (auto simp: t0 d0 ids)
qed

lemma find_update_first:
  assumes "find Q xs = Some x" "P x" "\<And>y. P y \<Longrightarrow> Q y" "Q (f x)"
  shows "find Q (update_first P f xs) = Some (f x)"
  using assms by (induction xs) (auto split: if_splits)

lemma find_Some_list_ex: "find P xs = Some x \<Longrightarrow> list_ex P xs \<and> P x"
  by (induction xs) (auto split: if_splits)

lemma set_stream_id_keeps_id: "g_groundId (set_stream_id f v g) = g_groundId g"
  by (simp add: set_stream_id_def split: stream_field.splits)

lemma remembered_after_set:
  "remembered_streamId isCompany (set_stream_id (updateField isCompany) v g) = Some v"
  by (simp add: remembered_streamId_def set_stream_id_def updateField_def)

lemma reload_after_update:
  assumes doc: "find (\<lambda>a. a_academyId a = aid) (academies d) = Some academy"
      and gr: "find (\<lambda>g. g_groundId g = gid) (a_grounds academy) = Some ground"
  shows "\<exists>academy1. find (\<lambda>a. a_academyId a = aid) (academies (apply_stream_id_update aid gid f v d)) = Some academy1
         \<and> a_academyId academy1 = a_academyId academy
         \<and> find (\<lambda>g. g_groundId g = gid) (a_grounds academy1) = Some (set_stream_id f v ground)"
proof -
  let ?P = "\<lambda>a. a_academyId a = aid \<and> list_ex (\<lambda>g. g_groundId g = gid) (a_grounds a)"
  let ?f = "\<lambda>a. a\<lparr>a_grounds := update_first (\<lambda>g. g_groundId g = gid) (set_stream_id f v) (a_grounds a)\<rparr>"
  have 1: "?P academy" using find_Some_list_ex[OF doc] find_Some_list_ex[OF gr] by simp
  have 2: "find (\<lambda>a. a_academyId a = aid) (update_first ?P ?f (academies d)) = Some (?f academy)"
    using find_update_first[of "\<lambda>a. a_academyId a = aid" "academies d" academy ?P ?f] doc 1
    by simp
  have 3: "find (\<lambda>g. g_groundId g = gid) (update_first (\<lambda>g. g_groundId g = gid) (set_stream_id f v) (a_grounds academy))
          = Some (set_stream_id f v ground)"
    using find_update_first[of "\<lambda>g. g_groundId g = gid" "a_grounds academy" ground
            "\<lambda>g. g_groundId g = gid" "set_stream_id f v"] gr find_Some_list_ex[OF gr]
    by (simp add: set_stream_id_keeps_id)
  show ?thesis using 2 3 by (simp add: apply_stream_id_update_def)
qed

lemma fetch_remembered_hit:
  assumes "truthy sid" "liveStreams_list env c sid (st_world st) = (Inr (s # ss), w)"
  shows "fetch_remembered env c sid st =
           (Some s, st\<lparr>st_world := w, st_trace := st_trace st @ [EvStreamsList c sid]\<rparr>)"
  using assms by (simp add: fetch_remembered_def call_def)

lemma fetch_remembered_Some:
  assumes "fetch_remembered env c sid st = (Some s, st1)"
  shows "\<exists>v ss w. sid = Some v \<and> v \<noteq> [] \<and> liveStreams_list env c sid (st_world st) = (Inr (s # ss), w)
          \<and> st_db st1 = st_db st"
  using assms
  by (auto simp: fetch_remembered_def call_def truthy_def split: if_splits prod.splits sum.splits list.splits option.splits)

lemma find_update_first_cases:
  assumes "\<And>x. Q (f x) = Q x"
  shows "(find Q xs = None \<and> find Q (update_first P f xs) = None) \<or>
         (\<exists>x. find Q xs = Some x \<and>
              (find Q (update_first P f xs) = Some x \<or>
               P x \<and> find Q (update_first P f xs) = Some (f x)))"
  using assms by (induction xs) auto

lemma getExistingStream_db:
  assumes "getExistingStream env c academy groundId isCompanyChannel st = (r, st')"
  shows "st_db st' = st_db st \<or>
         (\<exists>v. st_db st' = apply_stream_id_update (a_academyId academy) groundId
                  (updateField isCompanyChannel) v (st_db st))"
proof (cases "find (\<lambda>g. g_groundId g = groundId) (a_grounds academy)")
  case None
  with assms show ?thesis by (simp add: getExistingStream_def)
next
  case (Some ground)
  obtain ex st1 where f: "fetch_remembered env c (remembered_streamId isCompanyChannel ground) st = (ex, st1)"
    by (cases "fetch_remembered env c (remembered_streamId isCompanyChannel ground) st")
  from fetch_remembered_effect[OF f] have db1: "st_db st1 = st_db st" by simp
  show ?thesis
  proof (cases ex)
    case (Some s)
    with assms f \<open>find _ _ = Some ground\<close> have "st' = st1"
      by (simp add: getExistingStream_def Let_def)
    with db1 show ?thesis by simp
  next
    case None
    let ?name = "if isCompanyChannel
                 then a_name academy @ '':'' @ replace_ws_runs_empty (g_title ground)
                 else g_streamKey ground"
    from assms f None \<open>find _ _ = Some ground\<close>
    have c: "create_and_remember env c academy ground groundId isCompanyChannel ?name st1 = (r, st')"
      by (simp add: getExistingStream_def Let_def)
    from create_and_remember_effect[OF c] db1 show ?thesis
      by (cases r) auto
  qed
qed

lemma other_field_kept:
  "isCC' \<noteq> isCC \<Longrightarrow>
     remembered_streamId isCC (set_stream_id (updateField isCC') v g) = remembered_streamId isCC g"
  by (auto simp: remembered_streamId_def set_stream_id_def updateField_def)

lemma grounds_other_update:
  assumes other: "gid' \<noteq> gid \<or> isCC' \<noteq> isCC"
  shows "map_option (remembered_streamId isCC)
           (find (\<lambda>g. g_groundId g = gid)
              (update_first (\<lambda>g. g_groundId g = gid') (set_stream_id (updateField isCC') v) gs)) =
         map_option (remembered_streamId isCC) (find (\<lambda>g. g_groundId g = gid) gs)"
proof -
  let ?G = "\<lambda>g. g_groundId g = gid"
  let ?G' = "\<lambda>g. g_groundId g = gid'"
  let ?s = "set_stream_id (updateField isCC') v"
  have "\<And>x. ?G (?s x) = ?G x" by (simp add: set_stream_id_keeps_id)
  from find_update_first_cases[of ?G ?s gs ?G', OF this]
  show ?thesis
  proof (elim disjE exE conjE)
    fix x assume x: "find ?G gs = Some x" "?G' x"
      "find ?G (update_first ?G' ?s gs) = Some (?s x)"
    from find_Some_list_ex[OF x(1)] x(2) have "gid' = gid" by simp
    with other have "isCC' \<noteq> isCC" by simp
    from other_field_kept[OF this] x show ?thesis by simp
  qed auto
qed

lemma stored_ground_other_update:
  assumes other: "aid' \<noteq> aid \<or> gid' \<noteq> gid \<or> isCC' \<noteq> isCC"
  shows "map_option (remembered_streamId isCC)
           (stored_ground aid gid (apply_stream_id_update aid' gid' (updateField isCC') v d)) =
         map_option (remembered_streamId isCC) (stored_ground aid gid d)"
proof -
  let ?Q = "\<lambda>a. a_academyId a = aid"
  let ?P = "\<lambda>a. a_academyId a = aid' \<and> list_ex (\<lambda>g. g_groundId g = gid') (a_grounds a)"
  let ?f = "\<lambda>a. a\<lparr>a_grounds := update_first (\<lambda>g. g_groundId g = gid')
                       (set_stream_id (updateField isCC') v) (a_grounds a)\<rparr>"
  have "\<And>x. ?Q (?f x) = ?Q x" by simp
  from find_update_first_cases[of ?Q ?f "academies d" ?P, OF this]
  show ?thesis
  proof (elim disjE exE conjE)
    fix x assume x: "find ?Q (academies d) = Some x" "a_academyId x = aid'"
      "find ?Q (update_first ?P ?f (academies d)) = Some (?f x)"
    from find_Some_list_ex[OF x(1)] x(2) have "aid' = aid" by simp
    with other have "gid' \<noteq> gid \<or> isCC' \<noteq> isCC" by simp
    from grounds_other_update[OF this, of v "a_grounds x"] x
    show ?thesis by (simp add: stored_ground_def apply_stream_id_update_def)
  qed (auto simp: stored_ground_def apply_stream_id_update_def)
qed

lemma db_remembers_other_update:
  assumes "aid' \<noteq> aid \<or> gid' \<noteq> gid \<or> isCC' \<noteq> isCC"
  shows "db_remembers (apply_stream_id_update aid' gid' (updateField isCC') v d) aid gid isCC u =
         db_remembers d aid gid isCC u"
  using stored_ground_other_update[OF assms, of v d]
  by (auto simp: db_remembers_def split: option.splits)

lemma getExistingStream_keeps_other_pairs:
  assumes run: "getExistingStream env c academy' gid' isCC' st = (r, st')"
      and other: "a_academyId academy' \<noteq> aid \<or> gid' \<noteq> gid \<or> isCC' \<noteq> isCC"
  shows "db_remembers (st_db st') aid gid isCC u = db_remembers (st_db st) aid gid isCC u"
  using getExistingStream_db[OF run] db_remembers_other_update[OF other] by auto

lemma getExistingStream_remembers:
  assumes first: "getExistingStream env c academy groundId isCompanyChannel st = (Inr d1, st1)"
      and current: "up_to_date academy groundId isCompanyChannel (st_db st)"
      and honest: "list_by_id_honest env"
  shows "db_remembers (st_db st1) (a_academyId academy) groundId isCompanyChannel
           (Some (sd_streamId d1))"
proof -
  let ?aid = "a_academyId academy"
  let ?Pg = "\<lambda>g. g_groundId g = groundId"
  from first obtain ground where gr: "find ?Pg (a_grounds academy) = Some ground"
    by (auto simp: getExistingStream_def split: option.splits)
  from current gr obtain doc g0 where
    doc: "find (\<lambda>a. a_academyId a = ?aid) (academies (st_db st)) = Some doc" and
    g0: "find ?Pg (a_grounds doc) = Some g0" and
    same: "remembered_streamId isCompanyChannel g0 = remembered_streamId isCompanyChannel ground"
    by (auto simp: up_to_date_def db_remembers_def stored_ground_def split: option.splits)
  obtain ex st0 where f: "fetch_remembered env c (remembered_streamId isCompanyChannel ground) st = (ex, st0)"
    by (cases "fetch_remembered env c (remembered_streamId isCompanyChannel ground) st")
  show ?thesis
  proof (cases ex)
    case (Some s0)
    with first f gr have r: "d1 = describe_stream s0" "st1 = st0"
      by (simp_all add: getExistingStream_def Let_def)
    from fetch_remembered_Some[OF f[unfolded Some]] obtain v ss0 w0 where
      v: "remembered_streamId isCompanyChannel ground = Some v"
         "liveStreams_list env c (Some v) (st_world st) = (Inr (s0 # ss0), w0)" "st_db st0 = st_db st"
      by auto
    have "stream_id s0 = v" using honest v(2) unfolding list_by_id_honest_def by fastforce
    then show ?thesis using doc g0 same v r
      by (simp add: describe_stream_def db_remembers_def stored_ground_def)
  next
    case None
    let ?name = "if isCompanyChannel
                 then a_name academy @ '':'' @ replace_ws_runs_empty (g_title ground)
                 else g_streamKey ground"
    from first f None gr
    have c: "create_and_remember env c academy ground groundId isCompanyChannel ?name st0 = (Inr d1, st1)"
      by (simp add: getExistingStream_def Let_def)
    from fetch_remembered_effect[OF f] have db0: "st_db st0 = st_db st" by simp
    from create_and_remember_effect[OF c]
    have "st_db st1 = apply_stream_id_update ?aid groundId (updateField isCompanyChannel)
                       (sd_streamId d1) (st_db st0)"
      by auto
    with reload_after_update[OF doc g0, of "updateField isCompanyChannel" "sd_streamId d1"] db0
    show ?thesis by (auto simp: remembered_after_set db_remembers_def stored_ground_def)
  qed
qed

lemma getExistingStream_reuses:
  fixes st2 :: "'w state" and env :: "'w services"
  assumes remembers: "db_remembers (st_db st2) aid groundId isCompanyChannel (Some v)"
      and reload: "find (\<lambda>a. a_academyId a = aid) (academies (st_db st2)) = Some academy2"
      and nonempty: "v \<noteq> []"
      and honest: "list_by_id_honest env"
      and resolves: "liveStreams_list env c2 (Some v) (st_world st3) = (Inr (s # ss), w)"
  shows "\<exists>d2 st4. getExistingStream env c2 academy2 groundId isCompanyChannel st3 = (Inr d2, st4) \<and>
           sd_streamId d2 = v \<and>
           st_trace st4 = st_trace st3 @ [EvStreamsList c2 (Some v)] \<and>
           st_db st4 = st_db st3"
proof -
  from remembers reload obtain g2 where
    g2: "find (\<lambda>g. g_groundId g = groundId) (a_grounds academy2) = Some g2"
        "remembered_streamId isCompanyChannel g2 = Some v"
    by (auto simp: db_remembers_def stored_ground_def split: option.splits)
  have sid: "stream_id s = v"
    using honest resolves unfolding list_by_id_honest_def by fastforce
  have t: "truthy (Some v)" using nonempty by (simp add: truthy_def)
  let ?st4 = "st3\<lparr>st_world := w, st_trace := st_trace st3 @ [EvStreamsList c2 (Some v)]\<rparr>"
  have f2: "fetch_remembered env c2 (Some v) st3 = (Some s, ?st4)"
    by (rule fetch_remembered_hit[OF t resolves])
  have "getExistingStream env c2 academy2 groundId isCompanyChannel st3 =
          (Inr (describe_stream s), ?st4)"
    using g2 f2 by (simp add: getExistingStream_def Let_def)
  then show ?thesis using sid
    by (intro exI[of _ "describe_stream s"] exI[of _ ?st4]) (simp add: describe_stream_def)
qed

lemma up_to_date_document:
  assumes "find (\<lambda>a. a_academyId a = a_academyId academy) (academies d) = Some academy"
      and "find (\<lambda>g. g_groundId g = groundId) (a_grounds academy) = Some ground"
  shows "up_to_date academy groundId isCompanyChannel d"
  using assms by (simp add: up_to_date_def db_remembers_def stored_ground_def)

lemma up_to_date_after_other_role:
  assumes doc: "find (\<lambda>a. a_academyId a = a_academyId academy) (academies (st_db st)) = Some academy"
      and gr: "find (\<lambda>g. g_groundId g = groundId) (a_grounds academy) = Some ground"
      and run: "getExistingStream env c academy groundId (\<not> isCompanyChannel) st = (r, st1)"
  shows "up_to_date academy groundId isCompanyChannel (st_db st1)"
  using up_to_date_document[OF doc gr, of isCompanyChannel] gr
    getExistingStream_keeps_other_pairs[OF run, of "a_academyId academy" groundId isCompanyChannel]
  by (simp add: up_to_date_def)

text \<open>
  C7. Let a first resolution for a (channel role, ground) pair succeed, on an academy
  object that is up to date for the pair (it may be stale elsewhere, as the object the
  company sub-flow of a go-live runs on is), with a non-empty stream id, on a platform
  that honours the id filter. Then the database remembers the returned id for the pair;
  a resolution for any other pair (another role, ground or academy), on whatever object
  and however it ends, leaves it remembered; and whenever the database remembers it, a
  second resolution for the pair on the reloaded academy document, run in any state in
  which the platform still answers the list call for that id with a stream, returns the
  same stream id, sends only that list call (so creates no stream), and writes nothing.
\<close>

theorem getExistingStream_idempotent:
  fixes env :: "'w services"
  assumes first: "getExistingStream env c academy groundId isCompanyChannel st = (Inr d1, st1)"
      and current: "up_to_date academy groundId isCompanyChannel (st_db st)"
      and honest: "list_by_id_honest env"
      and nonempty: "sd_streamId d1 \<noteq> []"
  shows "db_remembers (st_db st1) (a_academyId academy) groundId isCompanyChannel
           (Some (sd_streamId d1)) \<and>
         (\<forall>c' academy' groundId' isCompanyChannel' stA r stB.
            getExistingStream env c' academy' groundId' isCompanyChannel' stA = (r, stB) \<and>
            (a_academyId academy' \<noteq> a_academyId academy \<or> groundId' \<noteq> groundId \<or>
             isCompanyChannel' \<noteq> isCompanyChannel) \<and>
            db_remembers (st_db stA) (a_academyId academy) groundId isCompanyChannel
              (Some (sd_streamId d1)) \<longrightarrow>
            db_remembers (st_db stB) (a_academyId academy) groundId isCompanyChannel
              (Some (sd_streamId d1))) \<and>
         (\<forall>(st2::'w state) academy2 c2 st3 s ss w.
            db_remembers (st_db st2) (a_academyId academy) groundId isCompanyChannel
              (Some (sd_streamId d1)) \<and>
            find (\<lambda>a. a_academyId a = a_academyId academy) (academies (st_db st2)) = Some academy2 \<and>
            liveStreams_list env c2 (Some (sd_streamId d1)) (st_world st3) = (Inr (s # ss), w) \<longrightarrow>
            (\<exists>d2 st4.
               getExistingStream env c2 academy2 groundId isCompanyChannel st3 = (Inr d2, st4) \<and>
               sd_streamId d2 = sd_streamId d1 \<and>
               st_trace st4 = st_trace st3 @ [EvStreamsList c2 (Some (sd_streamId d1))] \<and>
               st_db st4 = st_db st3))"
proof (intro conjI allI impI)
  show "db_remembers (st_db st1) (a_academyId academy) groundId isCompanyChannel
           (Some (sd_streamId d1))"
    by (rule getExistingStream_remembers[OF first current honest])
next
  fix c' academy' groundId' isCompanyChannel' and stA :: "'w state" and r stB
  assume a: "getExistingStream env c' academy' groundId' isCompanyChannel' stA = (r, stB) \<and>
            (a_academyId academy' \<noteq> a_academyId academy \<or> groundId' \<noteq> groundId \<or>
             isCompanyChannel' \<noteq> isCompanyChannel) \<and>
            db_remembers (st_db stA) (a_academyId academy) groundId isCompanyChannel
              (Some (sd_streamId d1))"
  then show "db_remembers (st_db stB) (a_academyId academy) groundId isCompanyChannel
              (Some (sd_streamId d1))"
    using getExistingStream_keeps_other_pairs[of env c' academy' groundId' isCompanyChannel' stA r stB
        "a_academyId academy" groundId isCompanyChannel "Some (sd_streamId d1)"]
    by blast
next
  fix st2 :: "'w state" and academy2 c2 and st3 :: "'w state" and s ss w
  assume a: "db_remembers (st_db st2) (a_academyId academy) groundId isCompanyChannel
              (Some (sd_streamId d1)) \<and>
            find (\<lambda>a. a_academyId a = a_academyId academy) (academies (st_db st2)) = Some academy2 \<and>
            liveStreams_list env c2 (Some (sd_streamId d1)) (st_world st3) = (Inr (s # ss), w)"
  then show "\<exists>d2 st4.
               getExistingStream env c2 academy2 groundId isCompanyChannel st3 = (Inr d2, st4) \<and>
               sd_streamId d2 = sd_streamId d1 \<and>
               st_trace st4 = st_trace st3 @ [EvStreamsList c2 (Some (sd_streamId d1))] \<and>
               st_db st4 = st_db st3"
    using getExistingStream_reuses[of st2 "a_academyId academy" groundId isCompanyChannel
        "sd_streamId d1" academy2 env c2 st3 s ss w] nonempty honest
    by blast
qed

theorem getExistingStream_idempotent_witness:
  "map_sum id sd_streamId
     (fst (getExistingStream sim_services (Some ''company-tokens'') demo_academy ''G1'' True
             demo_before_company)) = Inr ''streamii'' \<and>
   up_to_date demo_academy ''G1'' True (st_db demo_before_company) \<and>
   \<not> up_to_date demo_academy ''G1'' False (st_db demo_before_company) \<and>
   db_remembers
     (st_db (snd (getExistingStream sim_services (Some ''company-tokens'') demo_academy ''G1'' True
                    demo_before_company)))
     ''A1'' ''G1'' True (Some ''streamii'') \<and>
   db_remembers (st_db demo_after_go_live) ''A1'' ''G1'' True (Some ''streamii'') \<and>
   db_remembers
     (st_db (snd (getExistingStream sim_services (Some ''academy-tokens'') demo_academy_live ''G1''
                    False demo_after_go_live)))
     ''A1'' ''G1'' True (Some ''streamii'') \<and>
   (\<exists>d2 st4.
      getExistingStream sim_services (Some ''company-tokens'') demo_academy_live ''G1'' True
        demo_second_before_company = (Inr d2, st4) \<and>
      sd_streamId d2 = ''streamii'' \<and>
      st_trace st4 = st_trace demo_second_before_company @
        [EvStreamsList (Some ''company-tokens'') (Some ''streamii'')] \<and>
      st_db st4 = st_db demo_second_before_company)"
proof -
  let ?run = "getExistingStream sim_services (Some ''company-tokens'') demo_academy ''G1'' True
                demo_before_company"
  let ?d1 = "projr (fst ?run)"
  have r: "fst ?run = Inr ?d1" and id1: "sd_streamId ?d1 = ''streamii''"
    by (simp_all add: demo_before_company_def go_live_defs run_defs)
  have first: "?run = (Inr ?d1, snd ?run)" using r by (simp add: prod_eq_iff)
  have current: "up_to_date demo_academy ''G1'' True (st_db demo_before_company)"
    by (simp add: up_to_date_def db_remembers_def stored_ground_def demo_before_company_def
        go_live_defs run_defs)
  have stale: "\<not> up_to_date demo_academy ''G1'' False (st_db demo_before_company)"
    by (simp add: up_to_date_def db_remembers_def stored_ground_def demo_before_company_def
        go_live_defs run_defs)
  have ne: "sd_streamId ?d1 \<noteq> []" by (simp add: id1)
  have rem2: "db_remembers (st_db demo_after_go_live) ''A1'' ''G1'' True (Some ''streamii'')"
    by (simp add: db_remembers_def stored_ground_def demo_after_go_live_def demo_academy_live_def
        remembered_streamId_def run_defs)
  have reload: "find (\<lambda>a. a_academyId a = a_academyId demo_academy)
                  (academies (st_db demo_after_go_live)) = Some demo_academy_live"
    by (simp add: demo_after_go_live_def demo_academy_live_def run_defs)
  have res: "liveStreams_list sim_services (Some ''company-tokens'') (Some ''streamii'')
               (st_world demo_second_before_company) =
             (Inr (snd (sim_streams (st_world demo_second_before_company) ! 1) # []),
              st_world demo_second_before_company)"
    by (simp add: demo_second_before_company_def demo_after_go_live_def demo_academy_live_def
        go_live_defs run_defs)
  have aid: "a_academyId demo_academy = ''A1''" by (simp add: demo_academy_def)
  note inst = getExistingStream_idempotent[OF first current sim_services_honest ne,
      unfolded id1 aid]
  from inst have A: "db_remembers (st_db (snd ?run)) ''A1'' ''G1'' True (Some ''streamii'')"
    by blast
  from inst rem2 reload[unfolded aid] res
  have C: "\<exists>d2 st4.
      getExistingStream sim_services (Some ''company-tokens'') demo_academy_live ''G1'' True
        demo_second_before_company = (Inr d2, st4) \<and>
      sd_streamId d2 = ''streamii'' \<and>
      st_trace st4 = st_trace demo_second_before_company @
        [EvStreamsList (Some ''company-tokens'') (Some ''streamii'')] \<and>
      st_db st4 = st_db demo_second_before_company"
    by blast
  from r id1 have R: "map_sum id sd_streamId (fst ?run) = Inr ''streamii''"
    by (metis map_sum.simps(2))
  let ?other = "getExistingStream sim_services (Some ''academy-tokens'') demo_academy_live ''G1''
                  False demo_after_go_live"
  have other: "?other = (fst ?other, snd ?other)" by simp
  have aid2: "a_academyId demo_academy_live = ''A1''"
    by (simp add: demo_academy_live_def demo_academy_def)
  from inst other rem2 aid2
  have B: "db_remembers (st_db (snd ?other)) ''A1'' ''G1'' True (Some ''streamii'')"
    by blast
  from R current stale A rem2 B C show ?thesis by (intro conjI)
qed

text \<open>
  A second go-live for the demo ground after the first: both channels reuse the stream
  of the first, no stream is created and nothing is written.
\<close>

lemma demo_second_go_live_reuses:
  "(case fst (go_live_now True sim_services demo_go_live_request demo_after_go_live) of
      GoLiveSuccess academyStream companyStream \<Rightarrow>
        [sd_streamId (br_stream academyStream), sd_streamId (br_stream companyStream)]
    | GoLiveFailure _ _ \<Rightarrow> []) = [''stream'', ''streamii''] \<and>
   filter is_stream_insert
     (st_trace (snd (go_live_now True sim_services demo_go_live_request demo_after_go_live))) =
   filter is_stream_insert (st_trace demo_after_go_live) \<and>
   st_db (snd (go_live_now True sim_services demo_go_live_request demo_after_go_live)) =
   st_db demo_after_go_live"
  by (simp add: go_live_defs run_defs demo_after_go_live_def demo_academy_live_def
      is_stream_insert_def)

text \<open>
  On the path of \<open>/go-live-now\<close> both resolutions run on an academy object that is up
  to date for their pair: the academy channel's on the document just loaded, the company
  channel's on the same object after the academy channel's stream id was written.
\<close>

lemma createBroadcastAndBind_db:
  assumes "createBroadcastAndBind autoStart env c academy groundId title teamA teamB ic startTime st = (r, st')"
  shows "\<exists>r1 st1. getExistingStream env c academy groundId ic st = (r1, st1) \<and> st_db st' = st_db st1"
proof -
  obtain r1 st1 where g: "getExistingStream env c academy groundId ic st = (r1, st1)"
    by (cases "getExistingStream env c academy groundId ic st")
  have "st_db st' = st_db st1"
    using assms g
    by (auto simp: createBroadcastAndBind_def Let_def split: sum.splits prod.splits dest!: call_effect)
  with g show ?thesis by blast
qed

lemma go_live_objects_up_to_date:
  assumes found: "Academy_findOne env academyId st = (Inr (Some academy), st0)"
      and gr: "find (\<lambda>g. g_groundId g = rq_groundId rq) (a_grounds academy) = Some ground"
      and A: "academy_subflow autoStart env academy rq st0 = (ra, st1)"
      and C: "getCompanyOAuthClient env st1 = (rc, st2)"
  shows "up_to_date academy (rq_groundId rq) False (st_db st0) \<and>
         up_to_date academy (rq_groundId rq) True (st_db st2)"
proof -
  from found have f: "find (\<lambda>a. a_academyId a = academyId) (academies (st_db st)) = Some academy"
    and db0: "st_db st0 = st_db st"
    by (auto simp: Academy_findOne_def db_read_def split: prod.splits option.splits)
  from find_Some_list_ex[OF f] have "a_academyId academy = academyId" by simp
  with f db0 have doc: "find (\<lambda>a. a_academyId a = a_academyId academy) (academies (st_db st0)) = Some academy"
    by simp
  from createBroadcastAndBind_db[OF A[unfolded academy_subflow_def]] obtain r1 stg where
    g: "getExistingStream env (a_youtubeTokens academy) academy (rq_groundId rq) False st0 = (r1, stg)"
    and db1: "st_db st1 = st_db stg" by blast
  have g': "getExistingStream env (a_youtubeTokens academy) academy (rq_groundId rq) (\<not> True) st0 = (r1, stg)"
    using g by simp
  from getCompanyOAuthClient_effect[OF C] have db2: "st_db st2 = st_db st1" by simp
  from up_to_date_document[OF doc gr] up_to_date_after_other_role[OF doc gr g'] db1 db2
  show ?thesis by simp
qed

section \<open>Dual-channel orchestrator\<close>

lemma sent_only_as_simps [simp]:
  "sent_only_as c []"
  "sent_only_as c (evs @ evs') \<longleftrightarrow> sent_only_as c evs \<and> sent_only_as c evs'"
  "sent_only_as c (EvStreamsList c' sid # evs) \<longleftrightarrow> c' = c \<and> sent_only_as c evs"
  "sent_only_as c (EvStreamsInsert c' spec # evs) \<longleftrightarrow> c' = c \<and> sent_only_as c evs"
  "sent_only_as c (EvBroadcastsInsert c' bspec # evs) \<longleftrightarrow> c' = c \<and> sent_only_as c evs"
  "sent_only_as c (EvBroadcastsBind c' b s # evs) \<longleftrightarrow> c' = c \<and> sent_only_as c evs"
  "sent_only_as c (EvDbUpdate a g f v # evs) \<longleftrightarrow> sent_only_as c evs"
  by (auto simp: sent_only_as_def request_credentials_def)

lemma getExistingStream_requests:
  assumes "getExistingStream env c academy groundId isCompanyChannel st = (r, st')"
  shows "\<exists>evs. st_trace st' = st_trace st @ evs \<and> sent_only_as c evs"
proof (cases "find (\<lambda>g. g_groundId g = groundId) (a_grounds academy)")
  case None
  with assms have "st' = st" by (simp add: getExistingStream_def)
  then show ?thesis by simp
next
  case (Some ground)
  obtain ex st1 where f: "fetch_remembered env c (remembered_streamId isCompanyChannel ground) st = (ex, st1)"
    by (cases "fetch_remembered env c (remembered_streamId isCompanyChannel ground) st")
  from fetch_remembered_effect[OF f] obtain evs1 where e1:
    "st_trace st1 = st_trace st @ evs1" "sent_only_as c evs1"
    by (metis append_Nil2 sent_only_as_simps(1,3))
  show ?thesis
  proof (cases ex)
    case (Some s)
    with assms f \<open>find _ _ = Some ground\<close> have "st' = st1"
      by (simp add: getExistingStream_def Let_def)
    with e1 show ?thesis by blast
  next
    case None
    let ?name = "if isCompanyChannel
                 then a_name academy @ '':'' @ replace_ws_runs_empty (g_title ground)
                 else g_streamKey ground"
    from assms f None \<open>find _ _ = Some ground\<close>
    have c: "create_and_remember env c academy ground groundId isCompanyChannel ?name st1 = (r, st')"
      by (simp add: getExistingStream_def Let_def)
    from create_and_remember_effect[OF c] obtain evs2 where
      "st_trace st' = st_trace st1 @ evs2" "sent_only_as c evs2"
      by (metis sent_only_as_simps(1,4,7))
    with e1 have "st_trace st' = st_trace st @ (evs1 @ evs2)" "sent_only_as c (evs1 @ evs2)" by simp_all
    then show ?thesis by blast
  qed
qed

lemma createBroadcastAndBind_requests:
  assumes "createBroadcastAndBind autoStart env c academy groundId title teamA teamB ic startTime st = (r, st')"
  shows "\<exists>evs. st_trace st' = st_trace st @ evs \<and> sent_only_as c evs"
proof -
  obtain r1 st1 where g: "getExistingStream env c academy groundId ic st = (r1, st1)"
    by (cases "getExistingStream env c academy groundId ic st")
  from getExistingStream_requests[OF g] obtain evs1 where e1:
    "st_trace st1 = st_trace st @ evs1" "sent_only_as c evs1" by blast
  have "\<exists>evs2. st_trace st' = st_trace st1 @ evs2 \<and> sent_only_as c evs2"
    using assms g
    by (auto simp: createBroadcastAndBind_def Let_def split: sum.splits prod.splits dest!: call_effect)
  then obtain evs2 where "st_trace st' = st_trace st1 @ evs2" "sent_only_as c evs2" by blast
  with e1 have "st_trace st' = st_trace st @ (evs1 @ evs2)" "sent_only_as c (evs1 @ evs2)" by simp_all
  then show ?thesis by blast
qed

lemma demo_academy_subflow_rejected:
  "fst (academy_subflow True (sim_services_rejecting (Some ''academy-tokens'')) demo_academy
          demo_go_live_request demo_state) = Inl ''forbidden''"
  by (simp add: go_live_defs run_defs)

lemma demo_company_subflow_accepted:
  "\<not> isl (fst (company_subflow True (sim_services_rejecting (Some ''academy-tokens'')) demo_academy
      demo_go_live_request
      (snd (academy_subflow True (sim_services_rejecting (Some ''academy-tokens'')) demo_academy
              demo_go_live_request demo_state))))"
  by (simp add: go_live_defs run_defs)

text \<open>
  C1, as amended. \<open>/go-live-now\<close> of \<open>final.js\<close> (and of the variant with
  \<open>/start-stream\<close>) is all or nothing: when the academy sub-flow fails the answer is the
  500 with its error, the handler stops in the state the academy sub-flow left, and
  every request sent so far carries the academy's credentials; when the academy sub-flow
  succeeds and the company sub-flow fails the answer is the 500 with the company
  sub-flow's error; only when both succeed does the answer report success, with both
  results. In the token-file variant the \<open>ourChannel\<close> part contributes at most one
  result and its failure is not reported; the answer is a success listing the results
  obtained when the \<open>customerChannel\<close> creation succeeds, and a total failure when it
  fails.
\<close>

theorem go_live_all_or_nothing:
  assumes found: "Academy_findOne env (rq_academyId rq) st = (Inr (Some academy), st0)"
      and tokens: "a_youtubeTokens academy \<noteq> None"
      and A: "academy_subflow autoStart env academy rq st0 = (ra, st1)"
      and C: "company_subflow autoStart env academy rq st1 = (rc, st2)"
      and L: "lg_authCompleted lrq" "loadTokens ''customerChannel'' = Some customerTokens"
             "our_channel_part env2 loadTokens lrq lst = (results, lst1)"
             "createBroadcastAndStream env2 lrq (Some customerTokens) ''customerChannel'' lst1 = (rcust, lst2)"
  shows "go_live_now autoStart env rq st =
           (case ra of
              Inl e \<Rightarrow> (GoLiveFailure 500 e, st1)
            | Inr academyResult \<Rightarrow>
                (case rc of
                   Inl e \<Rightarrow> (GoLiveFailure 500 e, st2)
                 | Inr companyResult \<Rightarrow> (GoLiveSuccess academyResult companyResult, st2)))
         \<and> (\<exists>evs. st_trace st1 = st_trace st @ evs \<and> sent_only_as (a_youtubeTokens academy) evs)
         \<and> legacy_go_live_now env2 loadTokens lrq lst =
           (case rcust of
              Inl e \<Rightarrow>
                (LegacyFailure ''Failed to create stream on customer channel. Please try again.'', lst2)
            | Inr customerStreamDetails \<Rightarrow>
                (LegacySuccess (results @ [customerStreamDetails])
                   (''Streams created successfully'' @
                      (if results = [] then '' on customer channel'' else '' on both channels'')), lst2))
         \<and> length results \<le> 1"
proof -
  have 1: "go_live_now autoStart env rq st =
           (case ra of
              Inl e \<Rightarrow> (GoLiveFailure 500 e, st1)
            | Inr academyResult \<Rightarrow>
                (case rc of
                   Inl e \<Rightarrow> (GoLiveFailure 500 e, st2)
                 | Inr companyResult \<Rightarrow> (GoLiveSuccess academyResult companyResult, st2)))"
    using found tokens A C by (simp add: go_live_now_def split: sum.splits)
  have t0: "st_trace st0 = st_trace st" using Academy_findOne_effect[OF found] by simp
  have 2: "\<exists>evs. st_trace st1 = st_trace st @ evs \<and> sent_only_as (a_youtubeTokens academy) evs"
    using createBroadcastAndBind_requests[OF A[unfolded academy_subflow_def]] t0 by simp
  have 3: "legacy_go_live_now env2 loadTokens lrq lst =
           (case rcust of
              Inl e \<Rightarrow>
                (LegacyFailure ''Failed to create stream on customer channel. Please try again.'', lst2)
            | Inr customerStreamDetails \<Rightarrow>
                (LegacySuccess (results @ [customerStreamDetails])
                   (''Streams created successfully'' @
                      (if results = [] then '' on customer channel'' else '' on both channels'')), lst2))"
    using L by (cases results) (simp_all add: legacy_go_live_now_def split: sum.splits)
  have 4: "length results \<le> 1"
    using L(3) by (auto simp: our_channel_part_def split: option.splits prod.splits bool.splits sum.splits)
  from 1 2 3 4 show ?thesis by blast
qed


theorem go_live_all_or_nothing_witness:
  "fst (go_live_now True (sim_services_rejecting (Some ''academy-tokens'')) demo_go_live_request
          demo_state) = GoLiveFailure 500 ''forbidden'' \<and>
   snd (go_live_now True (sim_services_rejecting (Some ''academy-tokens'')) demo_go_live_request
          demo_state) =
     snd (academy_subflow True (sim_services_rejecting (Some ''academy-tokens'')) demo_academy
            demo_go_live_request demo_state) \<and>
   (\<exists>d. fst (legacy_go_live_now (sim_services_rejecting (Some ''our-tokens'')) demo_loadTokens
               demo_legacy_request demo_state) =
           LegacySuccess [d] ''Streams created successfully on customer channel'')"
proof -
  let ?E = "sim_services_rejecting (Some ''academy-tokens'')"
  let ?E2 = "sim_services_rejecting (Some ''our-tokens'')"
  let ?A = "academy_subflow True ?E demo_academy demo_go_live_request demo_state"
  let ?C = "company_subflow True ?E demo_academy demo_go_live_request (snd ?A)"
  let ?O = "our_channel_part ?E2 demo_loadTokens demo_legacy_request demo_state"
  let ?K = "createBroadcastAndStream ?E2 demo_legacy_request (Some ''customer-tokens'')
              ''customerChannel'' (snd ?O)"
  have found: "Academy_findOne ?E (rq_academyId demo_go_live_request) demo_state =
                 (Inr (Some demo_academy), demo_state)"
    by (simp add: run_defs demo_go_live_request_def)
  have tokens: "a_youtubeTokens demo_academy \<noteq> None" by (simp add: demo_academy_def)
  have A: "?A = (fst ?A, snd ?A)" and C: "?C = (fst ?C, snd ?C)"
    and O: "?O = (fst ?O, snd ?O)" and K: "?K = (fst ?K, snd ?K)" by simp_all
  have L1: "lg_authCompleted demo_legacy_request" by (simp add: demo_legacy_request_def)
  have L2: "demo_loadTokens ''customerChannel'' = Some ''customer-tokens''"
    by (simp add: demo_loadTokens_def)
  have o: "fst ?O = []" by (simp add: legacy_defs run_defs)
  have k: "\<not> isl (fst ?K)" by (simp add: legacy_defs run_defs)
  from go_live_all_or_nothing[OF found tokens A C L1 L2 O K] demo_academy_subflow_rejected o k
  show ?thesis by (auto split: sum.splits)
qed

text \<open>
  The claim as stated fails: with the academy channel's broadcast creation rejected and
  a company sub-flow that would succeed, the answer is a total failure and no request
  is ever sent with the company's credentials.
\<close>

theorem go_live_partial_failure_counterexample:
  "isl (fst (academy_subflow True (sim_services_rejecting (Some ''academy-tokens'')) demo_academy
          demo_go_live_request demo_state)) \<and>
   \<not> isl (fst (company_subflow True (sim_services_rejecting (Some ''academy-tokens'')) demo_academy
      demo_go_live_request
      (snd (academy_subflow True (sim_services_rejecting (Some ''academy-tokens'')) demo_academy
              demo_go_live_request demo_state)))) \<and>
   fst (go_live_now True (sim_services_rejecting (Some ''academy-tokens'')) demo_go_live_request
          demo_state) = GoLiveFailure 500 ''forbidden'' \<and>
   list_all (\<lambda>ev. request_credentials ev \<noteq> Some (Some ''company-tokens''))
     (st_trace (snd (go_live_now True (sim_services_rejecting (Some ''academy-tokens''))
                       demo_go_live_request demo_state)))"
  by (simp add: go_live_defs run_defs request_credentials_def)

section \<open>Broadcast terminator\<close>

lemma run_both_append:
  "run_both test env ca cc (xs @ ys) pa pc rej st =
     (case run_both test env ca cc xs pa pc rej st of
        ((pa', pc', rej'), st') \<Rightarrow> run_both test env ca cc ys pa' pc' rej' st')"
  by (induction xs arbitrary: pa pc rej st) (auto split: prod.splits)

lemma endBroadcast_step_progress:
  "endBroadcast_step test env auth ic p st = (p', st') \<Longrightarrow> steps_left p' \<le> steps_left p - 1"
  by (auto simp: endBroadcast_step_def split: end_proc.splits prod.splits sum.splits option.splits)

lemma endBroadcast_step_settled [simp]:
  "endBroadcast_step test env auth ic (Settled r) st = (Settled r, st)"
  by (simp add: endBroadcast_step_def)

lemma steps_left_0: "steps_left p = 0 \<Longrightarrow> \<exists>r. p = Settled r"
  by (cases p) auto

lemma two_steps_settle:
  assumes "endBroadcast_step test env auth ic p st = (p1, st1)"
      and "endBroadcast_step test env auth ic p1 st1 = (p2, st2)"
  shows "\<exists>r. p2 = Settled r"
proof -
  have "steps_left p \<le> 2" by (cases p) auto
  with endBroadcast_step_progress[OF assms(1)] endBroadcast_step_progress[OF assms(2)]
  have "steps_left p2 = 0" by linarith
  then show ?thesis by (rule steps_left_0)
qed

lemma step_keeps_settled:
  "endBroadcast_step test env auth ic p st = (p', st') \<Longrightarrow> p = Settled r \<Longrightarrow> p' = Settled r"
  by simp

lemma note_keeps_invariant_a:
  assumes "rejections_noted pa pc rej" "endBroadcast_step test env auth ic pa st = (pa', st')"
  shows "rejections_noted pa' pc (note_rejection pa' rej)"
  using assms
  by (cases pa; cases rej)
     (auto simp: rejections_noted_def note_rejection_def endBroadcast_step_def
       split: prod.splits sum.splits option.splits end_proc.splits)

lemma note_keeps_invariant_c:
  assumes "rejections_noted pa pc rej" "endBroadcast_step test env auth ic pc st = (pc', st')"
  shows "rejections_noted pa pc' (note_rejection pc' rej)"
  using assms
  by (cases pc; cases rej)
     (auto simp: rejections_noted_def note_rejection_def endBroadcast_step_def
       split: prod.splits sum.splits option.splits end_proc.splits)

lemma run_both_invariant:
  "rejections_noted pa pc rej \<Longrightarrow>
   run_both test env ca cc sched pa pc rej st = ((pa', pc', rej'), st') \<Longrightarrow>
   rejections_noted pa' pc' rej'"
proof (induction sched arbitrary: pa pc rej st)
  case Nil
  then show ?case by simp
next
  case (Cons turn turns)
  show ?case
  proof (cases turn)
    case True
    obtain p1 st1 where s: "endBroadcast_step test env ca False pa st = (p1, st1)"
      by (cases "endBroadcast_step test env ca False pa st")
    from Cons.prems(2) True s
    have "run_both test env ca cc turns p1 pc (note_rejection p1 rej) st1 = ((pa', pc', rej'), st')"
      by simp
    from Cons.IH[OF note_keeps_invariant_a[OF Cons.prems(1) s] this] show ?thesis .
  next
    case False
    obtain p1 st1 where s: "endBroadcast_step test env cc True pc st = (p1, st1)"
      by (cases "endBroadcast_step test env cc True pc st")
    from Cons.prems(2) False s
    have "run_both test env ca cc turns pa p1 (note_rejection p1 rej) st1 = ((pa', pc', rej'), st')"
      by simp
    from Cons.IH[OF note_keeps_invariant_c[OF Cons.prems(1) s] this] show ?thesis .
  qed
qed

lemma drain_settles:
  assumes "run_both test env ca cc [True, True, False, False] pa pc rej st = ((pa', pc', rej'), st')"
  shows "\<exists>ra rc. pa' = Settled ra \<and> pc' = Settled rc"
proof -
  obtain a1 s1 where 1: "endBroadcast_step test env ca False pa st = (a1, s1)"
    by (cases "endBroadcast_step test env ca False pa st")
  obtain a2 s2 where 2: "endBroadcast_step test env ca False a1 s1 = (a2, s2)"
    by (cases "endBroadcast_step test env ca False a1 s1")
  obtain c1 s3 where 3: "endBroadcast_step test env cc True pc s2 = (c1, s3)"
    by (cases "endBroadcast_step test env cc True pc s2")
  obtain c2 s4 where 4: "endBroadcast_step test env cc True c1 s3 = (c2, s4)"
    by (cases "endBroadcast_step test env cc True c1 s3")
  from assms 1 2 3 4 have "pa' = a2" "pc' = c2" by simp_all
  with two_steps_settle[OF 1 2] two_steps_settle[OF 3 4] show ?thesis by simp
qed

lemma run_settles:
  assumes "run_both test env ca cc (sched @ [True, True, False, False]) Searching Searching None st
             = ((pa, pc, rej), st')"
  shows "\<exists>ra rc. pa = Settled ra \<and> pc = Settled rc \<and> rejections_noted pa pc rej"
proof -
  obtain p1 p2 r1 s1 where 1: "run_both test env ca cc sched Searching Searching None st = ((p1, p2, r1), s1)"
    by (metis prod_cases3 surj_pair)
  with assms have 2: "run_both test env ca cc [True, True, False, False] p1 p2 r1 s1 = ((pa, pc, rej), st')"
    by (simp add: run_both_append)
  have "rejections_noted Searching Searching None" by (simp add: rejections_noted_def)
  from run_both_invariant[OF this assms] drain_settles[OF 2] show ?thesis by blast
qed

lemma promise_all_outcome:
  assumes "run_both test env ca cc (sched @ [True, True, False, False]) Searching Searching None st
             = ((pa, pc, rej), st')"
  shows "\<exists>ra rc. pa = Settled ra \<and> pc = Settled rc \<and>
           promise_all_endBroadcast test env ca cc sched st =
             (case (ra, rc) of
                (Inr academyEnded, Inr companyEnded) \<Rightarrow> Inr (academyEnded, companyEnded)
              | _ \<Rightarrow> Inl (case rej of Some e \<Rightarrow> e | None \<Rightarrow> []), st') \<and>
           ((isl ra \<or> isl rc) \<longleftrightarrow> rej \<noteq> None) \<and>
           (\<forall>e. rej = Some e \<longrightarrow> ra = Inl e \<or> rc = Inl e)"
proof -
  from run_settles[OF assms] obtain ra rc where s: "pa = Settled ra" "pc = Settled rc"
    "rejections_noted pa pc rej" by blast
  have "promise_all_endBroadcast test env ca cc sched st =
             (case (ra, rc) of
                (Inr academyEnded, Inr companyEnded) \<Rightarrow> Inr (academyEnded, companyEnded)
              | _ \<Rightarrow> Inl (case rej of Some e \<Rightarrow> e | None \<Rightarrow> []), st')"
    using assms s(1,2) by (auto simp: promise_all_endBroadcast_def split: sum.splits)
  moreover have "((isl ra \<or> isl rc) \<longleftrightarrow> rej \<noteq> None)" "(\<forall>e. rej = Some e \<longrightarrow> ra = Inl e \<or> rc = Inl e)"
    using s by (auto simp: rejections_noted_def isl_def split: option.splits)
  ultimately show ?thesis using s by blast
qed


lemma endBroadcast_step_trace:
  "endBroadcast_step test env auth ic p st = (p', st') \<Longrightarrow>
     \<exists>evs. st_trace st' = st_trace st @ evs \<and> (p = Searching \<longrightarrow> evs = [EvBroadcastsListActive auth])"
  by (auto simp: endBroadcast_step_def split: end_proc.splits prod.splits sum.splits option.splits
      dest!: call_effect)

lemma step_not_searching:
  "endBroadcast_step test env auth ic p st = (p', st') \<Longrightarrow> p' \<noteq> Searching"
  by (auto simp: endBroadcast_step_def split: end_proc.splits prod.splits sum.splits option.splits)

lemma run_both_searches:
  "searches_sent ca cc pa pc evs0 \<Longrightarrow> st_trace st = base @ evs0 \<Longrightarrow>
   run_both test env ca cc sched pa pc rej st = ((pa', pc', rej'), st') \<Longrightarrow>
   \<exists>evs. st_trace st' = base @ evs \<and> searches_sent ca cc pa' pc' evs"
proof (induction sched arbitrary: pa pc rej st evs0)
  case Nil
  then show ?case by auto
next
  case (Cons turn turns)
  show ?case
  proof (cases turn)
    case True
    obtain p1 st1 where s: "endBroadcast_step test env ca False pa st = (p1, st1)"
      by (cases "endBroadcast_step test env ca False pa st")
    from endBroadcast_step_trace[OF s] obtain evs1 where e:
      "st_trace st1 = st_trace st @ evs1" "pa = Searching \<longrightarrow> evs1 = [EvBroadcastsListActive ca]" by blast
    from Cons.prems(3) True s
    have r: "run_both test env ca cc turns p1 pc (note_rejection p1 rej) st1 = ((pa', pc', rej'), st')"
      by simp
    have k: "searches_sent ca cc p1 pc (evs0 @ evs1)"
      using Cons.prems(1) e(2) step_not_searching[OF s] by (auto simp: searches_sent_def)
    have t: "st_trace st1 = base @ (evs0 @ evs1)" using e(1) Cons.prems(2) by simp
    from Cons.IH[OF k t r] show ?thesis .
  next
    case False
    obtain p1 st1 where s: "endBroadcast_step test env cc True pc st = (p1, st1)"
      by (cases "endBroadcast_step test env cc True pc st")
    from endBroadcast_step_trace[OF s] obtain evs1 where e:
      "st_trace st1 = st_trace st @ evs1" "pc = Searching \<longrightarrow> evs1 = [EvBroadcastsListActive cc]" by blast
    from Cons.prems(3) False s
    have r: "run_both test env ca cc turns pa p1 (note_rejection p1 rej) st1 = ((pa', pc', rej'), st')"
      by simp
    have k: "searches_sent ca cc pa p1 (evs0 @ evs1)"
      using Cons.prems(1) e(2) step_not_searching[OF s] by (auto simp: searches_sent_def)
    have t: "st_trace st1 = base @ (evs0 @ evs1)" using e(1) Cons.prems(2) by simp
    from Cons.IH[OF k t r] show ?thesis .
  qed
qed

lemma endBroadcast_as_steps:
  "(case endBroadcast_step test env auth ic Searching st of
      (p1, st1) \<Rightarrow> endBroadcast_step test env auth ic p1 st1) =
   (case endBroadcast test env auth ic st of (r, st') \<Rightarrow> (Settled r, st'))"
  by (auto simp: endBroadcast_step_def endBroadcast_def split: prod.splits sum.splits option.splits)

lemma end_stream_channel_status:
  "end_stream_channel env title name toks st = (rep, st') \<Longrightarrow>
     rep_channelName rep = name \<and> rep_status rep \<in> set report_statuses"
  by (auto simp: end_stream_channel_def report_statuses_def
      split: option.splits prod.splits bool.splits sum.splits)

lemma end_stream_channels_reports:
  "end_stream_channels env title chans st = (reps, st') \<Longrightarrow>
     map rep_channelName reps = map fst chans \<and>
     list_all (\<lambda>r. rep_status r \<in> set report_statuses) reps"
proof (induction chans arbitrary: st reps st')
  case Nil
  then show ?case by simp
next
  case (Cons ch chans)
  obtain name toks where ch: "ch = (name, toks)" by (cases ch)
  obtain rep st1 where 1: "end_stream_channel env title name toks st = (rep, st1)"
    by (cases "end_stream_channel env title name toks st")
  obtain reps1 st2 where 2: "end_stream_channels env title chans st1 = (reps1, st2)"
    by (cases "end_stream_channels env title chans st1")
  from Cons.prems ch 1 2 have "reps = rep # reps1" by simp
  with Cons.IH[OF 2] end_stream_channel_status[OF 1] ch show ?case by simp
qed


text \<open>
  C8, as amended. The handler of \<open>final.js\<close> and of the variant with \<open>/start-stream\<close>
  first loads the academy and the company credentials: when the academy cannot be read,
  is missing or has no tokens, or the company credentials cannot be obtained, it
  answers with an error (500 or 400) and no request is sent on either channel. Once
  both credentials are there, both \<open>endBroadcast\<close> processes run to their end under
  every schedule and both list requests are sent; when both fulfil, the answer reports
  the two booleans; when either rejects, the answer is one 500 carrying a rejection's
  message and no per-channel report. A search that finds no match yields \<open>false\<close>, not
  an error. In the token-file variant the answer to a request with a title lists one
  report per channel of \<open>CHANNELS\<close>, in order, each with one of the statuses
  \<open>no_tokens\<close>, \<open>invalid_tokens\<close>, \<open>error\<close>, \<open>not_found\<close>, \<open>success\<close>.
\<close>

theorem end_stream_reports:
  assumes found: "Academy_findOne env (es_academyId rq) st = (ra0, st0)"
      and company: "getCompanyOAuthClient env st0 = (rcomp, st1)"
      and title: "truthy title"
  shows "(case ra0 of
            Inl e \<Rightarrow> end_stream title_test env schedule rq st = (EndStreamError 500 e, st0) \<and>
                     st_trace st0 = st_trace st
          | Inr None \<Rightarrow>
              end_stream title_test env schedule rq st =
                (EndStreamError 400 ''Academy not authenticated'', st0) \<and>
              st_trace st0 = st_trace st
          | Inr (Some academy) \<Rightarrow>
              (if a_youtubeTokens academy = None then
                 end_stream title_test env schedule rq st =
                   (EndStreamError 400 ''Academy not authenticated'', st0) \<and>
                 st_trace st0 = st_trace st
               else
                 (case rcomp of
                    Inl e \<Rightarrow>
                      end_stream title_test env schedule rq st = (EndStreamError 500 e, st1) \<and>
                      st_trace st1 = st_trace st
                  | Inr cc \<Rightarrow>
                      (\<exists>ra rc rej st2 evs.
                         run_both (title_test academy (es_title rq)) env (a_youtubeTokens academy) cc
                            (schedule @ [True, True, False, False]) Searching Searching None st1 =
                           ((Settled ra, Settled rc, rej), st2) \<and>
                         st_trace st2 = st_trace st @ evs \<and>
                         EvBroadcastsListActive (a_youtubeTokens academy) \<in> set evs \<and>
                         EvBroadcastsListActive cc \<in> set evs \<and>
                         (case (ra, rc) of
                            (Inr academyEnded, Inr companyEnded) \<Rightarrow>
                              end_stream title_test env schedule rq st =
                                (EndStreamOk academyEnded companyEnded, st2)
                          | _ \<Rightarrow>
                              (\<exists>e. end_stream title_test env schedule rq st =
                                      (EndStreamError 500 e, st2) \<and>
                                   (ra = Inl e \<or> rc = Inl e)))))))
       \<and> (\<forall>test auth ic items st3 st4.
             call (liveBroadcasts_list_active env auth) (EvBroadcastsListActive auth) st3 =
               (Inr items, st4) \<and>
             find (test ic) items = None \<longrightarrow>
             endBroadcast test env auth ic st3 = (Inr False, st4))
       \<and> (\<exists>results lst'.
             legacy_end_stream env2 CHANNELS title lst = (LegacyEndResults results, lst') \<and>
             map rep_channelName results = map fst CHANNELS \<and>
             list_all (\<lambda>r. rep_status r \<in> set report_statuses) results)"
proof -
  have t0: "st_trace st0 = st_trace st" using Academy_findOne_effect[OF found] by simp
  have t1: "st_trace st1 = st_trace st"
    using getCompanyOAuthClient_effect[OF company] t0 by simp
  have A: "(case ra0 of
            Inl e \<Rightarrow> end_stream title_test env schedule rq st = (EndStreamError 500 e, st0) \<and>
                     st_trace st0 = st_trace st
          | Inr None \<Rightarrow>
              end_stream title_test env schedule rq st =
                (EndStreamError 400 ''Academy not authenticated'', st0) \<and>
              st_trace st0 = st_trace st
          | Inr (Some academy) \<Rightarrow>
              (if a_youtubeTokens academy = None then
                 end_stream title_test env schedule rq st =
                   (EndStreamError 400 ''Academy not authenticated'', st0) \<and>
                 st_trace st0 = st_trace st
               else
                 (case rcomp of
                    Inl e \<Rightarrow>
                      end_stream title_test env schedule rq st = (EndStreamError 500 e, st1) \<and>
                      st_trace st1 = st_trace st
                  | Inr cc \<Rightarrow>
                      (\<exists>ra rc rej st2 evs.
                         run_both (title_test academy (es_title rq)) env (a_youtubeTokens academy) cc
                            (schedule @ [True, True, False, False]) Searching Searching None st1 =
                           ((Settled ra, Settled rc, rej), st2) \<and>
                         st_trace st2 = st_trace st @ evs \<and>
                         EvBroadcastsListActive (a_youtubeTokens academy) \<in> set evs \<and>
                         EvBroadcastsListActive cc \<in> set evs \<and>
                         (case (ra, rc) of
                            (Inr academyEnded, Inr companyEnded) \<Rightarrow>
                              end_stream title_test env schedule rq st =
                                (EndStreamOk academyEnded companyEnded, st2)
                          | _ \<Rightarrow>
                              (\<exists>e. end_stream title_test env schedule rq st =
                                      (EndStreamError 500 e, st2) \<and>
                                   (ra = Inl e \<or> rc = Inl e)))))))"
  proof (cases ra0)
    case (Inl e)
    with found t0 show ?thesis by (simp add: end_stream_def)
  next
    case (Inr oa)
    show ?thesis
    proof (cases oa)
      case None
      with Inr found t0 show ?thesis by (simp add: end_stream_def)
    next
      case (Some academy)
      show ?thesis
      proof (cases "a_youtubeTokens academy = None")
        case True
        with Some Inr found t0 show ?thesis by (simp add: end_stream_def)
      next
        case tokens: False
        show ?thesis
        proof (cases rcomp)
          case (Inl e)
          with tokens Some Inr found company t1 show ?thesis
            by (auto simp: end_stream_def)
        next
          case (Inr cc)
          let ?test = "title_test academy (es_title rq)"
          let ?ca = "a_youtubeTokens academy"
          obtain pa pc rej st2 where run:
            "run_both ?test env ?ca cc (schedule @ [True, True, False, False]) Searching Searching None st1 =
               ((pa, pc, rej), st2)"
            by (metis prod_cases3 surj_pair)
          from promise_all_outcome[OF run] obtain ra rc where o:
            "pa = Settled ra" "pc = Settled rc"
            "promise_all_endBroadcast ?test env ?ca cc schedule st1 =
               (case (ra, rc) of
                  (Inr academyEnded, Inr companyEnded) \<Rightarrow> Inr (academyEnded, companyEnded)
                | _ \<Rightarrow> Inl (case rej of Some e \<Rightarrow> e | None \<Rightarrow> []), st2)"
            "(isl ra \<or> isl rc) \<longleftrightarrow> rej \<noteq> None"
            "\<forall>e. rej = Some e \<longrightarrow> ra = Inl e \<or> rc = Inl e" by blast
          have t0': "st_trace st1 = st_trace st @ []" using t1 by simp
          have "searches_sent ?ca cc Searching Searching []" by (simp add: searches_sent_def)
          from run_both_searches[OF this t0' run] obtain evs where e:
            "st_trace st2 = st_trace st @ evs" "searches_sent ?ca cc pa pc evs" by blast
          have sent: "EvBroadcastsListActive ?ca \<in> set evs" "EvBroadcastsListActive cc \<in> set evs"
            using e(2) o(1,2) by (simp_all add: searches_sent_def)
          have h: "end_stream title_test env schedule rq st =
                (case promise_all_endBroadcast ?test env ?ca cc schedule st1 of
                   (Inl e, st2) \<Rightarrow> (EndStreamError 500 e, st2)
                 | (Inr (academyEnded, companyEnded), st2) \<Rightarrow> (EndStreamOk academyEnded companyEnded, st2))"
            using found \<open>ra0 = Inr oa\<close> Some tokens company Inr by (auto simp: end_stream_def)
          have resp: "(case (ra, rc) of
                      (Inr academyEnded, Inr companyEnded) \<Rightarrow>
                        end_stream title_test env schedule rq st = (EndStreamOk academyEnded companyEnded, st2)
                    | _ \<Rightarrow>
                        (\<exists>e. end_stream title_test env schedule rq st = (EndStreamError 500 e, st2) \<and>
                             (ra = Inl e \<or> rc = Inl e)))"
            using o(3,4,5) unfolding h by (cases ra; cases rc; cases rej) auto
          have "\<exists>ra rc rej st2 evs.
                   run_both ?test env ?ca cc (schedule @ [True, True, False, False]) Searching Searching None st1 =
                     ((Settled ra, Settled rc, rej), st2) \<and>
                   st_trace st2 = st_trace st @ evs \<and>
                   EvBroadcastsListActive ?ca \<in> set evs \<and>
                   EvBroadcastsListActive cc \<in> set evs \<and>
                   (case (ra, rc) of
                      (Inr academyEnded, Inr companyEnded) \<Rightarrow>
                        end_stream title_test env schedule rq st = (EndStreamOk academyEnded companyEnded, st2)
                    | _ \<Rightarrow>
                        (\<exists>e. end_stream title_test env schedule rq st = (EndStreamError 500 e, st2) \<and>
                             (ra = Inl e \<or> rc = Inl e)))"
            using run[unfolded o(1,2)] e(1) sent resp by blast
          with tokens Some \<open>ra0 = Inr oa\<close> Inr show ?thesis by auto
        qed
      qed
    qed
  qed
  have B: "\<forall>test auth ic items st3 st4.
             call (liveBroadcasts_list_active env auth) (EvBroadcastsListActive auth) st3 =
               (Inr items, st4) \<and>
             find (test ic) items = None \<longrightarrow>
             endBroadcast test env auth ic st3 = (Inr False, st4)"
    by (simp add: endBroadcast_def)
  obtain results lst' where l: "end_stream_channels env2 (or_default title []) CHANNELS lst = (results, lst')"
    by (cases "end_stream_channels env2 (or_default title []) CHANNELS lst")
  from end_stream_channels_reports[OF l] l title
  have C: "\<exists>results lst'.
           legacy_end_stream env2 CHANNELS title lst = (LegacyEndResults results, lst') \<and>
           map rep_channelName results = map fst CHANNELS \<and>
           list_all (\<lambda>r. rep_status r \<in> set report_statuses) results"
    by (simp add: legacy_end_stream_def)
  from A B C show ?thesis by (intro conjI)
qed

lemmas end_stream_defs =
  end_stream_def end_stream_final_def end_stream_normalized_def promise_all_endBroadcast_def
  endBroadcast_step_def note_rejection_def title_test_final_def title_test_normalized_def
  compareStrings_def normalize_def trim_def isWhiteSpace_def demo_end_request_def
  demo_after_go_live_def demo_academy_live_def

lemma demo_go_live_succeeds:
  "\<exists>academyStream companyStream.
     go_live_now True sim_services demo_go_live_request demo_state =
       (GoLiveSuccess academyStream companyStream, demo_after_go_live)"
  by (simp add: go_live_defs run_defs demo_after_go_live_def demo_academy_live_def)

lemma demo_final_run:
  "fst (run_both (title_test_final demo_academy_live ''U15 vs U17'') sim_services
          (Some ''academy-tokens'') (Some ''company-tokens'') ([] @ [True, True, False, False])
          Searching Searching None demo_after_go_live) =
   (Settled (Inr True), Settled (Inr False), None)"
  by (simp add: end_stream_defs run_defs)

theorem end_stream_reports_witness:
  "fst (end_stream title_test_final sim_services [] demo_end_request demo_after_go_live) =
     EndStreamOk True False \<and>
   (\<exists>evs. st_trace (snd (end_stream title_test_final sim_services [] demo_end_request
                          demo_after_go_live)) = st_trace demo_after_go_live @ evs \<and>
      EvBroadcastsListActive (Some ''academy-tokens'') \<in> set evs \<and>
      EvBroadcastsListActive (Some ''company-tokens'') \<in> set evs) \<and>
   end_stream title_test_final sim_services [] demo_end_request demo_no_company =
     (EndStreamError 500 ''Company not authenticated'', demo_no_company) \<and>
   (\<exists>results lst'.
      legacy_end_stream sim_services demo_CHANNELS (Some ''U15 vs U17'') demo_after_go_live =
        (LegacyEndResults results, lst') \<and>
      map rep_channelName results = [''ourChannel'', ''customerChannel''])"
proof -
  have found: "Academy_findOne sim_services (es_academyId demo_end_request) demo_after_go_live =
                 (Inr (Some demo_academy_live), demo_after_go_live)"
    by (simp add: run_defs demo_end_request_def demo_after_go_live_def demo_academy_live_def)
  have company: "getCompanyOAuthClient sim_services demo_after_go_live =
                   (Inr (Some ''company-tokens''), demo_after_go_live)"
    by (simp add: run_defs demo_after_go_live_def)
  have found': "Academy_findOne sim_services (es_academyId demo_end_request) demo_no_company =
                 (Inr (Some demo_academy_live), demo_no_company)"
    by (simp add: run_defs demo_end_request_def demo_after_go_live_def demo_academy_live_def
        demo_no_company_def)
  have company': "getCompanyOAuthClient sim_services demo_no_company =
                   (Inl ''Company not authenticated'', demo_no_company)"
    by (simp add: run_defs demo_after_go_live_def demo_no_company_def)
  have title: "truthy (Some ''U15 vs U17'')" by (simp add: truthy_def)
  have ids: "es_title demo_end_request = ''U15 vs U17''"
    "a_youtubeTokens demo_academy_live = Some ''academy-tokens''"
    "map fst demo_CHANNELS = [''ourChannel'', ''customerChannel'']"
    by (simp_all add: demo_end_request_def demo_academy_live_def demo_academy_def demo_CHANNELS_def)
  note inst = end_stream_reports[OF found company title,
         of title_test_final "[]" sim_services demo_CHANNELS demo_after_go_live]
  note inst' = end_stream_reports[OF found' company' title,
         of title_test_final "[]" sim_services demo_CHANNELS demo_after_go_live]
  have 1: "fst (end_stream title_test_final sim_services [] demo_end_request demo_after_go_live) =
     EndStreamOk True False \<and>
   (\<exists>evs. st_trace (snd (end_stream title_test_final sim_services [] demo_end_request
                          demo_after_go_live)) = st_trace demo_after_go_live @ evs \<and>
      EvBroadcastsListActive (Some ''academy-tokens'') \<in> set evs \<and>
      EvBroadcastsListActive (Some ''company-tokens'') \<in> set evs)"
    using inst demo_final_run by (auto simp: ids)
  have 2: "end_stream title_test_final sim_services [] demo_end_request demo_no_company =
     (EndStreamError 500 ''Company not authenticated'', demo_no_company)"
    using inst' by (simp add: ids)
  have 3: "(\<exists>results lst'.
      legacy_end_stream sim_services demo_CHANNELS (Some ''U15 vs U17'') demo_after_go_live =
        (LegacyEndResults results, lst') \<and>
      map rep_channelName results = [''ourChannel'', ''customerChannel''])"
    using inst by (auto simp: ids)
  from 1 2 3 show ?thesis by blast
qed

text \<open>
  The claim as stated fails on the handlers built on \<open>Promise.all\<close>: with the academy
  channel's list request rejected, the company channel's broadcast is found and
  transitioned to \<open>complete\<close>, yet the answer is the 500 with the academy's error and
  nothing about the company channel.
\<close>

theorem end_stream_error_counterexample:
  "fst (end_stream_normalized (sim_services_rejecting (Some ''academy-tokens'')) []
          demo_end_request demo_after_go_live) = EndStreamError 500 ''forbidden'' \<and>
   EvBroadcastsTransition (Some ''company-tokens'') ''broadcastiii'' ''complete'' \<in>
     set (st_trace (snd (end_stream_normalized (sim_services_rejecting (Some ''academy-tokens'')) []
                           demo_end_request demo_after_go_live))) \<and>
   fst (end_stream_final (sim_services_rejecting (Some ''academy-tokens'')) []
          demo_end_request demo_after_go_live) = EndStreamError 500 ''forbidden''"
  by (simp add: end_stream_defs run_defs)

text \<open>
  C6 (the code departs from the claim). After a go-live of \<open>final.js\<close> with title
  "U15 vs U17" has created and bound a broadcast with that title on both channels, an
  end-stream request of \<open>final.js\<close> with the same title ends the academy channel's
  broadcast only: on the company channel it looks for the title "Acad - U15 vs U17",
  which the go-live never gave to a broadcast.
\<close>

theorem round_trip_company_not_ended:
  "(\<exists>academyStream companyStream.
      go_live_now True sim_services demo_go_live_request demo_state =
        (GoLiveSuccess academyStream companyStream, demo_after_go_live)) \<and>
   map (\<lambda>(c, b). (c, snippet_title b, status_lifeCycleStatus b))
     (sim_broadcasts (st_world demo_after_go_live)) =
     [(Some ''academy-tokens'', ''U15 vs U17'', ''ready''),
      (Some ''company-tokens'', ''U15 vs U17'', ''ready'')] \<and>
   fst (end_stream_final sim_services [] demo_end_request demo_after_go_live) =
     EndStreamOk True False \<and>
   fst (end_stream_final sim_services [False, False, True, True] demo_end_request
          demo_after_go_live) = EndStreamOk True False"
  by (simp add: go_live_defs end_stream_defs run_defs)

lemma round_trip_normalized:
  "fst (end_stream_normalized sim_services [] demo_end_request demo_after_go_live) =
     EndStreamOk True True"
  by (simp add: end_stream_defs run_defs)

section \<open>Title matching\<close>

lemma replace_no_ws:
  "list_all (\<lambda>x. \<not> isWhiteSpace x) w \<Longrightarrow> replace_ws_runs_space (w @ x) = w @ replace_ws_runs_space x"
  by (induction w) auto

lemma rtrim_append_keep:
  "\<not> list_all isWhiteSpace b \<Longrightarrow> rtrim (a @ b) = a @ rtrim b"
  by (simp add: list_all_iff dropWhile_append1)
    (metis dropWhile_append1 rev_append rev_rev_ident set_rev)

lemma rtrim_append_drop:
  "list_all isWhiteSpace b \<Longrightarrow> rtrim (a @ b) = rtrim a"
  using dropWhile_append2[of "rev b" isWhiteSpace "rev a"] by (simp add: list_all_iff)

lemma rtrim_id: "a \<noteq> [] \<Longrightarrow> \<not> isWhiteSpace (last a) \<Longrightarrow> rtrim a = a"
  by (cases a rule: rev_cases) auto

lemma rtrim_hd: "v \<noteq> [] \<Longrightarrow> \<not> isWhiteSpace (hd v) \<Longrightarrow> \<exists>t. rtrim v = hd v # t"
proof -
  assume a: "v \<noteq> []" "\<not> isWhiteSpace (hd v)"
  then obtain x xs where v: "v = x # xs" by (cases v) auto
  show ?thesis
  proof (cases "list_all isWhiteSpace xs")
    case True
    then have "rtrim ([x] @ xs) = rtrim [x]" by (rule rtrim_append_drop)
    with a v show ?thesis by simp
  next
    case False
    then have "rtrim ([x] @ xs) = [x] @ rtrim xs" by (rule rtrim_append_keep)
    with v show ?thesis by simp
  qed
qed

lemma normalize_words: "normalize s = join_spaces (ws_words s)"
proof (induction s rule: ws_words.induct)
  case (1 s)
  let ?P = isWhiteSpace and ?N = "\<lambda>x. \<not> isWhiteSpace x"
  show ?case
  proof (cases "dropWhile ?P s")
    case Nil
    show ?thesis unfolding normalize_def trim_def ws_words.simps[of s] Nil by simp
  next
    case (Cons c cs)
    let ?w = "c # takeWhile ?N cs" and ?rest = "dropWhile ?N cs"
    have Nc: "?N c" using Cons by (metis hd_dropWhile list.distinct(1) list.sel(1))
    have parts: "?w @ ?rest = c # cs" by simp
    have wN: "list_all ?N ?w" using Nc by (auto simp: list_all_iff dest: set_takeWhileD)
    have wlast: "?N (last ?w)" using wN by (metis last_in_set list.distinct(1) list_all_iff)
    have IH: "normalize ?rest = join_spaces (ws_words ?rest)" using 1[OF Cons] .
    have ws: "ws_words s = ?w # ws_words ?rest" unfolding ws_words.simps[of s] Cons by simp
    have tr: "trim s = rtrim (c # cs)" by (simp only: trim_def Cons)
    have n: "normalize s = replace_ws_runs_space (rtrim (?w @ ?rest))"
      apply (subst parts)
      apply (simp only: normalize_def tr)
      done
    show ?thesis
    proof (cases "list_all ?P ?rest")
      case True
      then have d: "dropWhile ?P ?rest = []" by (metis dropWhile_eq_Nil_conv list_all_iff)
      have e: "ws_words ?rest = []" unfolding ws_words.simps[of ?rest] d by simp
      have a1: "rtrim (?w @ ?rest) = rtrim ?w" by (rule rtrim_append_drop[OF True])
      have a2: "rtrim ?w = ?w" by (rule rtrim_id[OF _ wlast]) simp
      have a3: "replace_ws_runs_space ?w = ?w"
        using replace_no_ws[OF wN, of "[]"] by (simp only: append_Nil2 replace_ws_runs_space.simps(1))
      have "normalize s = ?w" by (simp only: n a1 a2 a3)
      moreover have "join_spaces (ws_words s) = ?w" by (simp only: ws e join_spaces.simps)
      ultimately show ?thesis by (rule trans[OF _ sym])
    next
      case False
      let ?u = "takeWhile ?P ?rest" and ?v = "dropWhile ?P ?rest"
      have vne: "?v \<noteq> []" using False by (metis dropWhile_eq_Nil_conv list_all_iff)
      have vhd: "?N (hd ?v)" using vne by (rule hd_dropWhile)
      have vnot: "\<not> list_all ?P ?v" using vne vhd by (metis hd_in_set list_all_iff)
      have restne: "?rest \<noteq> []" using vne by (metis dropWhile.simps(1))
      have resthd: "?P (hd ?rest)" using hd_dropWhile[OF restne] by simp
      then obtain r u' where u: "?u = r # u'" "?P r" using restne
        by (cases ?rest) auto
      have uP: "list_all ?P u'" using u(1) by (metis list.set_intros(2) list_all_iff set_takeWhileD)
      from rtrim_hd[OF vne vhd] obtain t where t: "rtrim ?v = hd ?v # t" by blast
      have 1: "rtrim (?w @ ?rest) = ?w @ rtrim ?rest" using False by (rule rtrim_append_keep)
      have uv: "?u @ ?v = ?rest" by (rule takeWhile_dropWhile_id)
      have 2: "rtrim ?rest = ?u @ rtrim ?v"
        using rtrim_append_keep[OF vnot, of ?u] by (simp only: uv)
      have d1: "dropWhile ?P (u' @ rtrim ?v) = dropWhile ?P (rtrim ?v)"
        by (rule dropWhile_append2) (use uP in \<open>simp add: list_all_iff\<close>)
      have d2: "dropWhile ?P (rtrim ?v) = rtrim ?v"
        by (simp only: t dropWhile.simps vhd if_False)
      have 3: "replace_ws_runs_space (?u @ rtrim ?v) = CHR '' '' # replace_ws_runs_space (rtrim ?v)"
        by (simp only: u append_Cons replace_ws_runs_space.simps(2) if_True d1 d2)
      have 4: "replace_ws_runs_space (rtrim ?v) = join_spaces (ws_words ?rest)"
        using IH by (simp only: normalize_def trim_def)
      obtain x xs where vx: "?v = x # xs" using vne by (cases ?v) auto
      have ne: "ws_words ?rest \<noteq> []" unfolding ws_words.simps[of ?rest] vx by simp
      then obtain y ys where yy: "ws_words ?rest = y # ys" by (cases "ws_words ?rest") auto
      have "normalize s = ?w @ CHR '' '' # join_spaces (ws_words ?rest)"
        by (simp only: n 1 2 3 4 replace_no_ws[OF wN])
      moreover have "join_spaces (ws_words s) = ?w @ CHR '' '' # join_spaces (ws_words ?rest)"
        by (simp only: ws yy join_spaces.simps)
      ultimately show ?thesis by (rule trans[OF _ sym])
    qed
  qed
qed


lemma ws_words_Nil [simp]: "ws_words [] = []"
  by (simp add: ws_words.simps[of "[]"])

lemma ws_words_skip: "isWhiteSpace c \<Longrightarrow> ws_words (c # x) = ws_words x"
  by (simp add: ws_words.simps[of "c # x"] ws_words.simps[of x])

lemma ws_words_word:
  assumes "w \<noteq> []" "list_all (\<lambda>x. \<not> isWhiteSpace x) w" "x = [] \<or> isWhiteSpace (hd x)"
  shows "ws_words (w @ x) = w # ws_words x"
proof -
  let ?N = "\<lambda>x. \<not> isWhiteSpace x"
  from assms(1) obtain c cs where w: "w = c # cs" by (cases w) auto
  with assms(2) have c: "?N c" and cs: "\<forall>y\<in>set cs. ?N y" by (simp_all add: list_all_iff)
  have d: "dropWhile isWhiteSpace (w @ x) = c # (cs @ x)" using w c by simp
  have t: "takeWhile ?N (cs @ x) = cs"
  proof (cases x)
    case Nil
    then show ?thesis using cs by simp
  next
    case (Cons y ys)
    with assms(3) have "isWhiteSpace y" by simp
    then show ?thesis using cs Cons by (simp add: takeWhile_append2)
  qed
  have r: "dropWhile ?N (cs @ x) = x"
  proof (cases x)
    case Nil
    then show ?thesis using cs by simp
  next
    case (Cons y ys)
    with assms(3) have "isWhiteSpace y" by simp
    then show ?thesis using cs Cons by (simp add: dropWhile_append2)
  qed
  show ?thesis unfolding ws_words.simps[of "w @ x"] d by (simp only: list.case t r w)
qed

lemma ws_words_clean: "clean_words (ws_words s)"
proof (induction s rule: ws_words.induct)
  case (1 s)
  show ?case
  proof (cases "dropWhile isWhiteSpace s")
    case Nil
    show ?thesis unfolding ws_words.simps[of s] Nil by (simp add: clean_words_def)
  next
    case (Cons c cs)
    have "\<not> isWhiteSpace c" using Cons by (metis hd_dropWhile list.distinct(1) list.sel(1))
    moreover have "list_all (\<lambda>x. \<not> isWhiteSpace x) (takeWhile (\<lambda>x. \<not> isWhiteSpace x) cs)"
      by (auto simp: list_all_iff dest: set_takeWhileD)
    moreover note 1[OF Cons]
    ultimately show ?thesis unfolding ws_words.simps[of s] Cons by (simp add: clean_words_def)
  qed
qed

lemma space_is_ws: "isWhiteSpace CHR '' ''"
  by (simp add: isWhiteSpace_def)

lemma ws_words_join: "clean_words ws \<Longrightarrow> ws_words (join_spaces ws) = ws"
proof (induction ws rule: join_spaces.induct)
  case 1
  then show ?case by simp
next
  case (2 w)
  then show ?case using ws_words_word[of w "[]"] by (simp add: clean_words_def)
next
  case (3 w v ws)
  then have IH: "ws_words (join_spaces (v # ws)) = v # ws" by (simp add: clean_words_def)
  have "ws_words (w @ CHR '' '' # join_spaces (v # ws)) = w # ws_words (CHR '' '' # join_spaces (v # ws))"
    using 3(2) by (intro ws_words_word) (simp_all add: clean_words_def space_is_ws)
  then show ?case using IH by (simp add: ws_words_skip[OF space_is_ws])
qed

lemma compareStrings_words: "compareStrings a b \<longleftrightarrow> ws_words a = ws_words b"
proof
  assume "compareStrings a b"
  then have "join_spaces (ws_words a) = join_spaces (ws_words b)"
    by (simp add: compareStrings_def normalize_words)
  then have "ws_words (join_spaces (ws_words a)) = ws_words (join_spaces (ws_words b))" by simp
  then show "ws_words a = ws_words b" by (simp add: ws_words_join ws_words_clean)
next
  assume "ws_words a = ws_words b"
  then show "compareStrings a b" by (simp add: compareStrings_def normalize_words)
qed


text \<open>
  C5, as amended. In the variant with \<open>/start-stream\<close> the terminator matches titles
  with \<open>compareStrings\<close>, on the academy channel and on the company channel alike.
  \<open>normalize\<close> (trim, then every white-space run replaced by one space) yields the words
  of the string joined by single spaces, so the match holds exactly when the
  broadcast's title and the target have the same words, letter case included: it
  considers "Team A  vs   Team B" and "Team A vs Team B" equal, in either order, and
  tells "TeamA vs Team B", "Team A vs Team C" and "team a vs team b" from
  "Team A vs Team B". The terminator of \<open>final.js\<close> does not normalise: it matches a
  broadcast only when its title is the target itself (academy channel) or the academy's
  name, " - " and the target (company channel).
\<close>

theorem title_match_normalizes_whitespace:
  "(\<forall>s. normalize s = spec_normalize s) \<and>
   (\<forall>a b. compareStrings a b \<longleftrightarrow> ws_words a = ws_words b) \<and>
   (\<forall>academy title isCompanyChannel b.
      title_test_normalized academy title isCompanyChannel b \<longleftrightarrow>
        ws_words (snippet_title b) = ws_words title) \<and>
   compareStrings ''Team A  vs   Team B'' ''Team A vs Team B'' \<and>
   compareStrings ''Team A vs Team B'' ''Team A  vs   Team B'' \<and>
   \<not> compareStrings ''TeamA vs Team B'' ''Team A vs Team B'' \<and>
   \<not> compareStrings ''Team A vs Team C'' ''Team A vs Team B'' \<and>
   \<not> compareStrings ''team a vs team b'' ''Team A vs Team B'' \<and>
   (\<forall>academy title b.
      (title_test_final academy title False b \<longleftrightarrow> snippet_title b = title) \<and>
      (title_test_final academy title True b \<longleftrightarrow>
         snippet_title b = a_name academy @ '' - '' @ title))"
proof -
  have w1: "ws_words ''Team A  vs   Team B'' = [''Team'', ''A'', ''vs'', ''Team'', ''B'']"
    by (simp add: ws_words.simps isWhiteSpace_def)
  have w2: "ws_words ''Team A vs Team B'' = [''Team'', ''A'', ''vs'', ''Team'', ''B'']"
    by (simp add: ws_words.simps isWhiteSpace_def)
  have w3: "ws_words ''TeamA vs Team B'' = [''TeamA'', ''vs'', ''Team'', ''B'']"
    by (simp add: ws_words.simps isWhiteSpace_def)
  have w4: "ws_words ''Team A vs Team C'' = [''Team'', ''A'', ''vs'', ''Team'', ''C'']"
    by (simp add: ws_words.simps isWhiteSpace_def)
  have w5: "ws_words ''team a vs team b'' = [''team'', ''a'', ''vs'', ''team'', ''b'']"
    by (simp add: ws_words.simps isWhiteSpace_def)
  show ?thesis
    by (simp add: normalize_words spec_normalize_def compareStrings_words
        title_test_normalized_def title_test_final_def w1 w2 w3 w4 w5)
qed

text \<open>
  The claim as stated fails on \<open>final.js\<close>: its test tells "Team A  vs   Team B" from
  "Team A vs Team B" on both channels, with or without the academy's name in front, so
  an end-stream request for "Team A vs Team B" ends neither of the active broadcasts
  titled "Team A  vs   Team B", under either order of the two searches.
\<close>

theorem title_match_final_counterexample:
  "\<not> title_test_final demo_academy ''Team A vs Team B'' False
       (demo_titled ''b1'' ''Team A  vs   Team B'') \<and>
   \<not> title_test_final demo_academy ''Team A vs Team B'' True
       (demo_titled ''b2'' ''Team A  vs   Team B'') \<and>
   \<not> title_test_final demo_academy ''Team A vs Team B'' True
       (demo_titled ''b3'' ''Acad - Team A  vs   Team B'') \<and>
   sim_broadcasts (st_world demo_spaced_state) =
     [(Some ''academy-tokens'', demo_titled ''b1'' ''Team A  vs   Team B''),
      (Some ''company-tokens'', demo_titled ''b2'' ''Team A  vs   Team B''),
      (Some ''company-tokens'', demo_titled ''b3'' ''Acad - Team A  vs   Team B'')] \<and>
   fst (end_stream_final sim_services [] demo_spaced_request demo_spaced_state) =
     EndStreamOk False False \<and>
   fst (end_stream_final sim_services [False, True, False, True] demo_spaced_request
          demo_spaced_state) = EndStreamOk False False"
  by (simp add: end_stream_defs run_defs demo_spaced_state_def demo_spaced_request_def
      demo_titled_def)

text \<open>
  On the same state the variant with \<open>/start-stream\<close> ends a broadcast on both channels,
  and the token-file variant, which compares after \<open>toLowerCase\<close> only, reports
  \<open>not_found\<close>.
\<close>

lemma spaced_titles_other_variants:
  "fst (end_stream_normalized sim_services [] demo_spaced_request demo_spaced_state) =
     EndStreamOk True True \<and>
   (case fst (legacy_end_stream sim_services demo_CHANNELS (Some ''Team A vs Team B'')
                demo_spaced_state) of
      LegacyEndResults results \<Rightarrow> map rep_status results
    | LegacyEndError _ _ \<Rightarrow> []) = [''no_tokens'', ''not_found'']"
  by (simp add: end_stream_defs run_defs demo_spaced_state_def demo_spaced_request_def
      demo_titled_def replace_ws_runs_space.simps legacy_end_stream_def end_stream_channel_def
      validateTokens_def demo_CHANNELS_def toLowerCase_def toLowerCase_char_def Let_def)

end
